(* ===== verification/Prelude.thy ===== *)
theory Prelude
  imports Complex_Main "HOL-Library.Code_Target_Numeral"
begin

text \<open>
  Shared vocabulary of the development: the error values a JavaScript built-in or a
  property access can throw, the ASCII character classes that the regular expressions
  and the number parsers of the scripts use (\<open>\d\<close>, \<open>\s\<close>, \<open>\w\<close>), decimal digits,
  and the generic list lemmas the component theories share.  Strings are \<open>char list\<close>
  (bytes); the scripts only ever handle ASCII amounts, separators and placeholders.
\<close>

named_theorems js_simps "evaluation equations of the modelled JavaScript built-ins"
named_theorems dom_simps "characteristic equations of the DOM operations"

section \<open>Errors\<close>

text \<open>
  A JavaScript exception that escapes a handler.  \<open>TypeError\<close>: a property read on
  \<open>null\<close>/\<open>undefined\<close> (\<open>formatString.match(...)[1]\<close> when nothing matches);
  \<open>ReferenceError\<close>: an undeclared global (\<open>theme\<close> when the theme script did not run);
  \<open>RangeError\<close>: \<open>Intl.NumberFormat\<close> given a currency code it rejects.
\<close>

datatype js_error = TypeError | ReferenceError | RangeError

type_synonym 'a js_result = "js_error + 'a"

section \<open>Character classes\<close>

definition is_digit :: "char \<Rightarrow> bool" where
  "is_digit c \<longleftrightarrow> 48 \<le> (of_char c :: nat) \<and> (of_char c :: nat) \<le> (57::nat)"

text \<open>JavaScript's white space and line terminators (\<open>\s\<close>, \<open>trim\<close> and the
  StrWhiteSpaceChar of the number parsers) on the characters of the model, the code
  points up to U+00FF: space, tab, line feed, vertical tab, form feed, carriage return
  and the no-break space U+00A0.\<close>

definition is_space :: "char \<Rightarrow> bool" where
  "is_space c \<longleftrightarrow> (of_char c :: nat) = (32::nat) \<or> (9 \<le> (of_char c :: nat) \<and> (of_char c :: nat) \<le> (13::nat))
     \<or> (of_char c :: nat) = (160::nat)"

text \<open>\<open>\w\<close>: \<open>[A-Za-z0-9_]\<close>.\<close>

definition is_word :: "char \<Rightarrow> bool" where
  "is_word c \<longleftrightarrow> is_digit c \<or> (65 \<le> (of_char c :: nat) \<and> (of_char c :: nat) \<le> (90::nat))
     \<or> (97 \<le> (of_char c :: nat) \<and> (of_char c :: nat) \<le> (122::nat)) \<or> (of_char c :: nat) = (95::nat)"

definition digit_char :: "nat \<Rightarrow> char" where
  "digit_char d = char_of (48 + d)"

definition digit_val :: "char \<Rightarrow> nat" where
  "digit_val c = (of_char c :: nat) - 48"

lemma of_char_digit_char [simp]: "d < 10 \<Longrightarrow> of_char (digit_char d) = 48 + d"
  by (simp add: digit_char_def)

lemma is_digit_digit_char [simp, intro]: "d < 10 \<Longrightarrow> is_digit (digit_char d)"
  by (simp add: is_digit_def)

lemma digit_val_digit_char [simp]: "d < 10 \<Longrightarrow> digit_val (digit_char d) = d"
  by (simp add: digit_val_def)

lemma digit_char_simps [simp]:
  "digit_char 0 = CHR ''0''" "digit_char 1 = CHR ''1''" "digit_char 2 = CHR ''2''"
  "digit_char 3 = CHR ''3''" "digit_char 4 = CHR ''4''" "digit_char 5 = CHR ''5''"
  "digit_char 6 = CHR ''6''" "digit_char 7 = CHR ''7''" "digit_char 8 = CHR ''8''"
  "digit_char 9 = CHR ''9''" "digit_char (Suc 0) = CHR ''1''"
  by (simp_all add: digit_char_def) code_simp+

lemma digit_not_space [simp]: "is_digit c \<Longrightarrow> \<not> is_space c"
  by (simp add: is_digit_def is_space_def)

lemma digit_is_word [simp]: "is_digit c \<Longrightarrow> is_word c"
  by (simp add: is_word_def)

lemma digit_val_less [simp]: "is_digit c \<Longrightarrow> digit_val c < 10"
  unfolding is_digit_def digit_val_def by linarith

lemma digit_char_digit_val [simp]: "is_digit c \<Longrightarrow> digit_char (digit_val c) = c"
  by (simp add: is_digit_def digit_val_def digit_char_def)

text \<open>The punctuation the formatters emit is neither a digit nor white space.\<close>

lemma punct_classes [simp]:
  "\<not> is_digit CHR ''.''" "\<not> is_digit CHR '',''" "\<not> is_digit CHR ''-''"
  "\<not> is_space CHR ''.''" "\<not> is_space CHR '',''" "\<not> is_space CHR ''-''"
  "\<not> is_digit CHR ''$''" "\<not> is_space CHR ''$''" "\<not> is_space CHR ''{''"
  "\<not> is_word CHR ''.''" "\<not> is_word CHR '',''" "\<not> is_word CHR ''}''"
  by (simp_all add: is_digit_def is_space_def is_word_def)

lemma digit_char_eq_zero: "d < 10 \<Longrightarrow> digit_char d = CHR ''0'' \<longleftrightarrow> d = 0"
  by (metis digit_char_simps(1) digit_val_digit_char zero_less_numeral)


lemma digit_char_not_point [simp]: "d < 10 \<Longrightarrow> digit_char d \<noteq> CHR ''.''"
  by (metis is_digit_digit_char punct_classes(1))


lemma digit_char_not_comma [simp]: "d < 10 \<Longrightarrow> digit_char d \<noteq> CHR '',''"
  by (metis is_digit_digit_char punct_classes(2))

lemma mod_100_zero: "(n::nat) mod 100 = 0 \<longleftrightarrow> n div 10 mod 10 = 0 \<and> n mod 10 = 0"
proof -
  have "n mod 100 = 10 * (n div 10 mod 10) + n mod 10"
    using mod_mult2_eq [of n 10 10] by simp
  then show ?thesis by auto
qed


section \<open>Lists\<close>

lemma takeWhile_all [simp]: "\<forall>x \<in> set xs. P x \<Longrightarrow> takeWhile P (xs @ ys) = xs @ takeWhile P ys"
  by (induction xs) auto

lemma dropWhile_all [simp]: "\<forall>x \<in> set xs. P x \<Longrightarrow> dropWhile P (xs @ ys) = dropWhile P ys"
  by (induction xs) auto

end
