(* ===== verification/JsRuntime.thy ===== *)
theory JsRuntime
  imports Prelude "HOL-Library.Sublist"
begin

text \<open>
  The ECMAScript built-ins the three scripts call, as the language specification
  defines them, restricted to what the scripts feed them: \<open>parseFloat\<close>,
  \<open>parseInt\<close>, \<open>Number.prototype.toFixed\<close>, \<open>String(n)\<close> for integers,
  \<open>String.prototype.replace\<close> with a string pattern, \<open>trim\<close> and \<open>split\<close> with a
  one-character separator.  A JavaScript number is an exact rational or \<open>NaN\<close>:
  binary rounding of doubles is not modelled, and neither are the infinities
  (\<open>parseFloat(''Infinity'')\<close> is \<open>NaN\<close> here) nor the exponent form that
  \<open>toFixed\<close> falls back to at \<open>10^21\<close> and above.
\<close>

datatype jsnum = Num rat | NaN

text \<open>The two kinds of value a formatter argument can be.\<close>

datatype jsval = JNum jsnum | JStr string

section \<open>Decimal digits\<close>

fun show_nat :: "nat \<Rightarrow> string" where
  "show_nat n = (if n < 10 then [digit_char n] else show_nat (n div 10) @ [digit_char (n mod 10)])"

declare show_nat.simps [simp del]

text \<open>\<open>String(i)\<close> for an integral number.\<close>

definition show_int :: "int \<Rightarrow> string" where
  "show_int i = (if i < 0 then CHR ''-'' # show_nat (nat (- i)) else show_nat (nat i))"

definition digits_value :: "string \<Rightarrow> nat" where
  "digits_value s = foldl (\<lambda>a c. 10 * a + digit_val c) 0 s"

section \<open>parseInt and parseFloat\<close>

text \<open>The optional sign after the leading white space: (negative, rest).\<close>

definition take_sign :: "string \<Rightarrow> bool \<times> string" where
  "take_sign s = (if s \<noteq> [] \<and> hd s = CHR ''-'' then (True, tl s)
                  else if s \<noteq> [] \<and> hd s = CHR ''+'' then (False, tl s) else (False, s))"

definition is_hex_digit :: "char \<Rightarrow> bool" where
  "is_hex_digit c \<longleftrightarrow> is_digit c \<or> (65 \<le> (of_char c :: nat) \<and> (of_char c :: nat) \<le> (70::nat))
     \<or> (97 \<le> (of_char c :: nat) \<and> (of_char c :: nat) \<le> (102::nat))"

definition hex_val :: "char \<Rightarrow> nat" where
  "hex_val c = (if is_digit c then digit_val c
                else if (of_char c :: nat) \<le> (70::nat) then (of_char c :: nat) - 55 else (of_char c :: nat) - 87)"

definition hex_value :: "string \<Rightarrow> nat" where
  "hex_value s = foldl (\<lambda>a c. 16 * a + hex_val c) 0 s"

text \<open>
  \<open>parseInt(s)\<close> with no radix (ECMA-262 21.1.2.13): leading white space, a sign, a
  \<open>0x\<close>/\<open>0X\<close> prefix switching to radix 16, then the longest run of digits of the
  radix; none is \<open>NaN\<close>, written \<open>None\<close>.
\<close>

definition js_parse_int :: "string \<Rightarrow> int option" where
  "js_parse_int s =
     (let (neg, u) = take_sign (dropWhile is_space s);
          hex = (take 2 u = ''0x'' \<or> take 2 u = ''0X'');
          ds = (if hex then takeWhile is_hex_digit (drop 2 u) else takeWhile is_digit u);
          v = (if hex then hex_value ds else digits_value ds)
      in if ds = [] then None else Some (if neg then - int v else int v))"

text \<open>\<open>parseInt(s, 10)\<close>: as above with the radix given, so no \<open>0x\<close> prefix.\<close>

definition js_parse_int10 :: "string \<Rightarrow> int option" where
  "js_parse_int10 s =
     (let (neg, u) = take_sign (dropWhile is_space s); ds = takeWhile is_digit u
      in if ds = [] then None else Some (if neg then - int (digits_value ds) else int (digits_value ds)))"

text \<open>The exponent part \<open>e[+-]digits\<close> of a StrDecimalLiteral; 0 when absent or malformed
  (the longest valid prefix then stops before the \<open>e\<close>).\<close>

definition exponent_part :: "string \<Rightarrow> int" where
  "exponent_part r =
     (if r \<noteq> [] \<and> (hd r = CHR ''e'' \<or> hd r = CHR ''E'') then
        (let (neg, v) = take_sign (tl r); ds = takeWhile is_digit v
         in if ds = [] then 0 else if neg then - int (digits_value ds) else int (digits_value ds))
      else 0)"

definition scale10 :: "int \<Rightarrow> rat \<Rightarrow> rat" where
  "scale10 e x = (if 0 \<le> e then x * 10 ^ nat e else x / 10 ^ nat (- e))"

text \<open>
  \<open>parseFloat(s)\<close> (ECMA-262 21.1.2.12): leading white space, then the longest prefix
  that is a StrDecimalLiteral: sign, integer digits, optional fraction, optional
  exponent, with at least one digit in integer part or fraction.
\<close>

definition js_parse_float :: "string \<Rightarrow> jsnum" where
  "js_parse_float s =
     (let (neg, u) = take_sign (dropWhile is_space s);
          ip = takeWhile is_digit u; r1 = dropWhile is_digit u;
          frac = (r1 \<noteq> [] \<and> hd r1 = CHR ''.'');
          fp = (if frac then takeWhile is_digit (tl r1) else []);
          r2 = (if frac then dropWhile is_digit (tl r1) else r1);
          m = of_nat (digits_value (ip @ fp)) / 10 ^ length fp
      in if ip = [] \<and> fp = [] then NaN
         else Num (scale10 (exponent_part r2) (if neg then - m else m)))"

text \<open>Division by a non-zero constant; \<open>NaN\<close> propagates.\<close>

fun js_div :: "jsnum \<Rightarrow> rat \<Rightarrow> jsnum" where
  "js_div (Num x) k = Num (x / k)"
| "js_div NaN k = NaN"

section \<open>toFixed\<close>

text \<open>
  \<open>x.toFixed(f)\<close> (ECMA-262 21.1.3.3) below \<open>10^21\<close>: the sign, then the integer
  \<open>n\<close> nearest to \<open>|x| * 10^f\<close> (the larger one on a tie), padded with zeros to
  \<open>f + 1\<close> digits, with a point before the last \<open>f\<close> digits when \<open>f > 0\<close>.
\<close>

definition js_round :: "rat \<Rightarrow> nat" where
  "js_round y = nat \<lfloor>y + 1 / 2\<rfloor>"

definition fixed_digits :: "nat \<Rightarrow> nat \<Rightarrow> string" where
  "fixed_digits f n =
     (let m = show_nat n; m2 = replicate (f + 1 - length m) CHR ''0'' @ m; k = length m2
      in if f = 0 then m else take (k - f) m2 @ ''.'' @ drop (k - f) m2)"

definition js_to_fixed :: "nat \<Rightarrow> jsnum \<Rightarrow> string" where
  "js_to_fixed f x =
     (case x of
        NaN \<Rightarrow> ''NaN''
      | Num r \<Rightarrow> (if r < 0 then ''-'' else '''') @ fixed_digits f (js_round (\<bar>r\<bar> * 10 ^ f)))"

section \<open>Strings\<close>

text \<open>
  \<open>s.replace(pat, rep)\<close> with a string pattern: the first occurrence only.  The
  replacement strings of the scripts (\<open>toFixed\<close> output and \<open>''''\<close>) contain no
  \<open>$\<close>, so the substitution patterns of GetSubstitution do not arise.
\<close>

fun replace_first :: "string \<Rightarrow> string \<Rightarrow> string \<Rightarrow> string" where
  "replace_first pat rep [] = (if pat = [] then rep else [])"
| "replace_first pat rep (c # cs) =
     (if take (length pat) (c # cs) = pat then rep @ drop (length pat) (c # cs)
      else c # replace_first pat rep cs)"

definition js_trim :: "string \<Rightarrow> string" where
  "js_trim s = rev (dropWhile is_space (rev (dropWhile is_space s)))"

text \<open>\<open>s.split(d)\<close> for a one-character separator: the pieces between separators.\<close>

fun js_split :: "char \<Rightarrow> string \<Rightarrow> string list" where
  "js_split d [] = [[]]"
| "js_split d (c # cs) =
     (if c = d then [] # js_split d cs
      else (case js_split d cs of [] \<Rightarrow> [[c]] | p # ps \<Rightarrow> (c # p) # ps))"

section \<open>Lemmas: decimal rendering and parsing\<close>

lemma show_nat_digits: "\<forall>c \<in> set (show_nat n). is_digit c"
  by (induction n rule: show_nat.induct) (subst show_nat.simps, simp)

lemma show_nat_not_Nil [simp]: "show_nat n \<noteq> []"
  by (subst show_nat.simps) simp

lemma show_nat_small [simp]: "n < 10 \<Longrightarrow> show_nat n = [digit_char n]"
  by (subst show_nat.simps) simp

lemma show_nat_step: "10 \<le> n \<Longrightarrow> show_nat n = show_nat (n div 10) @ [digit_char (n mod 10)]"
  by (subst show_nat.simps) simp

lemma digits_value_snoc [simp]: "digits_value (xs @ [c]) = 10 * digits_value xs + digit_val c"
  by (simp add: digits_value_def)

lemma digits_value_show_nat [simp]: "digits_value (show_nat n) = n"
  by (induction n rule: show_nat.induct) (subst show_nat.simps, simp add: digits_value_def)

text \<open>A numeral has at most \<open>k + 1\<close> digits exactly below \<open>10 ^ (k + 1)\<close>.\<close>

lemma length_show_nat_le: "length (show_nat m) \<le> Suc k \<longleftrightarrow> m < 10 ^ Suc k"
proof (induction m arbitrary: k rule: less_induct)
  case (less m)
  show ?case
  proof (cases "m < 10")
    case True
    have "(10::nat) \<le> 10 ^ Suc k" by simp
    then have "m < 10 ^ Suc k" using True by linarith
    then show ?thesis using True by simp
  next
    case False
    then have step: "length (show_nat m) = Suc (length (show_nat (m div 10)))"
      by (simp add: show_nat_step)
    show ?thesis
    proof (cases k)
      case 0
      then show ?thesis using False step by simp
    next
      case (Suc k')
      have "length (show_nat (m div 10)) \<le> Suc k' \<longleftrightarrow> m div 10 < 10 ^ Suc k'"
        using False by (intro less.IH) auto
      then show ?thesis using step Suc by (simp add: less_mult_imp_div_less div_less_iff_less_mult)
    qed
  qed
qed

lemma hd_show_nat_digit: "is_digit (hd (show_nat n))"
  using show_nat_digits [of n] by (simp add: hd_in_set)

lemma show_nat_parts:
  "show_nat n \<noteq> [] \<and> \<not> is_space (hd (show_nat n)) \<and> hd (show_nat n) \<noteq> CHR ''-''
   \<and> hd (show_nat n) \<noteq> CHR ''+''"
  using hd_show_nat_digit [of n] by (auto simp: is_digit_def)

lemma takeWhile_digit_show_nat [simp]: "takeWhile is_digit (show_nat n @ r) = show_nat n @ takeWhile is_digit r"
  by (simp add: show_nat_digits)

lemma dropWhile_digit_show_nat [simp]: "dropWhile is_digit (show_nat n @ r) = dropWhile is_digit r"
  by (simp add: show_nat_digits)

lemma take_sign_show_nat [simp]: "take_sign (show_nat n @ r) = (False, show_nat n @ r)"
  using show_nat_parts [of n] by (cases "show_nat n") (auto simp: take_sign_def)

lemma dropWhile_space_show_nat [simp]: "dropWhile is_space (show_nat n @ r) = show_nat n @ r"
  using show_nat_parts [of n] by (cases "show_nat n") auto

lemma point_not_in_show_nat [simp]: "CHR ''.'' \<notin> set (show_nat k)"
  using show_nat_digits [of k] by auto

lemma comma_not_in_show_nat [simp]: "CHR '','' \<notin> set (show_nat k)"
  using show_nat_digits [of k] by auto


text \<open>\<open>parseFloat\<close> of a string of digits is its decimal value; so it reads back
  what \<open>String\<close> wrote.\<close>

lemma parse_float_digits:
  assumes ne: "ds \<noteq> []" and dig: "\<forall>c \<in> set ds. is_digit c"
    and that: "sg = [] \<or> sg = ''-''"
  shows "js_parse_float (sg @ ds) =
           (if sg = ''-'' then Num (- of_nat (digits_value ds)) else Num (of_nat (digits_value ds)))"
proof -
  have hd: "is_digit (hd ds)" using ne dig by simp
  then have sp: "dropWhile is_space (sg @ ds) = sg @ ds" and
    sgn: "take_sign (sg @ ds) = (sg = ''-'', ds)"
    using that ne by (auto simp: take_sign_def is_digit_def neq_Nil_conv)
  have tw: "takeWhile is_digit ds = ds" and dw: "dropWhile is_digit ds = []"
    using dig by (simp_all add: takeWhile_eq_all_conv dropWhile_eq_Nil_conv)
  show ?thesis
    unfolding js_parse_float_def sp sgn Let_def
    by (simp add: tw dw ne exponent_part_def scale10_def)
qed

lemma parse_float_show_nat [js_simps]: "js_parse_float (show_nat n) = Num (of_nat n)"
  using parse_float_digits [of "show_nat n" "[]"] by (simp add: show_nat_digits)

lemma parse_float_show_int [js_simps]: "js_parse_float (show_int i) = Num (of_int i)"
  using parse_float_digits [of "show_nat (nat \<bar>i\<bar>)" "''-''"]
        parse_float_digits [of "show_nat (nat \<bar>i\<bar>)" "[]"]
  by (auto simp: show_int_def show_nat_digits)

text \<open>\<open>parseInt\<close> reads back what \<open>String\<close> wrote: a decimal numeral has no hex prefix.\<close>

lemma digits_no_hex_prefix:
  assumes "\<forall>c \<in> set ds. is_digit c"
  shows "take 2 ds \<noteq> ''0x'' \<and> take 2 ds \<noteq> ''0X''"
proof -
  have "c \<in> set (take 2 ds) \<Longrightarrow> is_digit c" for c
    using assms set_take_subset [of 2 ds] by auto
  moreover have "\<not> is_digit CHR ''x''" "\<not> is_digit CHR ''X''"
    by (simp_all add: is_digit_def)
  ultimately show ?thesis by force
qed

lemma parse_int_digits:
  assumes ne: "ds \<noteq> []" and dig: "\<forall>c \<in> set ds. is_digit c"
    and that: "sg = [] \<or> sg = ''-''"
  shows "js_parse_int (sg @ ds) =
           Some (if sg = ''-'' then - int (digits_value ds) else int (digits_value ds))"
proof -
  have hd: "is_digit (hd ds)" using ne dig by simp
  then have sp: "dropWhile is_space (sg @ ds) = sg @ ds" and
    sgn: "take_sign (sg @ ds) = (sg = ''-'', ds)"
    using that ne by (auto simp: take_sign_def is_digit_def neq_Nil_conv)
  have tw: "takeWhile is_digit ds = ds"
    using dig by (simp add: takeWhile_eq_all_conv)
  show ?thesis
    unfolding js_parse_int_def sp sgn Let_def
    using digits_no_hex_prefix [OF dig] by (simp add: tw ne)
qed

lemma parse_int_show_int [js_simps]: "js_parse_int (show_int i) = Some i"
  using parse_int_digits [of "show_nat (nat \<bar>i\<bar>)" "''-''"]
        parse_int_digits [of "show_nat (nat \<bar>i\<bar>)" "[]"]
  by (auto simp: show_int_def show_nat_digits)

section \<open>Lemmas: toFixed on whole cents\<close>

lemma js_round_of_nat [simp]: "js_round (of_nat n) = n"
proof -
  have "\<lfloor>(of_nat n :: rat) + 1 / 2\<rfloor> = int n"
    by (simp add: floor_eq_iff)
  then show ?thesis by (simp add: js_round_def)
qed

lemma fixed_digits_0 [simp]: "fixed_digits 0 n = show_nat n"
  by (simp add: fixed_digits_def)

text \<open>With two decimals the digits are those of the whole units, a point, and the two
  digits of the remainder, zero-padded.\<close>

lemma fixed_digits_2:
  "fixed_digits 2 n = show_nat (n div 100) @ ''.'' @ [digit_char (n div 10 mod 10), digit_char (n mod 10)]"
proof (cases "n < 100")
  case True
  show ?thesis
  proof (cases "n < 10")
    case True
    then show ?thesis by (simp add: fixed_digits_def numeral_2_eq_2)
  next
    case False
    with \<open>n < 100\<close> have "show_nat n = [digit_char (n div 10), digit_char (n mod 10)]"
      by (simp add: show_nat_step)
    with False \<open>n < 100\<close> show ?thesis by (simp add: fixed_digits_def numeral_2_eq_2)
  qed
next
  case False
  then have "show_nat n = show_nat (n div 100) @ [digit_char (n div 10 mod 10), digit_char (n mod 10)]"
    by (simp add: show_nat_step div_mult2_eq [symmetric])
  moreover have "Suc 0 \<le> length (show_nat (n div 100))"
    using show_nat_not_Nil [of "n div 100"] by (cases "show_nat (n div 100)") auto
  ultimately show ?thesis by (simp add: fixed_digits_def)
qed

lemma abs_cents: "\<bar>(of_int c :: rat) / 100\<bar> * 10 ^ 2 = of_nat (nat \<bar>c\<bar>)"
proof -
  have "\<bar>(of_int c :: rat) / 100\<bar> = of_int \<bar>c\<bar> / 100"
    by (simp add: abs_divide)
  then show ?thesis by simp
qed

lemma to_fixed_cents [js_simps]:
  "js_to_fixed 2 (Num (of_int c / 100)) =
     (if c < 0 then ''-'' else '''') @ fixed_digits 2 (nat \<bar>c\<bar>)"
proof -
  have "(of_int c :: rat) / 100 < 0 \<longleftrightarrow> c < 0" by simp
  then show ?thesis
    unfolding js_to_fixed_def jsnum.case abs_cents js_round_of_nat by simp
qed

section \<open>Lemmas: replace with a string pattern\<close>

lemma replace_first_prefix [simp]: "pat \<noteq> [] \<Longrightarrow> replace_first pat rep (pat @ ys) = rep @ ys"
  by (cases pat) simp_all

lemma replace_first_skip:
  "pat \<noteq> [] \<Longrightarrow> hd pat \<notin> set xs \<Longrightarrow> replace_first pat rep (xs @ ys) = xs @ replace_first pat rep ys"
proof (induction xs)
  case Nil
  then show ?case by simp
next
  case (Cons x xs)
  then have "take (length pat) (x # xs @ ys) \<noteq> pat"
    by (cases pat) auto
  with Cons show ?case by simp
qed

lemma replace_first_absent: "\<not> sublist pat s \<Longrightarrow> replace_first pat rep s = s"
proof (induction s)
  case Nil
  then show ?case by simp
next
  case (Cons c cs)
  have "take (length pat) (c # cs) \<noteq> pat"
  proof
    assume "take (length pat) (c # cs) = pat"
    then have "prefix pat (c # cs)"
      by (metis append_take_drop_id prefixI)
    with Cons.prems show False
      using prefix_imp_sublist by blast
  qed
  moreover have "\<not> sublist pat cs"
    using Cons.prems by (auto simp: sublist_Cons_right)
  ultimately show ?case using Cons.IH by simp
qed

section \<open>Lemmas: split\<close>

lemma js_split_none: "d \<notin> set xs \<Longrightarrow> js_split d xs = [xs]"
  by (induction xs) auto

lemma js_split_at: "d \<notin> set xs \<Longrightarrow> js_split d (xs @ d # ys) = xs # js_split d ys"
  by (induction xs) auto

lemma js_split_not_Nil [simp]: "js_split d xs \<noteq> []"
  by (induction xs) (auto split: list.splits)

text \<open>\<open>parseFloat\<close> of a decimal literal \<open>digits.digits\<close> with an optional minus sign.\<close>

lemma parse_float_decimal:
  assumes "ip \<noteq> []" and "\<forall>c \<in> set ip. is_digit c" and "\<forall>c \<in> set fp. is_digit c"
    and "sg = [] \<or> sg = ''-''"
  shows "js_parse_float (sg @ ip @ CHR ''.'' # fp) =
           Num ((if sg = ''-'' then -1 else 1) * (of_nat (digits_value (ip @ fp)) / 10 ^ length fp))"
proof -
  have hd: "is_digit (hd ip)" using assms(1,2) by simp
  then have sp: "dropWhile is_space (sg @ ip @ CHR ''.'' # fp) = sg @ ip @ CHR ''.'' # fp" and
    sgn: "take_sign (sg @ ip @ CHR ''.'' # fp) = (sg = ''-'', ip @ CHR ''.'' # fp)"
    using assms(1,4) by (auto simp: take_sign_def is_digit_def neq_Nil_conv)
  have tw: "takeWhile is_digit (ip @ CHR ''.'' # fp) = ip" "dropWhile is_digit (ip @ CHR ''.'' # fp) = CHR ''.'' # fp"
    "takeWhile is_digit fp = fp" "dropWhile is_digit fp = []"
    using assms(2,3) by (simp_all add: takeWhile_eq_all_conv dropWhile_eq_Nil_conv)
  show ?thesis
    unfolding js_parse_float_def sp sgn Let_def
    by (simp add: tw assms(1) exponent_part_def scale10_def)
qed

lemma to_fixed_cents_0:
  "js_to_fixed 0 (Num (of_int c / 100)) = (if c < 0 then ''-'' else []) @ show_nat ((nat \<bar>c\<bar> + 50) div 100)"
proof -
  have "\<lfloor>\<bar>(of_int c :: rat) / 100\<bar> + 1 / 2\<rfloor> = (\<bar>c\<bar> + 50) div 100"
  proof -
    have "\<bar>(of_int c :: rat) / 100\<bar> + 1 / 2 = of_int (\<bar>c\<bar> + 50) / of_int 100"
      by (simp add: abs_divide field_simps)
    then show ?thesis by (simp only: floor_divide_of_int_eq)
  qed
  moreover have "nat ((\<bar>c\<bar> + 50) div 100) = (nat \<bar>c\<bar> + 50) div 100"
    by (simp add: nat_div_distrib)
  moreover have "(of_int c :: rat) / 100 < 0 \<longleftrightarrow> c < 0" by simp
  ultimately show ?thesis by (simp add: js_to_fixed_def js_round_def)
qed

end
