(* ===== verification/Dom.thy ===== *)
theory Dom
  imports JsRuntime
begin

text \<open>
  The part of the browser DOM the scripts read and write.  A document is a list of
  elements in document order; an element's index is its identity and its parent is
  an earlier index.  Each element keeps its attributes, its own markup
  (\<open>innerHTML\<close>) and, for inputs, its \<open>value\<close>.  The price elements the scripts
  write are leaves, so writing an element's markup is modelled as replacing its own
  markup; the detaching of child elements that this would cause is not modelled.
  Selectors are the compound attribute/tag/class selectors and the one descendant
  combinator that the scripts build; \<open>querySelectorAll\<close> returns the matches in
  document order and \<open>querySelector\<close> the first.
\<close>

record element =
  tag :: string
  attrs :: "(string \<times> string) list"
  html :: string
  parent :: "nat option"
  input_value :: string

type_synonym dom = "element list"

definition get_attr :: "element \<Rightarrow> string \<Rightarrow> string option" where
  "get_attr e a = map_of (attrs e) a"

definition wf_dom :: "dom \<Rightarrow> bool" where
  "wf_dom d \<longleftrightarrow> list_all (\<lambda>i. case parent (d ! i) of None \<Rightarrow> True | Some p \<Rightarrow> p < i) [0..<length d]"

section \<open>Window globals\<close>

text \<open>\<open>window.theme\<close>, set by the theme: absent (\<open>None\<close>) or present with
  \<open>moneyFormat\<close>, \<open>currencyCode\<close> (\<open>''''\<close> when unset: the scripts read both
  for truthiness) and \<open>settings.currency_code_enable\<close>.\<close>

record theme =
  money_format :: string
  currency_code :: string
  currency_code_enable :: bool

section \<open>Markup and text\<close>

text \<open>
  \<open>textContent\<close> of markup: tags (a \<open><\<close> followed by a letter or \<open>/\<close>, up to the
  next \<open>>\<close>) are dropped and the three entities the serializer writes are decoded;
  the rest of HTML's entity table is not, so on markup containing other character
  references the model's text differs from a browser's.  On text without \<open><\<close> and
  \<open>&\<close> both are the identity (\<open>strip_tags_no_lt\<close>, \<open>html_unescape_no_amp\<close>).
  Setting \<open>textContent\<close> stores the text escaped.
\<close>

function strip_tags :: "string \<Rightarrow> string" where
  "strip_tags [] = []"
| "strip_tags (c # cs) =
     (if c = CHR ''<'' \<and> cs \<noteq> [] \<and> (is_word (hd cs) \<and> \<not> is_digit (hd cs) \<or> hd cs = CHR ''/'')
      then strip_tags (drop 1 (dropWhile (\<lambda>x. x \<noteq> CHR ''>'') cs))
      else c # strip_tags cs)"
  by pat_completeness auto
termination
  by (relation "measure length") (auto simp: less_Suc_eq_le le_trans [OF diff_le_self length_dropWhile_le])

fun html_unescape :: "string \<Rightarrow> string" where
  "html_unescape [] = []"
| "html_unescape (c # cs) =
     (if c = CHR ''&'' \<and> take 4 cs = ''amp;'' then CHR ''&'' # html_unescape (drop 4 cs)
      else if c = CHR ''&'' \<and> take 3 cs = ''lt;'' then CHR ''<'' # html_unescape (drop 3 cs)
      else if c = CHR ''&'' \<and> take 3 cs = ''gt;'' then CHR ''>'' # html_unescape (drop 3 cs)
      else c # html_unescape cs)"

fun html_escape :: "string \<Rightarrow> string" where
  "html_escape [] = []"
| "html_escape (c # cs) =
     (if c = CHR ''&'' then ''&amp;'' @ html_escape cs
      else if c = CHR ''<'' then ''&lt;'' @ html_escape cs
      else if c = CHR ''>'' then ''&gt;'' @ html_escape cs
      else c # html_escape cs)"

definition text_content :: "element \<Rightarrow> string" where
  "text_content e = html_unescape (strip_tags (html e))"

section \<open>Writes\<close>

definition set_inner_html :: "nat \<Rightarrow> string \<Rightarrow> dom \<Rightarrow> dom" where
  "set_inner_html i s d = (if i < length d then d[i := (d ! i)\<lparr>html := s\<rparr>] else d)"

definition set_text_content :: "nat \<Rightarrow> string \<Rightarrow> dom \<Rightarrow> dom" where
  "set_text_content i s d = set_inner_html i (html_escape s) d"

definition set_value :: "nat \<Rightarrow> string \<Rightarrow> dom \<Rightarrow> dom" where
  "set_value i v d = (if i < length d then d[i := (d ! i)\<lparr>input_value := v\<rparr>] else d)"

section \<open>Mutation records\<close>

text \<open>The \<open>type\<close> of a MutationRecord delivered to an observer callback.\<close>

datatype mutation = ChildList | CharacterData | Attributes

section \<open>Selectors\<close>

datatype simple_sel = Tag string | HasAttr string | AttrIs string string | Class string

datatype selector = Sel "simple_sel list" | Desc selector "simple_sel list"

text \<open>HTML's ASCII white space: tab, line feed, form feed, carriage return, space.\<close>

definition is_html_space :: "char \<Rightarrow> bool" where
  "is_html_space c \<longleftrightarrow> c \<in> set [CHR 0x09, CHR 0x0A, CHR 0x0C, CHR 0x0D, CHR 0x20]"

text \<open>The class list: the white-space separated words of the \<open>class\<close> attribute.\<close>

function class_words :: "string \<Rightarrow> string list" where
  "class_words [] = []"
| "class_words (c # cs) =
     (if is_html_space c then class_words cs
      else takeWhile (Not \<circ> is_html_space) (c # cs) # class_words (dropWhile (Not \<circ> is_html_space) cs))"
  by pat_completeness auto
termination
  by (relation "measure length") (auto simp: le_imp_less_Suc length_dropWhile_le)

fun simple_matches :: "element \<Rightarrow> simple_sel \<Rightarrow> bool" where
  "simple_matches e (Tag t) = (tag e = t)"
| "simple_matches e (HasAttr a) = (get_attr e a \<noteq> None)"
| "simple_matches e (AttrIs a v) = (get_attr e a = Some v)"
| "simple_matches e (Class c) =
     (case get_attr e ''class'' of None \<Rightarrow> False | Some w \<Rightarrow> c \<in> set (class_words w))"

text \<open>The proper ancestors of an element, nearest first; the fuel is the document's
  length, enough in a well-formed document where every parent comes earlier.\<close>

fun ancestors_fuel :: "nat \<Rightarrow> dom \<Rightarrow> nat \<Rightarrow> nat list" where
  "ancestors_fuel 0 d i = []"
| "ancestors_fuel (Suc f) d i =
     (if i < length d then (case parent (d ! i) of None \<Rightarrow> [] | Some p \<Rightarrow> p # ancestors_fuel f d p)
      else [])"

definition ancestors :: "dom \<Rightarrow> nat \<Rightarrow> nat list" where
  "ancestors d i = ancestors_fuel (length d) d i"

fun matches :: "dom \<Rightarrow> selector \<Rightarrow> nat \<Rightarrow> bool" where
  "matches d (Sel ss) i = (i < length d \<and> list_all (simple_matches (d ! i)) ss)"
| "matches d (Desc a ss) i =
     (i < length d \<and> list_all (simple_matches (d ! i)) ss \<and> (\<exists>j \<in> set (ancestors d i). matches d a j))"

definition query_all :: "dom \<Rightarrow> selector \<Rightarrow> nat list" where
  "query_all d s = filter (matches d s) [0..<length d]"

definition query_first :: "dom \<Rightarrow> selector \<Rightarrow> nat option" where
  "query_first d s = (case query_all d s of [] \<Rightarrow> None | i # _ \<Rightarrow> Some i)"

text \<open>\<open>e.closest(s)\<close>: the element itself or its nearest ancestor that matches.\<close>

definition closest :: "dom \<Rightarrow> selector \<Rightarrow> nat \<Rightarrow> nat option" where
  "closest d s i =
     (if i < length d then find (matches d s) (i # ancestors d i) else None)"

section \<open>Lemmas: writes keep the document's shape\<close>

text \<open>Two documents of the same shape differ at most in markup and input values:
  every selector then matches the same elements in both.\<close>

definition same_shape :: "dom \<Rightarrow> dom \<Rightarrow> bool" where
  "same_shape d d' \<longleftrightarrow> length d' = length d \<and>
     (\<forall>i < length d. tag (d' ! i) = tag (d ! i) \<and> attrs (d' ! i) = attrs (d ! i)
                     \<and> parent (d' ! i) = parent (d ! i))"

lemma same_shape_refl [simp, intro]: "same_shape d d"
  by (simp add: same_shape_def)

lemma same_shape_trans [trans]: "same_shape d1 d2 \<Longrightarrow> same_shape d2 d3 \<Longrightarrow> same_shape d1 d3"
  by (simp add: same_shape_def)

lemma length_set_inner_html [simp, dom_simps]: "length (set_inner_html i s d) = length d"
  by (simp add: set_inner_html_def)

lemma length_set_text_content [simp, dom_simps]: "length (set_text_content i s d) = length d"
  by (simp add: set_text_content_def)

lemma length_set_value [simp, dom_simps]: "length (set_value i v d) = length d"
  by (simp add: set_value_def)

lemma nth_set_inner_html [dom_simps]:
  "set_inner_html i s d ! j = (if i = j \<and> i < length d then (d ! j)\<lparr>html := s\<rparr> else d ! j)"
  by (simp add: set_inner_html_def)

lemma nth_set_value [dom_simps]:
  "set_value i v d ! j = (if i = j \<and> i < length d then (d ! j)\<lparr>input_value := v\<rparr> else d ! j)"
  by (simp add: set_value_def)

lemma get_attr_updates [simp]:
  "get_attr (e\<lparr>html := s\<rparr>) a = get_attr e a" "get_attr (e\<lparr>input_value := v\<rparr>) a = get_attr e a"
  by (simp_all add: get_attr_def)

lemma same_shape_set_inner_html [simp, intro]: "same_shape d (set_inner_html i s d)"
  by (simp add: same_shape_def nth_set_inner_html)

lemma same_shape_set_text_content [simp, intro]: "same_shape d (set_text_content i s d)"
  by (simp add: set_text_content_def)

lemma same_shape_set_value [simp, intro]: "same_shape d (set_value i v d)"
  by (simp add: same_shape_def nth_set_value)

lemma same_shape_get_attr: "same_shape d d' \<Longrightarrow> i < length d \<Longrightarrow> get_attr (d' ! i) a = get_attr (d ! i) a"
  by (simp add: same_shape_def get_attr_def)

lemma ancestors_fuel_same_shape:
  "same_shape d d' \<Longrightarrow> ancestors_fuel f d' i = ancestors_fuel f d i"
  by (induction f arbitrary: i) (auto simp: same_shape_def split: option.splits)

lemma matches_same_shape: "same_shape d d' \<Longrightarrow> matches d' s i = matches d s i"
proof (induction s arbitrary: i)
  case (Sel ss)
  have "i < length d \<Longrightarrow> simple_matches (d' ! i) x = simple_matches (d ! i) x" for x
    using Sel by (cases x) (auto simp: same_shape_def get_attr_def)
  with Sel show ?case by (auto simp: same_shape_def list_all_iff)
next
  case (Desc a ss)
  have "i < length d \<Longrightarrow> simple_matches (d' ! i) x = simple_matches (d ! i) x" for x
    using Desc.prems by (cases x) (auto simp: same_shape_def get_attr_def)
  moreover have "ancestors d' i = ancestors d i"
    using Desc.prems by (simp add: ancestors_def ancestors_fuel_same_shape same_shape_def)
  ultimately show ?case using Desc by (auto simp: same_shape_def list_all_iff)
qed

lemma same_shape_length: "same_shape d d' \<Longrightarrow> length d' = length d"
  by (simp add: same_shape_def)

lemma matches_fun_same_shape: "same_shape d d' \<Longrightarrow> matches d' s = matches d s"
  by (rule ext) (rule matches_same_shape)

lemma query_all_same_shape: "same_shape d d' \<Longrightarrow> query_all d' s = query_all d s"
  by (simp add: query_all_def matches_fun_same_shape same_shape_length)

lemma query_first_same_shape: "same_shape d d' \<Longrightarrow> query_first d' s = query_first d s"
  by (simp add: query_first_def query_all_same_shape)

lemma closest_same_shape: "same_shape d d' \<Longrightarrow> closest d' s i = closest d s i"
  by (simp add: closest_def ancestors_def ancestors_fuel_same_shape matches_fun_same_shape
                same_shape_length)

section \<open>Lemmas: text round trip\<close>

lemma strip_tags_no_lt: "CHR ''<'' \<notin> set s \<Longrightarrow> strip_tags s = s"
  by (induction s rule: strip_tags.induct) auto

lemma lt_not_in_html_escape: "CHR ''<'' \<notin> set (html_escape s)"
  by (induction s) auto

lemma html_unescape_escape [simp]: "html_unescape (html_escape s) = s"
  by (induction s) auto

lemma html_unescape_no_amp: "CHR ''&'' \<notin> set s \<Longrightarrow> html_unescape s = s"
  by (induction s) auto

text \<open>Setting \<open>textContent\<close> and reading it back gives the text that was set.\<close>

lemma text_content_set_text_content [dom_simps]:
  "i < length d \<Longrightarrow> text_content (set_text_content i s d ! i) = s"
  by (simp add: set_text_content_def nth_set_inner_html text_content_def
                strip_tags_no_lt lt_not_in_html_escape)

section \<open>Lemmas: query results\<close>

lemma query_all_less: "i \<in> set (query_all d s) \<Longrightarrow> i < length d"
  by (simp add: query_all_def)

lemma query_first_in: "query_first d s = Some t \<Longrightarrow> t \<in> set (query_all d s)"
  by (auto simp: query_first_def split: list.splits)

lemma query_first_less: "query_first d s = Some t \<Longrightarrow> t < length d"
  by (rule query_all_less [OF query_first_in])

end
