(* ===== verification/TieredPricing.thy ===== *)
theory TieredPricing
  imports Dom
begin

text \<open>
  \<open>src/assets/cart-tiered-pricing.js\<close> (lines 1--62): the tiered-price
  watcher.  \<open>preserveTieredPricing\<close> attaches a MutationObserver to every element
  carrying both \<open>data-cart-item-line-total\<close> and \<open>data-discounted-price\<close>; whenever
  the element's children or text change, the callback rewrites the element's markup
  with the attribute's price formatted by this file's own \<open>formatMoney\<close>, unless
  the trimmed text already equals it.  The write is itself a child-list mutation, so
  the callback runs again; \<open>tiered_settle\<close> follows that loop with fuel.
\<close>

section \<open>formatMoney (lines 34--48)\<close>

definition tiered_format_string :: "theme option \<Rightarrow> string" where
  "tiered_format_string th =
     (case th of Some t \<Rightarrow> if money_format t \<noteq> [] then money_format t else ''${{amount}}''
      | None \<Rightarrow> ''${{amount}}'')"

text \<open>Lines 37--38 and 43--45: the currency code is appended when the setting is on
  and the code is non-empty.\<close>

definition tiered_suffix :: "theme option \<Rightarrow> string" where
  "tiered_suffix th =
     (case th of Some t \<Rightarrow> if currency_code_enable t \<and> currency_code t \<noteq> [] then '' '' @ currency_code t else []
      | None \<Rightarrow> [])"

definition format_money_tiered :: "theme option \<Rightarrow> string \<Rightarrow> string" where
  "format_money_tiered th cents =
     (let money = js_parse_float cents;
          formatted = replace_first ''{{amount}}'' (js_to_fixed 2 (js_div money 100))
                        (tiered_format_string th);
          formatted = replace_first ''.00'' [] formatted
      in formatted @ tiered_suffix th)"

section \<open>The observer callback (lines 12--22)\<close>

text \<open>The guard of line 17: the attribute is present and non-empty and the trimmed
  text differs from the formatted price.\<close>

definition needs_restore :: "theme option \<Rightarrow> nat \<Rightarrow> dom \<Rightarrow> bool" where
  "needs_restore th i d \<longleftrightarrow> i < length d \<and>
     (case get_attr (d ! i) ''data-discounted-price'' of
        None \<Rightarrow> False
      | Some p \<Rightarrow> p \<noteq> [] \<and> js_trim (text_content (d ! i)) \<noteq> format_money_tiered th p)"

definition restore_price :: "theme option \<Rightarrow> nat \<Rightarrow> dom \<Rightarrow> dom" where
  "restore_price th i d =
     (if needs_restore th i d
      then set_inner_html i (format_money_tiered th (the (get_attr (d ! i) ''data-discounted-price''))) d
      else d)"

definition tiered_observer_callback :: "theme option \<Rightarrow> nat \<Rightarrow> mutation list \<Rightarrow> dom \<Rightarrow> dom" where
  "tiered_observer_callback th i ms d =
     fold (\<lambda>m d. if m = ChildList \<or> m = CharacterData then restore_price th i d else d) ms d"

text \<open>
  Every write of line 18 replaces the element's children, which queues one more
  child-list record and so one more run of the callback.  With fuel: \<open>None\<close> when the
  fuel runs out while the callback is still writing.
\<close>

fun tiered_settle :: "nat \<Rightarrow> theme option \<Rightarrow> nat \<Rightarrow> dom \<Rightarrow> dom option" where
  "tiered_settle 0 th i d = None"
| "tiered_settle (Suc f) th i d =
     (if needs_restore th i d then tiered_settle f th i (restore_price th i d) else Some d)"

section \<open>Attaching the observers (lines 5--31, 50--60)\<close>

definition line_total_sel :: selector where
  "line_total_sel = Sel [HasAttr ''data-cart-item-line-total'', HasAttr ''data-discounted-price'']"

text \<open>The observers are a list of watched elements; each run of
  \<open>preserveTieredPricing\<close> adds one observer per matching element and removes none.\<close>

definition preserve_tiered_pricing :: "dom \<Rightarrow> nat list \<Rightarrow> nat list" where
  "preserve_tiered_pricing d obs = obs @ query_all d line_total_sel"

text \<open>Page load attaches the first observers; each \<open>theme:cart:change\<close> attaches them
  again (after 100 ms).\<close>

fun tiered_on_cart_changes :: "dom list \<Rightarrow> nat list \<Rightarrow> nat list" where
  "tiered_on_cart_changes [] obs = obs"
| "tiered_on_cart_changes (d # ds) obs = tiered_on_cart_changes ds (preserve_tiered_pricing d obs)"

section \<open>Specification and examples\<close>

text \<open>\<open>tiered_stable\<close> and \<open>plain_text\<close> are not code: the first names the
  formats for which the watcher's comparison can succeed in this model, the second the
  formatted prices for which it succeeds in a browser too.  The last three definitions
  are the concrete settings and documents the witnesses evaluate.\<close>


definition tiered_stable :: "theme option \<Rightarrow> string \<Rightarrow> bool" where
  "tiered_stable th p \<longleftrightarrow>
     js_trim (html_unescape (strip_tags (format_money_tiered th p))) = format_money_tiered th p"

text \<open>Plain text: no \<open><\<close>, no \<open>&\<close>, no carriage return or NUL and no surrounding
  white space.  Written with \<open>innerHTML\<close>, such a string becomes one text node holding
  it unchanged (the fragment parser opens no tag, decodes no character reference and
  normalises no line break), and trimming that text gives the string back.\<close>

definition plain_text :: "string \<Rightarrow> bool" where
  "plain_text s \<longleftrightarrow> CHR ''<'' \<notin> set s \<and> CHR ''&'' \<notin> set s \<and> CHR 0x0D \<notin> set s
     \<and> CHR 0x00 \<notin> set s \<and> js_trim s = s"

definition comma_theme :: theme where
  "comma_theme = \<lparr>money_format = ''{{amount_with_comma_separator}}'', currency_code = ''EUR'',
                   currency_code_enable = False\<rparr>"

definition html_money_theme :: "theme option" where
  "html_money_theme = Some \<lparr>money_format = ''<span class=money>${{amount}}</span>'',
                            currency_code = ''USD'', currency_code_enable = False\<rparr>"

definition example_line_total :: "string \<Rightarrow> string \<Rightarrow> dom" where
  "example_line_total p h =
     [\<lparr>tag = ''span'', attrs = [(''data-cart-item-line-total'', ''''), (''data-discounted-price'', p)],
       html = h, parent = None, input_value = []\<rparr>]"

section \<open>Lemmas: the formatter\<close>

lemma replace_default_placeholder:
  "replace_first ''{{amount}}'' a ''${{amount}}'' = ''$'' @ a"
proof -
  have "''${{amount}}'' = ''$'' @ ''{{amount}}''" by simp
  then show ?thesis by (simp only: replace_first_skip) simp
qed


text \<open>\<open>(parseFloat(String(c)) / 100).toFixed(2)\<close> for whole cents \<open>c\<close>.\<close>

lemma tiered_amount_show_int:
  "js_to_fixed 2 (js_div (js_parse_float (show_int c)) 100) =
     (if c < 0 then ''-'' else []) @ show_nat (nat \<bar>c\<bar> div 100) @ ''.''
     @ [digit_char (nat \<bar>c\<bar> div 10 mod 10), digit_char (nat \<bar>c\<bar> mod 10)]"
  by (simp add: parse_float_show_int to_fixed_cents fixed_digits_2)

lemma drop_zero_cents:
  assumes "CHR ''.'' \<notin> set xs" and "a = digit_char (n div 10 mod 10)" and "b = digit_char (n mod 10)"
  shows "replace_first ''.00'' [] (xs @ ''.'' @ [a, b]) = xs @ (if n mod 100 = 0 then [] else ''.'' @ [a, b])"
proof -
  have skip: "replace_first ''.00'' [] (xs @ ''.'' @ [a, b]) = xs @ replace_first ''.00'' [] (''.'' @ [a, b])"
    using assms(1) by (simp add: replace_first_skip)
  show ?thesis
  proof (cases "n mod 100 = 0")
    case True
    with assms(2,3) have "a = CHR ''0''" "b = CHR ''0''" by (simp_all add: mod_100_zero)
    with True skip show ?thesis by simp
  next
    case False
    with assms(2,3) have "\<not> (a = CHR ''0'' \<and> b = CHR ''0'')"
      by (simp add: mod_100_zero digit_char_eq_zero)
    moreover have "a \<noteq> CHR ''.''" "b \<noteq> CHR ''.''"
      using assms(2,3) by simp_all
    ultimately show ?thesis using False skip by auto
  qed
qed

text \<open>C1. On a whole number of cents, with the default format \<open>${{amount}}\<close>, this
  file's \<open>formatMoney\<close> prints a dollar sign, the sign, the whole units without
  any thousands separator, and the two decimals only when they are not \<open>00\<close>,
  followed by the currency suffix.\<close>

theorem format_money_tiered_cents:
  assumes "tiered_format_string th = ''${{amount}}''"
  shows "format_money_tiered th (show_int c) =
           ''$'' @ (if c < 0 then ''-'' else []) @ show_nat (nat \<bar>c\<bar> div 100)
           @ (if nat \<bar>c\<bar> mod 100 = 0 then []
              else ''.'' @ [digit_char (nat \<bar>c\<bar> div 10 mod 10), digit_char (nat \<bar>c\<bar> mod 10)])
           @ tiered_suffix th"
proof -
  let ?n = "nat \<bar>c\<bar>"
  let ?xs = "''$'' @ (if c < 0 then ''-'' else []) @ show_nat (?n div 100)"
  note fx = tiered_amount_show_int [of c]
  have "CHR ''.'' \<notin> set ?xs" by simp
  then have "replace_first ''.00'' [] (?xs @ ''.'' @ [digit_char (?n div 10 mod 10), digit_char (?n mod 10)])
      = ?xs @ (if ?n mod 100 = 0 then [] else ''.'' @ [digit_char (?n div 10 mod 10), digit_char (?n mod 10)])"
    by (rule drop_zero_cents) simp_all
  then show ?thesis
    using assms fx by (simp add: format_money_tiered_def replace_default_placeholder)
qed

theorem format_money_tiered_cents_witness:
  "tiered_format_string None = ''${{amount}}''
   \<and> format_money_tiered None (show_int 123456) = ''$1234.56''
   \<and> format_money_tiered None (show_int 1000) = ''$10''"
proof -
  have h: "tiered_format_string None = ''${{amount}}''" by (simp add: tiered_format_string_def)
  show ?thesis
    using h format_money_tiered_cents [OF h, of 123456] format_money_tiered_cents [OF h, of 1000]
    by (simp add: show_nat.simps tiered_suffix_def)
qed

text \<open>C2. A money format without the exact placeholder \<open>{{amount}}\<close> (Shopify's
  \<open>{{amount_with_comma_separator}}\<close>, \<open>{{amount_no_decimals}}\<close>, or spaces inside
  the braces) is printed as it is: the price never appears.\<close>

theorem format_money_tiered_no_placeholder:
  assumes "money_format t \<noteq> []"
    and "\<not> sublist ''{{amount}}'' (money_format t)" and "\<not> sublist ''.00'' (money_format t)"
  shows "format_money_tiered (Some t) p = money_format t @ tiered_suffix (Some t)"
  using assms by (simp add: format_money_tiered_def tiered_format_string_def replace_first_absent)

theorem format_money_tiered_no_placeholder_witness:
  "format_money_tiered (Some comma_theme) ''123456'' = ''{{amount_with_comma_separator}}''"
proof -
  have "\<not> sublist ''{{amount}}'' ''{{amount_with_comma_separator}}''" by code_simp
  moreover have "\<not> sublist ''.00'' ''{{amount_with_comma_separator}}''" by code_simp
  ultimately show ?thesis
    using format_money_tiered_no_placeholder [of comma_theme]
    by (simp add: comma_theme_def tiered_suffix_def)
qed

section \<open>Lemmas: the observer loop\<close>

text \<open>A price format is stable when the text the browser shows for it, trimmed, is the
  format itself: no markup, no entities, no surrounding white space.\<close>

lemma restore_price_write:
  "needs_restore th i d \<Longrightarrow> get_attr (d ! i) ''data-discounted-price'' = Some p \<Longrightarrow>
   restore_price th i d = set_inner_html i (format_money_tiered th p) d"
  by (simp add: restore_price_def)

lemma needs_restore_written:
  assumes "i < length d" and "get_attr (d ! i) ''data-discounted-price'' = Some p" and "p \<noteq> []"
  shows "needs_restore th i (set_inner_html i (format_money_tiered th p) d) \<longleftrightarrow> \<not> tiered_stable th p"
  using assms by (simp add: needs_restore_def nth_set_inner_html text_content_def tiered_stable_def)

lemma not_needs_restore_text:
  assumes "i < length d" and "get_attr (d ! i) ''data-discounted-price'' = Some p" and "p \<noteq> []"
    and "\<not> needs_restore th i d"
  shows "js_trim (text_content (d ! i)) = format_money_tiered th p"
  using assms by (simp add: needs_restore_def)

lemma restore_price_frame [dom_simps]:
  "j \<noteq> i \<Longrightarrow> restore_price th i d ! j = d ! j"
  by (simp add: restore_price_def nth_set_inner_html)

lemma same_shape_restore_price [simp, intro]: "same_shape d (restore_price th i d)"
  by (simp add: restore_price_def)

lemma length_restore_price [simp]: "length (restore_price th i d) = length d"
  by (simp add: restore_price_def)

lemma plain_text_stable: "plain_text (format_money_tiered th p) \<Longrightarrow> tiered_stable th p"
  by (simp add: plain_text_def tiered_stable_def strip_tags_no_lt html_unescape_no_amp)

text \<open>C3. When the formatted discounted price is plain text, which is what the browser
  reads back from it whatever its entity table, the watcher's loop ends after at most
  one write, and the element then shows the formatted discounted price.\<close>

theorem tiered_settle_stable:
  assumes "i < length d" and "get_attr (d ! i) ''data-discounted-price'' = Some p" and "p \<noteq> []"
    and "plain_text (format_money_tiered th p)"
  shows "tiered_settle (Suc (Suc k)) th i d = Some (restore_price th i d)
         \<and> js_trim (text_content (restore_price th i d ! i)) = format_money_tiered th p"
proof (cases "needs_restore th i d")
  case True
  let ?d' = "set_inner_html i (format_money_tiered th p) d"
  have eq: "restore_price th i d = ?d'"
    using True assms(2) by (rule restore_price_write)
  have "\<not> needs_restore th i ?d'"
    using assms plain_text_stable [OF assms(4)] by (simp add: needs_restore_written)
  moreover have "i < length ?d'" "get_attr (?d' ! i) ''data-discounted-price'' = Some p"
    using assms(1,2) by (simp_all add: nth_set_inner_html)
  ultimately show ?thesis
    using True eq assms(3) not_needs_restore_text by simp
next
  case False
  then show ?thesis
    using assms not_needs_restore_text by (simp add: restore_price_def)
qed

theorem tiered_settle_stable_witness:
  "tiered_settle 2 None 0 (example_line_total ''123456'' ''$1,234.56'')
     = Some (example_line_total ''123456'' ''$1234.56'')"
proof -
  have s: "plain_text (format_money_tiered None ''123456'')" by code_simp
  have "tiered_settle 2 None 0 (example_line_total ''123456'' ''$1,234.56'')
          = Some (restore_price None 0 (example_line_total ''123456'' ''$1,234.56''))"
    using tiered_settle_stable [OF _ _ _ s, of 0 "example_line_total ''123456'' ''$1,234.56''" 0]
    by (simp add: example_line_total_def get_attr_def numeral_2_eq_2)
  also have "\<dots> = Some (example_line_total ''123456'' ''$1234.56'')" by code_simp
  finally show ?thesis .
qed

text \<open>C4. With an unstable format (for instance one that wraps the amount in markup,
  \<open><span class=money>${{amount}}</span>\<close>), once the callback has to write it never
  stops: every write is a child-list mutation that triggers the next write.\<close>

theorem tiered_settle_diverges:
  assumes "i < length d" and "get_attr (d ! i) ''data-discounted-price'' = Some p" and "p \<noteq> []"
    and "\<not> tiered_stable th p" and "needs_restore th i d"
  shows "\<forall>k. tiered_settle k th i d = None"
proof
  fix k
  from assms show "tiered_settle k th i d = None"
  proof (induction k arbitrary: d)
    case 0
    then show ?case by simp
  next
    case (Suc k)
    let ?d' = "set_inner_html i (format_money_tiered th p) d"
    have "restore_price th i d = ?d'"
      using Suc.prems(5,2) by (rule restore_price_write)
    moreover have "tiered_settle k th i ?d' = None"
      using Suc.prems by (intro Suc.IH) (simp_all add: nth_set_inner_html needs_restore_written)
    ultimately show ?case using Suc.prems(5) by simp
  qed
qed

theorem tiered_settle_diverges_witness:
  "\<forall>k. tiered_settle k html_money_theme 0 (example_line_total ''123456'' ''$1234.56'') = None"
proof -
  have h1: "get_attr (example_line_total ''123456'' ''$1234.56'' ! 0) ''data-discounted-price'' = Some ''123456''"
    by (simp add: example_line_total_def get_attr_def)
  have h2: "\<not> tiered_stable html_money_theme ''123456''" by code_simp
  have h3: "needs_restore html_money_theme 0 (example_line_total ''123456'' ''$1234.56'')" by code_simp
  show ?thesis
    using tiered_settle_diverges [OF _ h1 _ h2 h3] by (simp add: example_line_total_def)
qed

lemma restore_price_attr:
  "i < length d \<Longrightarrow> get_attr (restore_price th i d ! i) a = get_attr (d ! i) a"
  by (simp add: restore_price_def nth_set_inner_html)

lemma restore_price_idem:
  assumes "i < length d" and "get_attr (d ! i) ''data-discounted-price'' = Some p" and "p \<noteq> []"
    and "tiered_stable th p"
  shows "restore_price th i (restore_price th i d) = restore_price th i d"
proof (cases "needs_restore th i d")
  case True
  with assms show ?thesis
    by (simp add: restore_price_write needs_restore_written nth_set_inner_html
             restore_price_def [of th i "set_inner_html i _ d"])
next
  case False
  then show ?thesis by (simp add: restore_price_def)
qed

text \<open>C5. One delivery of mutation records: with a stable format the callback
  rewrites the price once if any record is a child-list or character-data change, and
  leaves the document alone when all records are attribute changes.\<close>

theorem tiered_callback:
  assumes "i < length d" and "get_attr (d ! i) ''data-discounted-price'' = Some p" and "p \<noteq> []"
    and "tiered_stable th p"
  shows "tiered_observer_callback th i ms d =
           (if \<exists>m \<in> set ms. m \<noteq> Attributes then restore_price th i d else d)"
  using assms
proof (induction ms arbitrary: d)
  case Nil
  then show ?case by (simp add: tiered_observer_callback_def)
next
  case (Cons m ms)
  let ?f = "\<lambda>m d. if m = ChildList \<or> m = CharacterData then restore_price th i d else d"
  have step: "tiered_observer_callback th i (m # ms) d = tiered_observer_callback th i ms (?f m d)"
    by (simp add: tiered_observer_callback_def)
  have attr: "i < length (?f m d)" "get_attr (?f m d ! i) ''data-discounted-price'' = Some p"
    using Cons.prems(1,2) by (simp_all add: restore_price_attr)
  have IH: "tiered_observer_callback th i ms (?f m d) =
              (if \<exists>m \<in> set ms. m \<noteq> Attributes then restore_price th i (?f m d) else ?f m d)"
    using attr Cons.prems(3,4) by (rule Cons.IH)
  show ?case
  proof (cases "m = Attributes")
    case True
    then have "?f m d = d" by simp
    with step IH True show ?thesis by simp
  next
    case False
    then have f: "?f m d = restore_price th i d" by (cases m) simp_all
    have "restore_price th i (restore_price th i d) = restore_price th i d"
      by (rule restore_price_idem [OF Cons.prems])
    with step IH False f show ?thesis by auto
  qed
qed

theorem tiered_callback_witness:
  "tiered_observer_callback None 0 [Attributes, ChildList, ChildList] (example_line_total ''123456'' ''$1,234.56'')
     = example_line_total ''123456'' ''$1234.56''"
proof -
  have s: "tiered_stable None ''123456''" by code_simp
  have "tiered_observer_callback None 0 [Attributes, ChildList, ChildList] (example_line_total ''123456'' ''$1,234.56'')
          = restore_price None 0 (example_line_total ''123456'' ''$1,234.56'')"
    using tiered_callback [OF _ _ _ s, of 0 "example_line_total ''123456'' ''$1,234.56''"]
    by (simp add: example_line_total_def get_attr_def)
  also have "\<dots> = example_line_total ''123456'' ''$1234.56''" by code_simp
  finally show ?thesis .
qed

end
