(* ===== verification/CartTotal.thy ===== *)
theory CartTotal
  imports Dom
begin

text \<open>
  \<open>src/assets/cart-total-updater.js\<close>: the footer-total updater.
  \<open>updateCartTotal\<close> (lines 7--29) sums the \<open>data-discounted-price\<close> attributes of
  the line items, formats the sum with this file's \<open>formatMoney\<close> (lines 31--73)
  and writes it into the \<open>[data-cart-footer-total]\<close> element when its markup
  differs.  \<open>initializeCartTotalUpdater\<close> (lines 75--96) runs it once and attaches
  a MutationObserver on \<open>[data-line-items]\<close> that runs it again on child-list and
  attribute changes; the listeners (lines 98--104) call the initializer on load and
  500 ms after every cart event.  An exception thrown by \<open>updateCartTotal\<close> is a
  value \<open>Inl e\<close> of the result.
\<close>

section \<open>Selectors (lines 4--5)\<close>

definition footer_total_sel :: selector where
  "footer_total_sel = Sel [HasAttr ''data-cart-footer-total'']"

definition line_item_total_sel :: selector where
  "line_item_total_sel = Sel [HasAttr ''data-cart-item-line-total'', HasAttr ''data-discounted-price'']"

section \<open>formatMoney (lines 31--73)\<close>

text \<open>
  \<open>dollars.replace(/(\d)(?=(\d\d\d)+(?!\d))/g, '$1' + thousands)\<close> (line 51): after
  every digit that is followed by a positive multiple of three digits and then a
  non-digit or the end, the separator is inserted.  The global scan tests every
  position, and a match consumes only the one digit.
\<close>

fun add_delimiters :: "string \<Rightarrow> string \<Rightarrow> string" where
  "add_delimiters sep [] = []"
| "add_delimiters sep (c # cs) =
     (let k = length (takeWhile is_digit cs)
      in if is_digit c \<and> 0 < k \<and> k mod 3 = 0 then c # sep @ add_delimiters sep cs
         else c # add_delimiters sep cs)"

text \<open>
  \<open>formatWithDelimiters\<close> (lines 39--55).  The callers always pass the precision.
  On \<open>NaN\<close> it returns the number \<open>0\<close>, which the caller stringifies as
  \<open>''0''\<close> when it substitutes it (line 72); the model returns that string.
\<close>

definition format_with_delimiters :: "jsnum \<Rightarrow> nat \<Rightarrow> string \<Rightarrow> string \<Rightarrow> string" where
  "format_with_delimiters number precision thousands decimal =
     (let thousands = (if thousands = [] then '','' else thousands);
          decimal = (if decimal = [] then ''.'' else decimal)
      in case number of
           NaN \<Rightarrow> ''0''
         | Num x \<Rightarrow>
             (let s = js_to_fixed precision (js_div (Num x) 100);
                  parts = js_split CHR ''.'' s;
                  dollars = add_delimiters thousands (hd parts);
                  cents = (if 1 < length parts \<and> parts ! 1 \<noteq> [] then decimal @ parts ! 1 else [])
              in dollars @ cents))"

text \<open>
  The placeholder \<open>/\{\{\s*(\w+)\s*\}\}/\<close> (line 36) at the start of a string: the
  name and what follows the match.  No backtracking is possible: \<open>\s\<close> and
  \<open>\w\<close> are disjoint.
\<close>

definition placeholder_at :: "string \<Rightarrow> (string \<times> string) option" where
  "placeholder_at s =
     (if take 2 s = ''{{'' then
        (let s1 = dropWhile is_space (drop 2 s);
             name = takeWhile is_word s1;
             s2 = dropWhile is_space (dropWhile is_word s1)
         in if name \<noteq> [] \<and> take 2 s2 = ''}}'' then Some (name, drop 2 s2) else None)
      else None)"

text \<open>The leftmost match, as \<open>match\<close> and a non-global \<open>replace\<close> find it:
  (text before, captured name, text after).\<close>

fun find_placeholder :: "string \<Rightarrow> (string \<times> string \<times> string) option" where
  "find_placeholder [] = None"
| "find_placeholder (c # cs) =
     (case placeholder_at (c # cs) of
        Some (n, r) \<Rightarrow> Some ([], n, r)
      | None \<Rightarrow> (case find_placeholder cs of None \<Rightarrow> None | Some (b, n, r) \<Rightarrow> Some (c # b, n, r)))"

text \<open>
  \<open>formatMoney(cents, format)\<close>.  A non-number is read with \<open>parseInt(_, 10)\<close>
  (line 33).  An empty format falls back to \<open>this.money_format\<close>, a property read on
  the \<open>undefined\<close> receiver of a strict-mode call: \<open>TypeError\<close>.  No placeholder
  makes \<open>match\<close> return \<open>null\<close>, and \<open>null[1]\<close> throws \<open>TypeError\<close>.  A
  placeholder name the switch does not list leaves \<open>value\<close> empty.
\<close>

definition placeholder_value :: "jsnum \<Rightarrow> string \<Rightarrow> string" where
  "placeholder_value cents name =
     (if name = ''amount'' then format_with_delimiters cents 2 [] []
      else if name = ''amount_no_decimals'' then format_with_delimiters cents 0 [] []
      else if name = ''amount_with_comma_separator'' then format_with_delimiters cents 2 ''.'' '',''
      else if name = ''amount_no_decimals_with_comma_separator'' then format_with_delimiters cents 0 ''.'' '',''
      else [])"

definition format_money_total :: "jsval \<Rightarrow> string \<Rightarrow> string js_result" where
  "format_money_total cents format =
     (let n = (case cents of
                 JNum x \<Rightarrow> x
               | JStr s \<Rightarrow> (case js_parse_int10 s of Some i \<Rightarrow> Num (of_int i) | None \<Rightarrow> NaN))
      in if format = [] then Inl TypeError
         else (case find_placeholder format of
                 None \<Rightarrow> Inl TypeError
               | Some (pre, name, post) \<Rightarrow> Inr (pre @ placeholder_value n name @ post)))"

section \<open>updateCartTotal (lines 7--29)\<close>

text \<open>\<open>parseFloat(item.getAttribute(...))\<close>: a missing attribute is \<open>null\<close>, read as
  the string \<open>''null''\<close>, which is \<open>NaN\<close>.\<close>

definition attr_number :: "element \<Rightarrow> string \<Rightarrow> jsnum" where
  "attr_number e a = (case get_attr e a of None \<Rightarrow> NaN | Some s \<Rightarrow> js_parse_float s)"

text \<open>Lines 13--21: the running sum skips \<open>NaN\<close>.\<close>

definition cart_line_sum :: "dom \<Rightarrow> rat" where
  "cart_line_sum d =
     foldl (\<lambda>acc i. case attr_number (d ! i) ''data-discounted-price'' of
                      NaN \<Rightarrow> acc | Num x \<Rightarrow> acc + x)
           0 (query_all d line_item_total_sel)"

text \<open>Line 23 reads the global \<open>theme\<close> without a guard: \<open>ReferenceError\<close> when the
  theme did not define it.\<close>

definition total_money_format :: "theme option \<Rightarrow> string js_result" where
  "total_money_format th =
     (case th of None \<Rightarrow> Inl ReferenceError
      | Some t \<Rightarrow> Inr (if money_format t \<noteq> [] then money_format t else ''${{amount}}''))"

definition update_cart_total :: "theme option \<Rightarrow> dom \<Rightarrow> dom js_result" where
  "update_cart_total th d =
     (case query_first d footer_total_sel of
        None \<Rightarrow> Inr d
      | Some t \<Rightarrow>
          (case total_money_format th of
             Inl e \<Rightarrow> Inl e
           | Inr mf \<Rightarrow>
               (case format_money_total (JNum (Num (cart_line_sum d))) mf of
                  Inl e \<Rightarrow> Inl e
                | Inr ft \<Rightarrow> Inr (if html (d ! t) \<noteq> ft then set_inner_html t ft d else d))))"

section \<open>The observer and the initializer (lines 75--104)\<close>

text \<open>The observer's loop (lines 79--85) calls \<open>updateCartTotal\<close> once, at the first
  child-list or attribute record, and stops.\<close>

definition total_observer_callback :: "theme option \<Rightarrow> mutation list \<Rightarrow> dom \<Rightarrow> dom js_result" where
  "total_observer_callback th ms d =
     (if \<exists>m \<in> set ms. m = ChildList \<or> m = Attributes then update_cart_total th d else Inr d)"

definition line_items_sel :: selector where
  "line_items_sel = Sel [HasAttr ''data-line-items'']"

text \<open>The observers are the list of observed \<open>[data-line-items]\<close> nodes.  An
  exception in the first line leaves the rest of the initializer unexecuted.\<close>

definition initialize_cart_total_updater ::
  "theme option \<Rightarrow> dom \<Rightarrow> nat list \<Rightarrow> (dom \<times> nat list) js_result" where
  "initialize_cart_total_updater th d obs =
     (case update_cart_total th d of
        Inl e \<Rightarrow> Inl e
      | Inr d' \<Rightarrow> Inr (d', case query_first d' line_items_sel of None \<Rightarrow> obs | Some n \<Rightarrow> obs @ [n]))"

section \<open>The page's events (lines 98--104)\<close>

text \<open>What reaches the script: the document is ready, the theme announces a cart change,
  a \<open>cartUpdateComplete\<close> event, one of the 500 ms timers these two set fires, or the
  observed subtree changes (the records of one notification).\<close>

datatype total_event =
  TotalDomReady | TotalCartChange | TotalUpdateComplete | TotalInitTimer | TotalMutation "mutation list"

text \<open>The script's part of the page: the document, the observed nodes (one entry per
  attached observer) and the number of pending initializer timers; they all run the same
  callback, so their order does not matter.\<close>

record total_state =
  total_doc :: dom
  total_obs :: "nat list"
  total_timers :: nat

text \<open>\<open>initializeCartTotalUpdater\<close> as a listener: an exception escapes it and leaves
  the page as it was.\<close>

definition total_init :: "theme option \<Rightarrow> total_state \<Rightarrow> total_state" where
  "total_init th s =
     (case initialize_cart_total_updater th (total_doc s) (total_obs s) of
        Inl _ \<Rightarrow> s
      | Inr (d, obs) \<Rightarrow> s\<lparr>total_doc := d, total_obs := obs\<rparr>)"

text \<open>One notification runs the callback of every attached observer in turn; an exception
  in one of them escapes that callback only.\<close>

definition total_notify :: "theme option \<Rightarrow> mutation list \<Rightarrow> total_state \<Rightarrow> total_state" where
  "total_notify th ms s =
     s\<lparr>total_doc := fold (\<lambda>_ d. case total_observer_callback th ms d of Inl _ \<Rightarrow> d | Inr d' \<Rightarrow> d')
                      (total_obs s) (total_doc s)\<rparr>"

fun total_step :: "theme option \<Rightarrow> total_state \<Rightarrow> total_event \<Rightarrow> total_state" where
  "total_step th s TotalDomReady = total_init th s"
| "total_step th s TotalCartChange = s\<lparr>total_timers := Suc (total_timers s)\<rparr>"
| "total_step th s TotalUpdateComplete = s\<lparr>total_timers := Suc (total_timers s)\<rparr>"
| "total_step th s TotalInitTimer =
     (if total_timers s = 0 then s else total_init th (s\<lparr>total_timers := total_timers s - 1\<rparr>))"
| "total_step th s (TotalMutation ms) = total_notify th ms s"

definition total_run :: "theme option \<Rightarrow> total_state \<Rightarrow> total_event list \<Rightarrow> total_state" where
  "total_run th s es = foldl (total_step th) s es"

section \<open>Specification\<close>

text \<open>The grouping a reader expects: the last three digits, preceded by the grouping
  of the rest and a separator.\<close>

function group_thousands :: "string \<Rightarrow> string \<Rightarrow> string" where
  "group_thousands sep ds =
     (if length ds \<le> 3 then ds
      else group_thousands sep (take (length ds - 3) ds) @ sep @ drop (length ds - 3) ds)"
  by pat_completeness auto
termination
  by (relation "measure (\<lambda>(sep, ds). length ds)") auto

declare group_thousands.simps [simp del]

text \<open>The amount a reader expects for each placeholder name, on whole cents.\<close>

definition expected_amount :: "int \<Rightarrow> string \<Rightarrow> string" where
  "expected_amount c name =
     (let sg = (if c < 0 then ''-'' else []); n = nat \<bar>c\<bar>;
          dd = [digit_char (n div 10 mod 10), digit_char (n mod 10)]; r = (n + 50) div 100
      in if name = ''amount'' then sg @ group_thousands '','' (show_nat (n div 100)) @ ''.'' @ dd
         else if name = ''amount_no_decimals'' then sg @ group_thousands '','' (show_nat r)
         else if name = ''amount_with_comma_separator''
           then sg @ group_thousands ''.'' (show_nat (n div 100)) @ '','' @ dd
         else if name = ''amount_no_decimals_with_comma_separator''
           then sg @ group_thousands ''.'' (show_nat r)
         else [])"

text \<open>Markup the \<open>innerHTML\<close> getter gives back exactly as the setter received it:
  no tag, no character the serializer escapes in text (\<open>&\<close>, \<open><\<close>, \<open>>\<close>, U+00A0) and
  none the parser normalises (carriage return, NUL).  The model stores the markup that
  was written and reads it back unchanged, which is what a browser does on these
  strings only.\<close>

definition html_verbatim :: "string \<Rightarrow> bool" where
  "html_verbatim s \<longleftrightarrow>
     list_all (\<lambda>c. c \<notin> set [CHR ''<'', CHR ''>'', CHR ''&'', CHR 0x0D, CHR 0x00, CHR 0xA0]) s"

text \<open>A page for the witnesses: the footer total, then two line items of 15.00 and
  7.50 inside the \<open>[data-line-items]\<close> container.\<close>

definition default_theme :: "theme option" where
  "default_theme = Some \<lparr>money_format = ''${{amount}}'', currency_code = [], currency_code_enable = False\<rparr>"

definition example_cart_page :: dom where
  "example_cart_page =
     [\<lparr>tag = ''div'', attrs = [(''data-cart-footer-total'', [])], html = ''$0.00'', parent = None, input_value = []\<rparr>,
      \<lparr>tag = ''div'', attrs = [(''data-line-items'', [])], html = [], parent = None, input_value = []\<rparr>,
      \<lparr>tag = ''span'', attrs = [(''data-cart-item-line-total'', []), (''data-discounted-price'', ''1500'')],
        html = ''$15.00'', parent = Some 1, input_value = []\<rparr>,
      \<lparr>tag = ''span'', attrs = [(''data-cart-item-line-total'', []), (''data-discounted-price'', ''750'')],
        html = ''$7.50'', parent = Some 1, input_value = []\<rparr>]"

text \<open>The cart page after its footer updater has run.\<close>

definition settled_cart_page :: dom where
  "settled_cart_page = (case update_cart_total default_theme example_cart_page of Inr d \<Rightarrow> d | Inl _ \<Rightarrow> example_cart_page)"

section \<open>Lemmas: the thousands separators\<close>

text \<open>Grouping never shortens a numeral, and leaves it unchanged exactly when it has at
  most three digits.\<close>

lemma length_group_thousands: "length ds \<le> length (group_thousands sep ds)"
proof (induction sep ds rule: group_thousands.induct)
  case (1 sep ds)
  then show ?case by (subst group_thousands.simps) (auto simp: not_le)
qed

lemma group_thousands_id: "sep \<noteq> [] \<Longrightarrow> group_thousands sep ds = ds \<longleftrightarrow> length ds \<le> 3"
proof
  assume sep: "sep \<noteq> []" and eq: "group_thousands sep ds = ds"
  show "length ds \<le> 3"
  proof (rule ccontr)
    assume "\<not> length ds \<le> 3"
    then have "group_thousands sep ds = group_thousands sep (take (length ds - 3) ds) @ sep @ drop (length ds - 3) ds"
      by (simp add: group_thousands.simps [of sep ds])
    then have "length (take (length ds - 3) ds) + length sep + 3 \<le> length (group_thousands sep ds)"
      using length_group_thousands [of "take (length ds - 3) ds" sep] \<open>\<not> length ds \<le> 3\<close> by simp
    then show False using eq sep \<open>\<not> length ds \<le> 3\<close> by simp
  qed
qed (simp add: group_thousands.simps)

lemma add_delimiters_short:
  "\<forall>c \<in> set ds. is_digit c \<Longrightarrow> length ds \<le> 3 \<Longrightarrow> add_delimiters sep ds = ds"
proof (induction ds)
  case Nil
  then show ?case by simp
next
  case (Cons c cs)
  have tw: "takeWhile is_digit cs = cs" using Cons.prems(1) by (simp add: takeWhile_eq_all_conv)
  have "add_delimiters sep (c # cs) = c # add_delimiters sep cs"
    unfolding add_delimiters.simps Let_def tw using Cons.prems(2) by auto
  with Cons show ?case by simp
qed

lemma add_delimiters_snoc3:
  assumes "\<forall>c \<in> set xs. is_digit c" and "\<forall>c \<in> set ys. is_digit c" and "length ys = 3"
  shows "add_delimiters sep (xs @ ys) = add_delimiters sep xs @ (if xs = [] then [] else sep) @ ys"
  using assms(1)
proof (induction xs)
  case Nil
  then show ?case using assms(2,3) by (simp add: add_delimiters_short)
next
  case (Cons c xs)
  have tw: "takeWhile is_digit (xs @ ys) = xs @ ys" "takeWhile is_digit xs = xs"
    using Cons.prems assms(2) by (simp_all add: takeWhile_eq_all_conv)
  have lhs: "add_delimiters sep ((c # xs) @ ys) =
               c # (if length xs mod 3 = 0 then sep else []) @ add_delimiters sep (xs @ ys)"
    unfolding append_Cons add_delimiters.simps Let_def tw(1) using Cons.prems assms(3) by simp
  have rhs: "add_delimiters sep (c # xs) =
               c # (if 0 < length xs \<and> length xs mod 3 = 0 then sep else []) @ add_delimiters sep xs"
    unfolding add_delimiters.simps Let_def tw(2) using Cons.prems by simp
  show ?case
  proof (cases "xs = []")
    case True
    then show ?thesis using lhs assms(2,3) by (simp add: add_delimiters_short)
  next
    case False
    then show ?thesis using lhs rhs Cons.IH Cons.prems by simp
  qed
qed

lemma add_delimiters_group:
  "\<forall>c \<in> set ds. is_digit c \<Longrightarrow> add_delimiters sep ds = group_thousands sep ds"
proof (induction sep ds rule: group_thousands.induct)
  case (1 sep ds)
  show ?case
  proof (cases "length ds \<le> 3")
    case True
    with "1.prems" show ?thesis by (simp add: add_delimiters_short group_thousands.simps [of sep ds])
  next
    case False
    let ?xs = "take (length ds - 3) ds" and ?ys = "drop (length ds - 3) ds"
    have dig: "\<forall>c \<in> set ?xs. is_digit c" "\<forall>c \<in> set ?ys. is_digit c"
      using "1.prems" by (auto dest: in_set_takeD in_set_dropD)
    have len: "length ?ys = 3" using False by simp
    have ne: "?xs \<noteq> []" using False by (cases ds) simp_all
    have "add_delimiters sep ds = add_delimiters sep (?xs @ ?ys)"
      by (simp only: append_take_drop_id)
    also have "\<dots> = add_delimiters sep ?xs @ sep @ ?ys"
      unfolding add_delimiters_snoc3 [OF dig len] using ne by simp
    also have "add_delimiters sep ?xs = group_thousands sep ?xs"
      using False dig(1) by (intro "1.IH") simp_all
    finally show ?thesis using False by (simp add: group_thousands.simps [of sep ds])
  qed
qed

lemma add_delimiters_sign:
  "\<not> is_digit c \<Longrightarrow> add_delimiters sep (c # cs) = c # add_delimiters sep cs"
  by (simp add: Let_def)

lemma filter_add_delimiters:
  "\<not> is_digit s \<Longrightarrow> filter (\<lambda>x. x \<noteq> s) (add_delimiters [s] ds) = filter (\<lambda>x. x \<noteq> s) ds"
  by (induction ds) (auto simp: Let_def)

section \<open>Lemmas: formatWithDelimiters on whole cents\<close>

lemma add_delimiters_signed:
  "add_delimiters sep ((if c < 0 then ''-'' else []) @ show_nat n) =
     (if c < 0 then ''-'' else []) @ group_thousands sep (show_nat n)"
  by (simp add: add_delimiters_sign add_delimiters_group show_nat_digits)

lemma format_with_delimiters_2:
  "format_with_delimiters (Num (of_int c)) 2 ts dec =
     (if c < 0 then ''-'' else []) @ group_thousands (if ts = [] then '','' else ts) (show_nat (nat \<bar>c\<bar> div 100))
     @ (if dec = [] then ''.'' else dec) @ [digit_char (nat \<bar>c\<bar> div 10 mod 10), digit_char (nat \<bar>c\<bar> mod 10)]"
proof -
  let ?sg = "if c < 0 then ''-'' else []" and ?n = "nat \<bar>c\<bar>"
  let ?dd = "[digit_char (?n div 10 mod 10), digit_char (?n mod 10)]"
  have tf: "js_to_fixed 2 (js_div (Num (of_int c)) 100) = (?sg @ show_nat (?n div 100)) @ CHR ''.'' # ?dd"
    by (simp add: to_fixed_cents fixed_digits_2)
  have sp: "js_split CHR ''.'' ((?sg @ show_nat (?n div 100)) @ CHR ''.'' # ?dd) = [?sg @ show_nat (?n div 100), ?dd]"
    by (simp add: js_split_at js_split_none)
  show ?thesis
    unfolding format_with_delimiters_def Let_def jsnum.case tf sp
    by (simp add: add_delimiters_signed)
qed

lemma format_with_delimiters_0:
  "format_with_delimiters (Num (of_int c)) 0 ts dec =
     (if c < 0 then ''-'' else []) @ group_thousands (if ts = [] then '','' else ts) (show_nat ((nat \<bar>c\<bar> + 50) div 100))"
proof -
  let ?sg = "if c < 0 then ''-'' else []" and ?r = "(nat \<bar>c\<bar> + 50) div 100"
  have tf: "js_to_fixed 0 (js_div (Num (of_int c)) 100) = ?sg @ show_nat ?r"
    by (simp add: to_fixed_cents_0)
  have sp: "js_split CHR ''.'' (?sg @ show_nat ?r) = [?sg @ show_nat ?r]"
    by (simp add: js_split_none)
  show ?thesis
    unfolding format_with_delimiters_def Let_def jsnum.case tf sp
    by (simp add: add_delimiters_signed)
qed

lemma placeholder_value_cents: "placeholder_value (Num (of_int c)) name = expected_amount c name"
  by (simp add: placeholder_value_def expected_amount_def Let_def format_with_delimiters_2
                format_with_delimiters_0)

lemma find_placeholder_needs_braces: "find_placeholder s = Some r \<Longrightarrow> sublist ''{{'' s"
proof (induction s arbitrary: r)
  case Nil
  then show ?case by simp
next
  case (Cons c cs)
  show ?case
  proof (cases "placeholder_at (c # cs)")
    case None
    with Cons.prems obtain r' where "find_placeholder cs = Some r'" by (auto split: option.splits)
    then have "sublist ''{{'' cs" by (rule Cons.IH)
    then show ?thesis by (auto simp: sublist_Cons_right)
  next
    case (Some a)
    then have "take 2 (c # cs) = ''{{''" by (simp add: placeholder_at_def split: if_splits)
    then have "prefix ''{{'' (c # cs)" by (metis append_take_drop_id prefixI)
    then show ?thesis by (rule prefix_imp_sublist)
  qed
qed

section \<open>Lemmas: formatMoney\<close>

text \<open>C6. On a whole number of cents \<open>formatMoney\<close> agrees with the reference
  formatting for each of the four placeholders it knows: units grouped by three from the
  right with \<open>,\<close> (or \<open>.\<close>), two decimals after \<open>.\<close> (or \<open>,\<close>), or the
  amount rounded half up to whole units; the text around the placeholder is kept.
  \<open>123456\<close> cents print as \<open>1,234.56\<close> or \<open>1.234,56\<close>, as the specification's
  testable property asks.\<close>

theorem format_money_total_cents:
  assumes "find_placeholder format = Some (pre, name, post)"
  shows "format_money_total (JNum (Num (of_int c))) format = Inr (pre @ expected_amount c name @ post)"
proof -
  have "format \<noteq> []" using assms by (cases format) simp_all
  with assms show ?thesis by (simp add: format_money_total_def placeholder_value_cents)
qed

theorem format_money_total_cents_witness:
  "format_money_total (JNum (Num 123456)) ''${{amount}}'' = Inr ''$1,234.56''
   \<and> format_money_total (JNum (Num 123456)) ''{{ amount_with_comma_separator }} EUR'' = Inr ''1.234,56 EUR''
   \<and> format_money_total (JNum (Num 123456)) ''${{amount_no_decimals}}'' = Inr ''$1,235''"
proof -
  have f1: "find_placeholder ''${{amount}}'' = Some (''$'', ''amount'', [])" by code_simp
  have f2: "find_placeholder ''{{ amount_with_comma_separator }} EUR''
              = Some ([], ''amount_with_comma_separator'', '' EUR'')" by code_simp
  have f3: "find_placeholder ''${{amount_no_decimals}}'' = Some (''$'', ''amount_no_decimals'', [])" by code_simp
  have e1: "expected_amount 123456 ''amount'' = ''1,234.56''" by code_simp
  have e2: "expected_amount 123456 ''amount_with_comma_separator'' = ''1.234,56''" by code_simp
  have e3: "expected_amount 123456 ''amount_no_decimals'' = ''1,235''" by code_simp
  show ?thesis
    using format_money_total_cents [OF f1, of 123456] format_money_total_cents [OF f2, of 123456]
          format_money_total_cents [OF f3, of 123456] e1 e2 e3
    by simp
qed

text \<open>C7. Round trip: taking the thousands separators out of the \<open>{{amount}}\<close> text
  and reading it with \<open>parseFloat\<close> gives back the amount in currency units.\<close>

theorem format_with_delimiters_roundtrip:
  "js_parse_float (filter (\<lambda>x. x \<noteq> CHR '','') (format_with_delimiters (Num (of_int c)) 2 [] []))
     = Num (of_int c / 100)"
proof -
  let ?sg = "if c < 0 then ''-'' else []" and ?n = "nat \<bar>c\<bar>"
  let ?dd = "[digit_char (?n div 10 mod 10), digit_char (?n mod 10)]"
  have raw: "format_with_delimiters (Num (of_int c)) 2 [] [] =
               add_delimiters '','' (?sg @ show_nat (?n div 100)) @ ''.'' @ ?dd"
    by (simp add: format_with_delimiters_2 add_delimiters_signed)
  have dig: "\<forall>x \<in> set (show_nat (?n div 100)). x \<noteq> CHR '',''" "\<forall>x \<in> set ?dd. x \<noteq> CHR '',''"
    by auto
  have "filter (\<lambda>x. x \<noteq> CHR '','') (add_delimiters '','' (?sg @ show_nat (?n div 100)))
          = ?sg @ show_nat (?n div 100)"
    using filter_add_delimiters [of "CHR '',''" "?sg @ show_nat (?n div 100)"] dig(1)
    by (simp add: filter_id_conv)
  then have flt: "filter (\<lambda>x. x \<noteq> CHR '','') (format_with_delimiters (Num (of_int c)) 2 [] []) =
                    ?sg @ show_nat (?n div 100) @ CHR ''.'' # ?dd"
    using raw dig(2) by (simp add: filter_id_conv)
  have "show_nat (?n div 100) @ ?dd = (show_nat (?n div 100) @ [digit_char (?n div 10 mod 10)])
                                       @ [digit_char (?n mod 10)]" by simp
  moreover have "?n = 100 * (?n div 100) + 10 * (?n div 10 mod 10) + ?n mod 10"
    using mod_mult2_eq [of ?n 10 10] div_mult_mod_eq [of ?n 100] by simp
  ultimately have val: "digits_value (show_nat (?n div 100) @ ?dd) = ?n"
    by (simp only: digits_value_snoc digits_value_show_nat) simp
  have "js_parse_float (?sg @ show_nat (?n div 100) @ CHR ''.'' # ?dd) =
          Num ((if ?sg = ''-'' then -1 else 1)
               * (of_nat (digits_value (show_nat (?n div 100) @ ?dd)) / 10 ^ length ?dd))"
    by (rule parse_float_decimal) (simp_all add: show_nat_digits)
  also have "\<dots> = Num (of_int c / 100)"
    unfolding val by (simp add: abs_if)
  finally show ?thesis using flt by simp
qed

text \<open>C8. A format with no \<open>{{\<close> at all (or an empty one) makes \<open>formatMoney\<close>
  throw \<open>TypeError\<close>: \<open>match\<close> returns \<open>null\<close> and line 57 reads \<open>null[1]\<close>.\<close>

theorem format_money_total_no_placeholder:
  "\<not> sublist ''{{'' format \<Longrightarrow> format_money_total v format = Inl TypeError"
  by (auto simp: format_money_total_def dest: find_placeholder_needs_braces split: option.splits)

theorem format_money_total_no_placeholder_witness:
  "format_money_total (JNum (Num 500)) ''$ {amount}'' = Inl TypeError"
proof -
  have "\<not> sublist ''{{'' ''$ {amount}''" by code_simp
  then show ?thesis by (rule format_money_total_no_placeholder)
qed

text \<open>C9. A placeholder the switch does not list (Shopify also offers
  \<open>amount_with_apostrophe_separator\<close> and \<open>amount_with_space_separator\<close>) is replaced
  by the empty string: the total shows no amount at all.\<close>

theorem format_money_total_unknown_placeholder:
  assumes "find_placeholder format = Some (pre, name, post)"
    and "name \<notin> {''amount'', ''amount_no_decimals'', ''amount_with_comma_separator'',
                  ''amount_no_decimals_with_comma_separator''}"
  shows "format_money_total v format = Inr (pre @ post)"
proof -
  have "format \<noteq> []" using assms(1) by (cases format) simp_all
  with assms show ?thesis by (simp add: format_money_total_def placeholder_value_def)
qed

theorem format_money_total_unknown_placeholder_witness:
  "format_money_total (JNum (Num 123456)) ''{{amount_with_apostrophe_separator}} CHF'' = Inr '' CHF''"
proof -
  have "find_placeholder ''{{amount_with_apostrophe_separator}} CHF''
          = Some ([], ''amount_with_apostrophe_separator'', '' CHF'')" by code_simp
  then show ?thesis using format_money_total_unknown_placeholder by simp
qed

section \<open>Lemmas: updateCartTotal\<close>

lemma foldl_sum_shift:
  "foldl (\<lambda>acc i. case f i of NaN \<Rightarrow> acc | Num x \<Rightarrow> acc + x) a xs =
     a + sum_list (map (\<lambda>i. case f i of NaN \<Rightarrow> 0 | Num x \<Rightarrow> x) xs)"
  by (induction xs arbitrary: a) (auto simp: add.assoc split: jsnum.splits)

lemma cart_line_sum_eq:
  "cart_line_sum d = sum_list (map (\<lambda>i. case attr_number (d ! i) ''data-discounted-price'' of
                                          NaN \<Rightarrow> 0 | Num x \<Rightarrow> x) (query_all d line_item_total_sel))"
  by (simp add: cart_line_sum_def foldl_sum_shift)

lemma cart_line_sum_same_shape: "same_shape d d' \<Longrightarrow> cart_line_sum d' = cart_line_sum d"
proof -
  assume sh: "same_shape d d'"
  have "\<And>i. i \<in> set (query_all d line_item_total_sel) \<Longrightarrow>
          attr_number (d' ! i) ''data-discounted-price'' = attr_number (d ! i) ''data-discounted-price''"
    using sh by (simp add: attr_number_def same_shape_get_attr query_all_less)
  then show ?thesis
    using sh by (simp add: cart_line_sum_eq query_all_same_shape cong: map_cong)
qed

lemma update_cart_total_cases:
  assumes "update_cart_total th d = Inr d'"
  shows "(query_first d footer_total_sel = None \<and> d' = d) \<or>
         (\<exists>t mf ft. query_first d footer_total_sel = Some t \<and> total_money_format th = Inr mf
            \<and> format_money_total (JNum (Num (cart_line_sum d))) mf = Inr ft
            \<and> d' = (if html (d ! t) \<noteq> ft then set_inner_html t ft d else d))"
  using assms by (auto simp: update_cart_total_def split: option.splits sum.splits)

lemma update_cart_total_shape: "update_cart_total th d = Inr d' \<Longrightarrow> same_shape d d'"
  by (drule update_cart_total_cases) auto

text \<open>C10. After a successful run with a footer element, the footer's markup is the
  money format applied to the sum of the line items' \<open>data-discounted-price\<close> values
  that parse as numbers; nothing else in the document changes.\<close>

theorem update_cart_total_footer:
  assumes "query_first d footer_total_sel = Some t" and "update_cart_total th d = Inr d'"
  shows "\<exists>mf. total_money_format th = Inr mf
           \<and> format_money_total (JNum (Num (sum_list (map (\<lambda>i. case attr_number (d ! i) ''data-discounted-price''
                 of NaN \<Rightarrow> 0 | Num x \<Rightarrow> x) (query_all d line_item_total_sel))))) mf = Inr (html (d' ! t))
           \<and> (\<forall>j. j \<noteq> t \<longrightarrow> d' ! j = d ! j)"
proof -
  from update_cart_total_cases [OF assms(2)] assms(1) obtain mf ft where
    mf: "total_money_format th = Inr mf" and
    ft: "format_money_total (JNum (Num (cart_line_sum d))) mf = Inr ft" and
    d': "d' = (if html (d ! t) \<noteq> ft then set_inner_html t ft d else d)"
    by auto
  have "t < length d" using assms(1) by (rule query_first_less)
  then have "html (d' ! t) = ft" "\<forall>j. j \<noteq> t \<longrightarrow> d' ! j = d ! j"
    using d' by (auto simp: nth_set_inner_html)
  with mf ft show ?thesis by (auto simp: cart_line_sum_eq)
qed

theorem update_cart_total_footer_witness:
  "update_cart_total default_theme example_cart_page = Inr (example_cart_page[0 := (example_cart_page ! 0)\<lparr>html := ''$22.50''\<rparr>])
   \<and> html ((example_cart_page[0 := (example_cart_page ! 0)\<lparr>html := ''$22.50''\<rparr>]) ! 0) = ''$22.50''"
proof -
  have q: "query_first example_cart_page footer_total_sel = Some 0" by code_simp
  have u: "update_cart_total default_theme example_cart_page
             = Inr (example_cart_page[0 := (example_cart_page ! 0)\<lparr>html := ''$22.50''\<rparr>])" by code_simp
  from update_cart_total_footer [OF q u] show ?thesis using u by (simp add: example_cart_page_def)
qed

text \<open>C11. Without \<open>window.theme\<close>, as soon as there is a footer element
  \<open>updateCartTotal\<close> throws \<open>ReferenceError\<close> at line 23, so
  \<open>initializeCartTotalUpdater\<close> stops at its first line and attaches no observer.\<close>

theorem update_cart_total_no_theme:
  assumes "query_first d footer_total_sel \<noteq> None"
  shows "update_cart_total None d = Inl ReferenceError
         \<and> initialize_cart_total_updater None d obs = Inl ReferenceError"
  using assms
  by (auto simp: update_cart_total_def initialize_cart_total_updater_def total_money_format_def)

theorem update_cart_total_no_theme_witness:
  "initialize_cart_total_updater None example_cart_page [] = Inl ReferenceError"
proof -
  have "query_first example_cart_page footer_total_sel \<noteq> None" by code_simp
  then show ?thesis using update_cart_total_no_theme by blast
qed



section \<open>Lemmas: the page's events\<close>

lemma total_init_no_theme:
  "query_first (total_doc s) footer_total_sel \<noteq> None \<Longrightarrow> total_init None s = s"
  by (auto simp: total_init_def initialize_cart_total_updater_def update_cart_total_def total_money_format_def
      split: option.split)

lemma total_notify_no_obs: "total_obs s = [] \<Longrightarrow> total_notify th ms s = s"
  by (simp add: total_notify_def)

text \<open>C28. Without \<open>window.theme\<close>, once the page has a footer element the footer
  updater is inert for good: whatever events arrive, the initializer throws before it
  attaches an observer, so the document is never written and no observer is attached.\<close>

theorem total_no_theme_inert:
  assumes "query_first (total_doc s) footer_total_sel \<noteq> None" and "total_obs s = []"
  shows "total_doc (total_run None s es) = total_doc s \<and> total_obs (total_run None s es) = []"
  using assms
proof (induction es arbitrary: s)
  case (Cons e es)
  have "total_doc (total_step None s e) = total_doc s \<and> total_obs (total_step None s e) = []"
    using Cons.prems by (cases e) (simp_all add: total_init_no_theme total_notify_no_obs)
  then show ?case using Cons.IH [of "total_step None s e"] Cons.prems by (simp add: total_run_def)
qed (simp add: total_run_def)

lemma total_init_attaches:
  assumes "update_cart_total th (total_doc s) = Inr d" and "query_first d line_items_sel = Some n"
  shows "total_init th s = s\<lparr>total_doc := d, total_obs := total_obs s @ [n]\<rparr>"
  using assms by (simp add: total_init_def initialize_cart_total_updater_def)

lemma total_run_append: "total_run th s (xs @ ys) = total_run th (total_run th s xs) ys"
  by (simp add: total_run_def)

lemma total_run_cart_changes:
  "total_run th s (replicate k TotalCartChange) = s\<lparr>total_timers := total_timers s + k\<rparr>"
  by (induction k arbitrary: s) (simp_all add: total_run_def)

lemma total_run_init_timers:
  assumes cur: "update_cart_total th (total_doc s) = Inr (total_doc s)"
    and n: "query_first (total_doc s) line_items_sel = Some n" and k: "k \<le> total_timers s"
  shows "total_run th s (replicate k TotalInitTimer)
           = s\<lparr>total_obs := total_obs s @ replicate k n, total_timers := total_timers s - k\<rparr>"
  using assms
proof (induction k arbitrary: s)
  case (Suc k)
  let ?s1 = "s\<lparr>total_obs := total_obs s @ [n], total_timers := total_timers s - 1\<rparr>"
  have "total_step th s TotalInitTimer = ?s1"
    using Suc.prems total_init_attaches [of th "s\<lparr>total_timers := total_timers s - 1\<rparr>" "total_doc s" n]
    by simp
  moreover have "total_run th ?s1 (replicate k TotalInitTimer)
      = ?s1\<lparr>total_obs := total_obs ?s1 @ replicate k n, total_timers := total_timers ?s1 - k\<rparr>"
    using Suc.prems by (intro Suc.IH) auto
  ultimately show ?case by (simp add: total_run_def)
qed (simp add: total_run_def)

text \<open>C29. Every cart change or \<open>cartUpdateComplete\<close> event attaches one more
  observer to the line-items node once its 500 ms timer fires, and none is removed: from a
  page whose footer is current, \<open>k\<close> events and their timers leave \<open>k\<close> more observers
  and the same document.\<close>

theorem total_observers_accumulate:
  assumes "update_cart_total th (total_doc s) = Inr (total_doc s)"
    and "query_first (total_doc s) line_items_sel = Some n"
  shows "total_run th s (replicate k TotalCartChange @ replicate k TotalInitTimer)
           = s\<lparr>total_obs := total_obs s @ replicate k n\<rparr>"
  using assms total_run_init_timers [of th "s\<lparr>total_timers := total_timers s + k\<rparr>" n k]
  by (simp add: total_run_append total_run_cart_changes)

theorem total_no_theme_inert_witness:
  "query_first (total_doc \<lparr>total_doc = example_cart_page, total_obs = [], total_timers = 0\<rparr>) footer_total_sel \<noteq> None
   \<and> total_doc (total_run None \<lparr>total_doc = example_cart_page, total_obs = [], total_timers = 0\<rparr>
        [TotalDomReady, TotalCartChange, TotalInitTimer, TotalMutation [ChildList]]) = example_cart_page"
proof -
  have f: "query_first (total_doc \<lparr>total_doc = example_cart_page, total_obs = [], total_timers = 0\<rparr>) footer_total_sel \<noteq> None"
    by code_simp
  show ?thesis using total_no_theme_inert [OF f, of "[TotalDomReady, TotalCartChange, TotalInitTimer, TotalMutation [ChildList]]"] f
    by simp
qed

theorem total_observers_accumulate_witness:
  "total_run default_theme \<lparr>total_doc = settled_cart_page, total_obs = [], total_timers = 0\<rparr>
      (replicate 2 TotalCartChange @ replicate 2 TotalInitTimer)
   = \<lparr>total_doc = settled_cart_page, total_obs = [1, 1], total_timers = 0\<rparr>"
proof -
  have c: "update_cart_total default_theme (total_doc \<lparr>total_doc = settled_cart_page, total_obs = [], total_timers = 0\<rparr>)
      = Inr (total_doc \<lparr>total_doc = settled_cart_page, total_obs = [], total_timers = 0\<rparr>)"
    and n: "query_first (total_doc \<lparr>total_doc = settled_cart_page, total_obs = [], total_timers = 0\<rparr>) line_items_sel = Some 1"
    by code_simp+
  show ?thesis using total_observers_accumulate [OF c n, of 2] by (simp add: numeral_2_eq_2)
qed

end
