(* ===== verification/DrawerWrites.thy ===== *)
theory DrawerWrites
  imports Dom
begin

text \<open>
  The price writes of the cart-drawer updater of \<open>src/assets/custom.js\<close>:
  \<open>applyPriceUpdates\<close> (lines 132--173) and \<open>updatePrice\<close> (lines 186--197) as
  functions on the document, the cart object they read, and an abstract specification
  of what they promise: a list of (selector, price) writes in which the last write that
  matches an element decides its text.  The lemmas show that the writes keep the
  document's shape, never touch a focused or locked quantity input, leave every free
  quantity input holding the line's quantity and every total element the cart total, and
  refine the abstract plan.  The event machine that calls them is in \<open>Drawer\<close>.
\<close>

section \<open>Cart data\<close>

text \<open>A line of Shopify's cart object as the script reads it.  Prices are integer cents.
  \<open>item.variant\<close> is read as \<open>item.variant.compare_at_price\<close>: \<open>None\<close> when the line
  has no \<open>variant\<close> object, \<open>Some None\<close> when its \<open>compare_at_price\<close> is \<open>null\<close>.\<close>

record cart_item =
  item_key :: string
  variant_id :: int
  final_price :: int
  original_price :: int
  final_line_price :: int
  quantity :: int
  variant_compare_at :: "int option option"

text \<open>The cart: \<open>items\<close> is \<open>None\<close> when the object has no \<open>items\<close> array; the empty
  currency stands for a missing (falsy) \<open>currency\<close>.\<close>

record cart =
  items :: "cart_item list option"
  total_price :: int
  currency :: string

text \<open>\<open>Intl.NumberFormat('en-US', {style: 'currency', currency})\<close>: for each currency
  code, the formatting function, or \<open>None\<close> when the constructor throws a RangeError.\<close>

type_synonym intl = "string \<Rightarrow> (rat \<Rightarrow> string) option"

section \<open>Selectors built by applyPriceUpdates\<close>

definition item_price_sel :: "string \<Rightarrow> selector" where
  "item_price_sel k = Sel [AttrIs ''data-item-price'' k]"

definition wpd_item_sel :: "string \<Rightarrow> string \<Rightarrow> string \<Rightarrow> selector" where
  "wpd_item_sel v k t = Desc (Sel [AttrIs ''data-wpd-cart-variant-id'' v, AttrIs ''data-wpd-cart-item'' k]) [Tag t]"

definition compare_price_sel :: "string \<Rightarrow> selector" where
  "compare_price_sel k = Sel [AttrIs ''data-compare-price'' k]"

definition original_price_sel :: "string \<Rightarrow> selector" where
  "original_price_sel k = Sel [AttrIs ''data-original-price'' k]"

definition drawer_line_total_sel :: "string \<Rightarrow> selector" where
  "drawer_line_total_sel k = Sel [AttrIs ''data-line-total'' k]"

definition wpd_line_price_sel :: "string \<Rightarrow> selector" where
  "wpd_line_price_sel k = Sel [HasAttr ''data-wpd-cart-line-price'', AttrIs ''data-wpd-cart-item'' k]"

definition qty_input_sel :: "string \<Rightarrow> selector" where
  "qty_input_sel k = Sel [Tag ''input'', AttrIs ''data-update-cart'' k]"

definition cart_final_sel :: selector where
  "cart_final_sel = Sel [HasAttr ''data-cart-final'']"

definition wcp_total_sel :: selector where
  "wcp_total_sel = Sel [Class ''wcp-original-cart-total'']"

section \<open>Price writes\<close>

text \<open>\<open>updatePrice\<close> (lines 186--197): every element the selector matches gets the
  formatted price \<open>priceInCents / 100\<close> as its text.\<close>

definition update_price :: "selector \<Rightarrow> int \<Rightarrow> (rat \<Rightarrow> string) \<Rightarrow> dom \<Rightarrow> dom" where
  "update_price sel cents fmt d =
     (let es = query_all d sel in
      if es = [] then d
      else fold (\<lambda>i d. set_text_content i (fmt (of_int cents / 100)) d) es d)"

text \<open>\<open>item.variant.compare_at_price\<close> in the comparison and the division: JavaScript
  coerces \<open>null\<close> to 0 there.\<close>

definition compare_at_value :: "int option \<Rightarrow> int" where
  "compare_at_value c = (case c of None \<Rightarrow> 0 | Some p \<Rightarrow> p)"

text \<open>Lines 161--168: the first quantity input of the line is rewritten when its value
  does not parse to the quantity, unless it is the focused element or its key is locked.
  \<open>parseInt\<close> of a non-number gives NaN, which differs from every quantity.\<close>

definition update_quantity :: "nat option \<Rightarrow> string set \<Rightarrow> cart_item \<Rightarrow> dom \<Rightarrow> dom" where
  "update_quantity act locked it d =
     (case query_first d (qty_input_sel (item_key it)) of
        None \<Rightarrow> d
      | Some q \<Rightarrow>
          if js_parse_int (input_value (d ! q)) \<noteq> Some (quantity it)
          then (if act \<noteq> Some q \<and> item_key it \<notin> locked
                then set_value q (show_int (quantity it)) d else d)
          else d)"

text \<open>The price writes of one cart line (lines 140--159).\<close>

definition item_price_writes :: "(rat \<Rightarrow> string) \<Rightarrow> cart_item \<Rightarrow> dom \<Rightarrow> dom" where
  "item_price_writes fmt it d0 =
     (let k = item_key it; v = show_int (variant_id it);
          d1 = update_price (item_price_sel k) (final_price it) fmt d0;
          d2 = update_price (wpd_item_sel v k ''span'') (final_price it) fmt d1;
          d3 = update_price (wpd_item_sel v k ''mark'') (final_price it) fmt d2;
          d4 = (case variant_compare_at it of
                  None \<Rightarrow> d3
                | Some c \<Rightarrow> if final_price it < compare_at_value c
                            then update_price (compare_price_sel k) (compare_at_value c) fmt d3 else d3);
          d5 = (if final_price it < original_price it
                then update_price (original_price_sel k) (original_price it) fmt d4 else d4);
          d6 = update_price (drawer_line_total_sel k) (final_line_price it) fmt d5
      in update_price (wpd_line_price_sel k) (final_line_price it) fmt d6)"

text \<open>The body of \<open>cart.items.forEach\<close> (lines 139--169).\<close>

definition apply_item :: "(rat \<Rightarrow> string) \<Rightarrow> nat option \<Rightarrow> string set \<Rightarrow> cart_item \<Rightarrow> dom \<Rightarrow> dom" where
  "apply_item fmt act locked it d = update_quantity act locked it (item_price_writes fmt it d)"

text \<open>\<open>applyPriceUpdates\<close> (lines 132--173), its writes: the formatter is built first and
  throws before any write for a rejected currency; then every line, then the cart total.
  The refresh timer of lines 176--180 belongs to the machine below.\<close>

definition apply_price_updates ::
  "intl \<Rightarrow> nat option \<Rightarrow> string set \<Rightarrow> cart \<Rightarrow> cart_item list \<Rightarrow> dom \<Rightarrow> dom js_result" where
  "apply_price_updates fmts act locked c its d =
     (case fmts (if currency c = [] then ''USD'' else currency c) of
        None \<Rightarrow> Inl RangeError
      | Some fmt \<Rightarrow>
          (let d = fold (apply_item fmt act locked) its d;
               d = update_price cart_final_sel (total_price c) fmt d
           in Inr (update_price wcp_total_sel (total_price c) fmt d)))"

section \<open>Specification: the price plan\<close>

text \<open>What \<open>applyPriceUpdates\<close> promises, read off lines 143--173: the list of
  \<open>updatePrice\<close> calls it makes, as (selector, cents) pairs, and the text each element
  then shows: that of the last pair whose selector matches it, or its old text.
  \<open>run_plan\<close> performs the calls and \<open>strip_values\<close> forgets input values, which
  the price writes never read.\<close>

definition item_price_plan :: "cart_item \<Rightarrow> (selector \<times> int) list" where
  "item_price_plan it =
     (let k = item_key it; v = show_int (variant_id it)
      in [(item_price_sel k, final_price it), (wpd_item_sel v k ''span'', final_price it),
          (wpd_item_sel v k ''mark'', final_price it)]
         @ (case variant_compare_at it of
              None \<Rightarrow> []
            | Some c \<Rightarrow> if final_price it < compare_at_value c then [(compare_price_sel k, compare_at_value c)] else [])
         @ (if final_price it < original_price it then [(original_price_sel k, original_price it)] else [])
         @ [(drawer_line_total_sel k, final_line_price it), (wpd_line_price_sel k, final_line_price it)])"

definition cart_price_plan :: "cart \<Rightarrow> cart_item list \<Rightarrow> (selector \<times> int) list" where
  "cart_price_plan c its = concat (map item_price_plan its) @ [(cart_final_sel, total_price c), (wcp_total_sel, total_price c)]"

definition plan_view :: "(selector \<times> int) list \<Rightarrow> (rat \<Rightarrow> string) \<Rightarrow> dom \<Rightarrow> nat \<Rightarrow> string" where
  "plan_view ws fmt d p =
     (case find (\<lambda>w. matches d (fst w) p) (rev ws) of
        None \<Rightarrow> text_content (d ! p)
      | Some w \<Rightarrow> fmt (of_int (snd w) / 100))"

definition run_plan :: "(selector \<times> int) list \<Rightarrow> (rat \<Rightarrow> string) \<Rightarrow> dom \<Rightarrow> dom" where
  "run_plan ws fmt d = fold (\<lambda>w. update_price (fst w) (snd w) fmt) ws d"

definition strip_values :: "dom \<Rightarrow> dom" where
  "strip_values d = map (\<lambda>e. e\<lparr>input_value := []\<rparr>) d"

text \<open>The quantity inputs of a cart are settled in a document when the first input of
  every line is focused, locked, or already reads as the line's quantity: the state in
  which lines 161--168 write nothing.\<close>

definition quantities_settled :: "nat option \<Rightarrow> string set \<Rightarrow> cart_item list \<Rightarrow> dom \<Rightarrow> bool" where
  "quantities_settled act locked its d \<longleftrightarrow>
     (\<forall>it \<in> set its. case query_first d (qty_input_sel (item_key it)) of
        None \<Rightarrow> True
      | Some q \<Rightarrow> act = Some q \<or> item_key it \<in> locked \<or> js_parse_int (input_value (d ! q)) = Some (quantity it))"

section \<open>Examples\<close>

text \<open>A drawer with one line (key \<open>k1\<close>): its unit price, its quantity input
  and the cart total; a cart with quantity \<open>q\<close> of a $10.00 item.\<close>

definition example_usd :: "rat \<Rightarrow> string" where
  "example_usd r = CHR ''$'' # js_to_fixed 2 (Num r)"

definition example_drawer :: dom where
  "example_drawer =
    [\<lparr>tag = ''div'', attrs = [(''data-drawer'', ''drawer-cart'')], html = [], parent = None, input_value = []\<rparr>,
     \<lparr>tag = ''span'', attrs = [(''data-item-price'', ''k1'')], html = ''$10.00'', parent = Some 0, input_value = []\<rparr>,
     \<lparr>tag = ''input'', attrs = [(''data-update-cart'', ''k1'')], html = [], parent = Some 0, input_value = ''1''\<rparr>,
     \<lparr>tag = ''span'', attrs = [(''data-cart-final'', [])], html = ''$10.00'', parent = Some 0, input_value = []\<rparr>]"

definition example_cart :: "int \<Rightarrow> cart" where
  "example_cart q = \<lparr>items = Some [\<lparr>item_key = ''k1'', variant_id = 7, final_price = 1000, original_price = 1000,
      final_line_price = 1000 * q, quantity = q, variant_compare_at = None\<rparr>], total_price = 1000 * q, currency = []\<rparr>"

definition example_total_page :: dom where
  "example_total_page = update_price wcp_total_sel 3000 example_usd (update_price cart_final_sel 3000 example_usd
     (fold (apply_item example_usd None {}) (the (items (example_cart 3))) example_drawer))"

text \<open>An \<open>Intl.NumberFormat\<close> for the examples: a formatter for USD, the amount after
  the code for every other well-formed currency code (three ASCII letters: the
  constructor accepts any such code), and a RangeError (\<open>None\<close>) for a malformed code.\<close>

definition example_intl :: intl where
  "example_intl c =
     (if c = ''USD'' then Some example_usd
      else if length c = 3 \<and> list_all (\<lambda>x. (65::nat) \<le> of_char x \<and> of_char x \<le> (90::nat) \<or> (97::nat) \<le> of_char x \<and> of_char x \<le> (122::nat)) c
      then Some (\<lambda>r. c @ CHR '' '' # js_to_fixed 2 (Num r))
      else None)"

section \<open>Protected inputs\<close>

text \<open>A quantity input the script must leave alone: the focused element, or an input
  whose key is locked.\<close>

definition protected_input :: "nat option \<Rightarrow> string set \<Rightarrow> dom \<Rightarrow> nat \<Rightarrow> bool" where
  "protected_input act locked d p \<longleftrightarrow>
     act = Some p \<or> (\<exists>k \<in> locked. get_attr (d ! p) ''data-update-cart'' = Some k)"

text \<open>What a script callback other than the focus listeners does to the state: it keeps the
  focus, the locks, the clock and the listeners, only adds timers, and due no earlier
  than now, keeps the document's shape and leaves protected inputs alone.\<close>

section \<open>Lemmas: price writes\<close>

lemma protected_input_same_shape:
  "same_shape d d' \<Longrightarrow> p < length d \<Longrightarrow> protected_input act locked d' p = protected_input act locked d p"
  by (simp add: protected_input_def same_shape_get_attr)

lemma fold_text_shape: "same_shape d (fold (\<lambda>i d. set_text_content i v d) es d)"
  by (induction es arbitrary: d) (auto intro: same_shape_trans)

lemma fold_text_value: "input_value (fold (\<lambda>i d. set_text_content i v d) es d ! p) = input_value (d ! p)"
  by (induction es arbitrary: d) (simp_all add: set_text_content_def nth_set_inner_html)

lemma update_price_shape [simp]: "same_shape d (update_price sel c fmt d)"
  by (simp add: update_price_def Let_def fold_text_shape)

lemma update_price_value [simp]: "input_value (update_price sel c fmt d ! p) = input_value (d ! p)"
  by (simp add: update_price_def Let_def fold_text_value)

lemma update_price_shape_trans [intro]: "same_shape d d' \<Longrightarrow> same_shape d (update_price sel c fmt d')"
  using same_shape_trans update_price_shape by blast

lemma update_quantity_shape [simp]: "same_shape d (update_quantity act locked it d)"
  by (simp add: update_quantity_def split: option.split)

lemma query_first_attr:
  assumes "query_first d (Sel [Tag t, AttrIs a v]) = Some q"
  shows "get_attr (d ! q) a = Some v"
proof -
  have "matches d (Sel [Tag t, AttrIs a v]) q"
    using query_first_in [OF assms] by (simp add: query_all_def)
  then show ?thesis by simp
qed

lemma update_quantity_value:
  assumes "protected_input act locked d p"
  shows "input_value (update_quantity act locked it d ! p) = input_value (d ! p)"
proof (cases "query_first d (qty_input_sel (item_key it))")
  case (Some q)
  have "get_attr (d ! q) ''data-update-cart'' = Some (item_key it)"
    using Some query_first_attr unfolding qty_input_sel_def by blast
  then show ?thesis
    using assms Some by (auto simp: update_quantity_def protected_input_def nth_set_value)
qed (simp add: update_quantity_def)

lemma item_price_writes_shape [simp]: "same_shape d (item_price_writes fmt it d)"
  unfolding item_price_writes_def Let_def
  by (auto split: option.split intro!: update_price_shape_trans)

lemma item_price_writes_value [simp]:
  "input_value (item_price_writes fmt it d ! p) = input_value (d ! p)"
  unfolding item_price_writes_def Let_def by (simp split: option.split)

lemma apply_item_shape [simp]: "same_shape d (apply_item fmt act locked it d)"
  unfolding apply_item_def by (rule same_shape_trans [OF _ update_quantity_shape]) simp

lemma update_quantity_value_shape:
  "same_shape d d' \<Longrightarrow> p < length d \<Longrightarrow> protected_input act locked d p \<Longrightarrow>
   input_value (update_quantity act locked it d' ! p) = input_value (d' ! p)"
  using update_quantity_value protected_input_same_shape by blast

lemma apply_item_value:
  "p < length d \<Longrightarrow> protected_input act locked d p \<Longrightarrow>
   input_value (apply_item fmt act locked it d ! p) = input_value (d ! p)"
  unfolding apply_item_def by (simp add: update_quantity_value_shape [of d])

lemma apply_item_shape_trans [intro]: "same_shape d d' \<Longrightarrow> same_shape d (apply_item fmt act locked it d')"
  using same_shape_trans apply_item_shape by blast

lemma fold_apply_item_shape: "same_shape d (fold (apply_item fmt act locked) its d)"
proof (induction its arbitrary: d)
  case (Cons it its)
  have "same_shape d (apply_item fmt act locked it d)" by simp
  then have "same_shape d (fold (apply_item fmt act locked) its (apply_item fmt act locked it d))"
    using Cons.IH by (rule same_shape_trans)
  then show ?case by simp
qed simp

lemma fold_apply_item_value:
  "p < length d \<Longrightarrow> protected_input act locked d p \<Longrightarrow>
   input_value (fold (apply_item fmt act locked) its d ! p) = input_value (d ! p)"
proof (induction its arbitrary: d)
  case (Cons it its)
  have sh: "same_shape d (apply_item fmt act locked it d)" by simp
  then have "p < length (apply_item fmt act locked it d)"
    "protected_input act locked (apply_item fmt act locked it d) p"
    using same_shape_length [OF sh] protected_input_same_shape [OF sh] Cons.prems by auto
  then show ?case
    using Cons by (simp add: apply_item_value)
qed simp

lemma apply_price_updates_shape:
  "apply_price_updates fmts act locked c its d = Inr d' \<Longrightarrow> same_shape d d'"
  by (auto simp: apply_price_updates_def Let_def split: option.splits
      intro!: update_price_shape_trans fold_apply_item_shape)

lemma apply_price_updates_value:
  "apply_price_updates fmts act locked c its d = Inr d' \<Longrightarrow> p < length d \<Longrightarrow>
   protected_input act locked d p \<Longrightarrow> input_value (d' ! p) = input_value (d ! p)"
  by (auto simp: apply_price_updates_def Let_def fold_apply_item_value split: option.splits)

section \<open>Lemmas: what applyPriceUpdates writes\<close>

lemma fold_text_nth:
  "fold (\<lambda>i d. set_text_content i v d) es d ! p =
     (if p \<in> set es \<and> p < length d then (d ! p)\<lparr>html := html_escape v\<rparr> else d ! p)"
  by (induction es arbitrary: d) (auto simp: set_text_content_def nth_set_inner_html)

lemma update_price_nth:
  "update_price sel c fmt d ! p =
     (if matches d sel p then (d ! p)\<lparr>html := html_escape (fmt (of_int c / 100))\<rparr> else d ! p)"
proof -
  have "matches d sel p \<Longrightarrow> p < length d"
    by (cases sel) auto
  then show ?thesis
    by (auto simp: update_price_def Let_def fold_text_nth query_all_def filter_empty_conv)
qed

lemma text_content_escaped [simp]: "text_content (e\<lparr>html := html_escape v\<rparr>) = v"
  by (simp add: text_content_def strip_tags_no_lt lt_not_in_html_escape)

lemma matches_update_price [simp]: "matches (update_price sel' c fmt d) sel p = matches d sel p"
  using matches_same_shape update_price_shape by blast

lemma update_quantity_syncs:
  assumes "query_first d (qty_input_sel (item_key it)) = Some q" "act \<noteq> Some q" "item_key it \<notin> locked"
  shows "js_parse_int (input_value (update_quantity act locked it d ! q)) = Some (quantity it)"
  using assms query_first_less [OF assms(1)]
  by (simp add: update_quantity_def nth_set_value parse_int_show_int)

lemma update_quantity_other:
  assumes "get_attr (d ! q) ''data-update-cart'' = Some k" "k \<noteq> item_key it"
  shows "input_value (update_quantity act locked it d ! q) = input_value (d ! q)"
proof (cases "query_first d (qty_input_sel (item_key it))")
  case (Some q')
  have "get_attr (d ! q') ''data-update-cart'' = Some (item_key it)"
    using Some query_first_attr unfolding qty_input_sel_def by blast
  then have "q' \<noteq> q" using assms by auto
  then show ?thesis using Some by (simp add: update_quantity_def nth_set_value)
qed (simp add: update_quantity_def)

lemma apply_item_syncs:
  assumes "query_first d (qty_input_sel (item_key it)) = Some q" "act \<noteq> Some q" "item_key it \<notin> locked"
  shows "js_parse_int (input_value (apply_item fmt act locked it d ! q)) = Some (quantity it)"
  using update_quantity_syncs assms query_first_same_shape [OF item_price_writes_shape]
  unfolding apply_item_def by metis

lemma apply_item_other:
  assumes "q < length d" "get_attr (d ! q) ''data-update-cart'' = Some k" "k \<noteq> item_key it"
  shows "input_value (apply_item fmt act locked it d ! q) = input_value (d ! q)"
  using update_quantity_other [of "item_price_writes fmt it d" q k it] assms
    same_shape_get_attr [OF item_price_writes_shape]
  unfolding apply_item_def by simp

lemma fold_apply_item_other:
  assumes "q < length d" "get_attr (d ! q) ''data-update-cart'' = Some k" "\<forall>y \<in> set ys. item_key y \<noteq> k"
  shows "input_value (fold (apply_item fmt act locked) ys d ! q) = input_value (d ! q)"
  using assms
proof (induction ys arbitrary: d)
  case (Cons y ys)
  have sh: "same_shape d (apply_item fmt act locked y d)" by simp
  have "input_value (fold (apply_item fmt act locked) ys (apply_item fmt act locked y d) ! q)
        = input_value (apply_item fmt act locked y d ! q)"
    using Cons.prems same_shape_length [OF sh] same_shape_get_attr [OF sh]
    by (intro Cons.IH) auto
  also have "\<dots> = input_value (d ! q)"
    using Cons.prems by (intro apply_item_other [where k = k]) auto
  finally show ?case by simp
qed simp

lemma fold_apply_item_synced:
  assumes dist: "distinct (map item_key its)" and it: "it \<in> set its"
    and q: "query_first d (qty_input_sel (item_key it)) = Some q"
    and free: "act \<noteq> Some q" "item_key it \<notin> locked"
  shows "js_parse_int (input_value (fold (apply_item fmt act locked) its d ! q)) = Some (quantity it)"
proof -
  obtain xs ys where its: "its = xs @ it # ys" using split_list [OF it] by blast
  define d1 where "d1 = fold (apply_item fmt act locked) xs d"
  define d2 where "d2 = apply_item fmt act locked it d1"
  have sh1: "same_shape d d1" unfolding d1_def by (rule fold_apply_item_shape)
  have sh2: "same_shape d d2" unfolding d2_def using sh1 by blast
  have ql: "q < length d" by (rule query_first_less [OF q])
  have v2: "js_parse_int (input_value (d2 ! q)) = Some (quantity it)"
    unfolding d2_def using q free query_first_same_shape [OF sh1] by (intro apply_item_syncs) auto
  have attr: "get_attr (d2 ! q) ''data-update-cart'' = Some (item_key it)"
    using query_first_attr [of d "''input''"] q same_shape_get_attr [OF sh2 ql]
    by (simp add: qty_input_sel_def)
  have "\<forall>y \<in> set ys. item_key y \<noteq> item_key it"
    using dist its by (auto simp: image_iff)
  then have "input_value (fold (apply_item fmt act locked) ys d2 ! q) = input_value (d2 ! q)"
    using attr ql same_shape_length [OF sh2] by (intro fold_apply_item_other) auto
  then show ?thesis
    using v2 by (simp add: its d1_def d2_def)
qed

text \<open>C15. When the cart lines have distinct keys, \<open>applyPriceUpdates\<close> leaves the first quantity input of every line that is neither focused nor locked holding a value that \<open>parseInt\<close> reads as the line's quantity.\<close>

theorem quantity_synced:
  assumes ok: "apply_price_updates fmts act locked c its d = Inr d'"
    and dist: "distinct (map item_key its)" and it: "it \<in> set its"
    and q: "query_first d (qty_input_sel (item_key it)) = Some q"
    and free: "act \<noteq> Some q" "item_key it \<notin> locked"
  shows "js_parse_int (input_value (d' ! q)) = Some (quantity it)"
proof -
  obtain fmt where d': "d' = update_price wcp_total_sel (total_price c) fmt
                   (update_price cart_final_sel (total_price c) fmt (fold (apply_item fmt act locked) its d))"
    using ok by (auto simp: apply_price_updates_def Let_def split: option.splits)
  show ?thesis
    using fold_apply_item_synced [OF dist it q free] by (simp add: d')
qed

text \<open>C16. After \<open>applyPriceUpdates\<close> every element marked \<open>data-cart-final\<close> or of class \<open>wcp-original-cart-total\<close> shows the formatted cart total, whatever the line writes did before.\<close>

theorem cart_total_written:
  assumes ok: "apply_price_updates fmts act locked c its d = Inr d'"
    and fmt: "fmts (if currency c = [] then ''USD'' else currency c) = Some fmt"
    and p: "matches d cart_final_sel p \<or> matches d wcp_total_sel p"
  shows "text_content (d' ! p) = fmt (of_int (total_price c) / 100)"
proof -
  define d1 where "d1 = fold (apply_item fmt act locked) its d"
  have sh: "same_shape d d1" unfolding d1_def by (rule fold_apply_item_shape)
  have d': "d' = update_price wcp_total_sel (total_price c) fmt
                   (update_price cart_final_sel (total_price c) fmt d1)"
    using ok fmt by (simp add: apply_price_updates_def Let_def d1_def)
  show ?thesis
    using p matches_same_shape [OF sh] by (auto simp: d' update_price_nth)
qed

section \<open>Lemmas: the writes refine the price plan\<close>

lemma run_plan_append: "run_plan (ws @ ws') fmt d = run_plan ws' fmt (run_plan ws fmt d)"
  by (simp add: run_plan_def)

lemma run_plan_snoc: "run_plan (ws @ [w]) fmt d = update_price (fst w) (snd w) fmt (run_plan ws fmt d)"
  by (simp add: run_plan_def)

lemma run_plan_shape: "same_shape d (run_plan ws fmt d)"
  by (induction ws rule: rev_induct) (auto simp: run_plan_snoc intro: update_price_shape_trans, simp add: run_plan_def)

lemma run_plan_view: "p < length d \<Longrightarrow> text_content (run_plan ws fmt d ! p) = plan_view ws fmt d p"
proof (induction ws rule: rev_induct)
  case Nil
  then show ?case by (simp add: run_plan_def plan_view_def)
next
  case (snoc w ws)
  have m: "matches (run_plan ws fmt d) (fst w) p = matches d (fst w) p"
    using matches_same_shape [OF run_plan_shape] by blast
  show ?case
    using snoc by (simp add: run_plan_snoc update_price_nth m plan_view_def)
qed

lemma strip_values_shape [simp]: "same_shape d (strip_values d)"
  by (simp add: same_shape_def strip_values_def)

lemma strip_values_nth: "p < length d \<Longrightarrow> strip_values d ! p = (d ! p)\<lparr>input_value := []\<rparr>"
  by (simp add: strip_values_def)

lemma strip_set_value [simp]: "strip_values (set_value q v d) = strip_values d"
  unfolding strip_values_def set_value_def by (auto intro!: nth_equalityI simp: nth_list_update)

lemma strip_update_quantity [simp]: "strip_values (update_quantity act locked it d) = strip_values d"
  by (simp add: update_quantity_def split: option.split)

lemma strip_update_price: "strip_values (update_price sel c fmt d) = update_price sel c fmt (strip_values d)"
proof (rule nth_equalityI)
  show "length (strip_values (update_price sel c fmt d)) = length (update_price sel c fmt (strip_values d))"
    using same_shape_length [OF update_price_shape] by (simp add: strip_values_def)
next
  fix p assume "p < length (strip_values (update_price sel c fmt d))"
  then have p: "p < length d"
    using same_shape_length [OF update_price_shape] by (simp add: strip_values_def)
  have "matches (strip_values d) sel p = matches d sel p"
    using matches_same_shape [OF strip_values_shape] by blast
  then show "strip_values (update_price sel c fmt d) ! p = update_price sel c fmt (strip_values d) ! p"
    using p same_shape_length [OF update_price_shape [of d sel c fmt]]
    by (simp add: strip_values_nth update_price_nth)
qed

lemma strip_run_plan: "strip_values (run_plan ws fmt d) = run_plan ws fmt (strip_values d)"
  by (induction ws rule: rev_induct) (simp_all add: run_plan_snoc strip_update_price, simp add: run_plan_def)

lemma item_price_writes_plan: "item_price_writes fmt it d = run_plan (item_price_plan it) fmt d"
  by (simp add: item_price_writes_def item_price_plan_def run_plan_def Let_def split: option.split)

lemma strip_fold_apply_item:
  "strip_values (fold (apply_item fmt act locked) its d) = run_plan (concat (map item_price_plan its)) fmt (strip_values d)"
proof (induction its arbitrary: d)
  case (Cons it its)
  have "strip_values (apply_item fmt act locked it d) = run_plan (item_price_plan it) fmt (strip_values d)"
    by (simp add: apply_item_def item_price_writes_plan strip_run_plan)
  then show ?case
    using Cons.IH [of "apply_item fmt act locked it d"] by (simp add: run_plan_def)
qed (simp add: run_plan_def)

lemma text_content_strip: "p < length d \<Longrightarrow> text_content (strip_values d ! p) = text_content (d ! p)"
  by (simp add: strip_values_nth text_content_def)

lemma plan_view_strip: "p < length d \<Longrightarrow> plan_view ws fmt (strip_values d) p = plan_view ws fmt d p"
proof -
  assume p: "p < length d"
  have "matches (strip_values d) s = matches d s" for s
    by (rule matches_fun_same_shape [OF strip_values_shape])
  then show ?thesis using text_content_strip [OF p] by (simp add: plan_view_def split: option.split)
qed

lemma run_plan_value [simp]: "input_value (run_plan ws fmt d ! p) = input_value (d ! p)"
  by (induction ws rule: rev_induct) (simp_all add: run_plan_snoc, simp add: run_plan_def)

lemma run_plan_nth:
  "p < length d \<Longrightarrow> run_plan ws fmt d ! p =
     (case find (\<lambda>w. matches d (fst w) p) (rev ws) of
        None \<Rightarrow> d ! p
      | Some w \<Rightarrow> (d ! p)\<lparr>html := html_escape (fmt (of_int (snd w) / 100))\<rparr>)"
proof (induction ws rule: rev_induct)
  case Nil
  then show ?case by (simp add: run_plan_def)
next
  case (snoc w ws)
  have m: "matches (run_plan ws fmt d) (fst w) p = matches d (fst w) p"
    using matches_same_shape [OF run_plan_shape] by blast
  show ?case
    using snoc by (simp add: run_plan_snoc update_price_nth m split: option.split)
qed

lemma run_plan_idem: "run_plan ws fmt (run_plan ws fmt d) = run_plan ws fmt d"
proof (rule nth_equalityI)
  show "length (run_plan ws fmt (run_plan ws fmt d)) = length (run_plan ws fmt d)"
    using same_shape_length [OF run_plan_shape] by blast
next
  fix p assume "p < length (run_plan ws fmt (run_plan ws fmt d))"
  then have p: "p < length d" using same_shape_length [OF run_plan_shape] by metis
  have "matches (run_plan ws fmt d) s = matches d s" for s
    by (rule matches_fun_same_shape [OF run_plan_shape])
  then show "run_plan ws fmt (run_plan ws fmt d) ! p = run_plan ws fmt d ! p"
    using p same_shape_length [OF run_plan_shape [of d ws fmt]]
    by (simp add: run_plan_nth split: option.split)
qed

lemma quantities_settled_transfer:
  assumes "same_shape d d'" and "\<And>p. input_value (d' ! p) = input_value (d ! p)"
    and "quantities_settled act locked its d"
  shows "quantities_settled act locked its d'"
  using assms(3) unfolding quantities_settled_def
  by (auto simp: assms(2) query_first_same_shape [OF assms(1)] split: option.split)

lemma update_quantity_settled:
  "quantities_settled act locked [it] d \<Longrightarrow> update_quantity act locked it d = d"
  by (auto simp: quantities_settled_def update_quantity_def split: option.split)

lemma fold_apply_item_settled:
  "quantities_settled act locked its d \<Longrightarrow>
   fold (apply_item fmt act locked) its d = run_plan (concat (map item_price_plan its)) fmt d"
proof (induction its arbitrary: d)
  case (Cons it its)
  let ?d1 = "item_price_writes fmt it d"
  have s1: "quantities_settled act locked (it # its) ?d1"
    using Cons.prems by (rule quantities_settled_transfer [OF item_price_writes_shape item_price_writes_value])
  then have "apply_item fmt act locked it d = ?d1"
    unfolding apply_item_def by (intro update_quantity_settled) (use s1 in \<open>auto simp: quantities_settled_def\<close>)
  moreover have "quantities_settled act locked its ?d1"
    using s1 by (simp add: quantities_settled_def)
  ultimately show ?case
    using Cons.IH by (simp add: item_price_writes_plan run_plan_def)
qed (simp add: run_plan_def)

lemma strip_values_eq:
  assumes "strip_values d1 = strip_values d2" and "\<And>p. input_value (d1 ! p) = input_value (d2 ! p)"
  shows "d1 = d2"
proof (rule nth_equalityI)
  show l: "length d1 = length d2" using arg_cong [OF assms(1), of length] by (simp add: strip_values_def)
  fix p assume p: "p < length d1"
  have "(d1 ! p)\<lparr>input_value := []\<rparr> = (d2 ! p)\<lparr>input_value := []\<rparr>"
    using arg_cong [OF assms(1), of "\<lambda>x. x ! p"] p l by (simp add: strip_values_nth)
  then have "((d1 ! p)\<lparr>input_value := []\<rparr>)\<lparr>input_value := input_value (d1 ! p)\<rparr>
           = ((d2 ! p)\<lparr>input_value := []\<rparr>)\<lparr>input_value := input_value (d2 ! p)\<rparr>"
    using assms(2) [of p] by simp
  then show "d1 ! p = d2 ! p" by simp
qed

lemma apply_price_updates_form:
  assumes "apply_price_updates fmts act locked c its d = Inr d'"
  obtains fmt where "fmts (if currency c = [] then ''USD'' else currency c) = Some fmt"
    and "d' = run_plan [(cart_final_sel, total_price c), (wcp_total_sel, total_price c)] fmt
                (fold (apply_item fmt act locked) its d)"
  using assms by (auto simp: apply_price_updates_def Let_def run_plan_def split: option.splits)

lemma strip_apply_price_updates:
  assumes "apply_price_updates fmts act locked c its d = Inr d'"
    and "fmts (if currency c = [] then ''USD'' else currency c) = Some fmt"
  shows "strip_values d' = run_plan (cart_price_plan c its) fmt (strip_values d)"
proof -
  obtain fmt' where "fmts (if currency c = [] then ''USD'' else currency c) = Some fmt'"
    and d': "d' = run_plan [(cart_final_sel, total_price c), (wcp_total_sel, total_price c)] fmt'
                (fold (apply_item fmt' act locked) its d)"
    using apply_price_updates_form [OF assms(1)] by blast
  then have "fmt' = fmt" using assms(2) by simp
  then show ?thesis
    by (simp add: d' strip_run_plan strip_fold_apply_item cart_price_plan_def run_plan_append)
qed

text \<open>C24. \<open>applyPriceUpdates\<close> implements its plan: after it succeeds, every element of the document shows the formatted price of the last planned write whose selector matches it, or its old text when none does.\<close>

theorem apply_price_updates_refines_plan:
  assumes ok: "apply_price_updates fmts act locked c its d = Inr d'"
    and fmt: "fmts (if currency c = [] then ''USD'' else currency c) = Some fmt"
    and p: "p < length d"
  shows "text_content (d' ! p) = plan_view (cart_price_plan c its) fmt d p"
proof -
  have "p < length d'" using p same_shape_length [OF apply_price_updates_shape [OF ok]] by simp
  then have "text_content (d' ! p) = text_content (strip_values d' ! p)"
    by (simp add: text_content_strip)
  also have "\<dots> = text_content (run_plan (cart_price_plan c its) fmt (strip_values d) ! p)"
    by (simp add: strip_apply_price_updates [OF ok fmt])
  also have "\<dots> = plan_view (cart_price_plan c its) fmt d p"
    using p run_plan_view [of p "strip_values d"] plan_view_strip [OF p] by (simp add: strip_values_def)
  finally show ?thesis .
qed

text \<open>C27. \<open>applyPriceUpdates\<close> is idempotent on a cart whose lines have distinct keys:
  running it again on the document it produced, with the same focus and locks, changes
  nothing, so the repeated runs of duplicated listeners leave the same document.\<close>

theorem apply_price_updates_idempotent:
  assumes ok: "apply_price_updates fmts act locked c its d = Inr d'"
    and dist: "distinct (map item_key its)"
  shows "apply_price_updates fmts act locked c its d' = Inr d'"
proof -
  obtain fmt where fmt: "fmts (if currency c = [] then ''USD'' else currency c) = Some fmt"
    and d': "d' = run_plan [(cart_final_sel, total_price c), (wcp_total_sel, total_price c)] fmt
                (fold (apply_item fmt act locked) its d)"
    using apply_price_updates_form [OF ok] by blast
  let ?P = "cart_price_plan c its"
  have sh: "same_shape d d'" by (rule apply_price_updates_shape [OF ok])
  have settled: "quantities_settled act locked its d'"
    unfolding quantities_settled_def
  proof
    fix it assume it: "it \<in> set its"
    show "case query_first d' (qty_input_sel (item_key it)) of None \<Rightarrow> True
          | Some q \<Rightarrow> act = Some q \<or> item_key it \<in> locked \<or> js_parse_int (input_value (d' ! q)) = Some (quantity it)"
    proof (cases "query_first d (qty_input_sel (item_key it))")
      case (Some q)
      have "act \<noteq> Some q \<Longrightarrow> item_key it \<notin> locked \<Longrightarrow> js_parse_int (input_value (d' ! q)) = Some (quantity it)"
        using fold_apply_item_synced [OF dist it Some] by (simp add: d')
      then show ?thesis using Some query_first_same_shape [OF sh] by auto
    qed (simp add: query_first_same_shape [OF sh])
  qed
  have again: "apply_price_updates fmts act locked c its d' = Inr (run_plan ?P fmt d')"
    using fmt fold_apply_item_settled [OF settled, of fmt]
    by (simp add: apply_price_updates_def cart_price_plan_def run_plan_append) (simp add: run_plan_def)
  have "strip_values (run_plan ?P fmt d') = strip_values d'"
    using strip_apply_price_updates [OF ok fmt] by (simp add: strip_run_plan run_plan_idem)
  then have "run_plan ?P fmt d' = d'"
    by (rule strip_values_eq) simp
  then show ?thesis using again by simp
qed

section \<open>Witnesses\<close>

theorem quantity_synced_witness:
  "apply_price_updates (example_intl) None {} (example_cart 3) (the (items (example_cart 3))) example_drawer
     = Inr (update_price wcp_total_sel 3000 example_usd (update_price cart_final_sel 3000 example_usd
              (fold (apply_item example_usd None {}) (the (items (example_cart 3))) example_drawer)))
   \<and> js_parse_int (input_value (update_price wcp_total_sel 3000 example_usd (update_price cart_final_sel 3000 example_usd
              (fold (apply_item example_usd None {}) (the (items (example_cart 3))) example_drawer)) ! 2)) = Some 3"
proof -
  have ok: "apply_price_updates (example_intl) None {} (example_cart 3) (the (items (example_cart 3))) example_drawer
     = Inr (update_price wcp_total_sel 3000 example_usd (update_price cart_final_sel 3000 example_usd
              (fold (apply_item example_usd None {}) (the (items (example_cart 3))) example_drawer)))"
    by (simp add: apply_price_updates_def example_intl_def example_cart_def)
  have d: "distinct (map item_key (the (items (example_cart 3))))"
    and i: "hd (the (items (example_cart 3))) \<in> set (the (items (example_cart 3)))"
    and q: "query_first example_drawer (qty_input_sel (item_key (hd (the (items (example_cart 3)))))) = Some 2"
    by code_simp+
  have "js_parse_int (input_value (update_price wcp_total_sel 3000 example_usd (update_price cart_final_sel 3000 example_usd
              (fold (apply_item example_usd None {}) (the (items (example_cart 3))) example_drawer)) ! 2))
        = Some (quantity (hd (the (items (example_cart 3)))))"
    using quantity_synced [OF ok d i q] by simp
  then show ?thesis using ok by (simp add: example_cart_def)
qed

theorem cart_total_written_witness:
  "text_content (example_total_page ! 3) = ''$30.00''"
proof -
  have ok: "apply_price_updates (example_intl) None {} (example_cart 3)
      (the (items (example_cart 3))) example_drawer = Inr example_total_page"
    by (simp add: apply_price_updates_def example_intl_def example_cart_def example_total_page_def)
  have f: "example_intl
      (if currency (example_cart 3) = [] then ''USD'' else currency (example_cart 3)) = Some example_usd"
    by (simp add: example_intl_def example_cart_def)
  have m: "matches example_drawer cart_final_sel 3 \<or> matches example_drawer wcp_total_sel 3"
    and u: "example_usd (of_int (total_price (example_cart 3)) / 100) = ''$30.00''"
    by code_simp+
  show ?thesis using cart_total_written [OF ok f m] u by simp
qed

theorem apply_price_updates_refines_plan_witness:
  "text_content (example_total_page ! 1) = ''$10.00''
   \<and> plan_view (cart_price_plan (example_cart 3) (the (items (example_cart 3)))) example_usd example_drawer 1 = ''$10.00''"
proof -
  have ok: "apply_price_updates (example_intl) None {} (example_cart 3)
      (the (items (example_cart 3))) example_drawer = Inr example_total_page"
    by (simp add: apply_price_updates_def example_intl_def example_cart_def example_total_page_def)
  have f: "example_intl
      (if currency (example_cart 3) = [] then ''USD'' else currency (example_cart 3)) = Some example_usd"
    by (simp add: example_intl_def example_cart_def)
  have p: "1 < length example_drawer" by (simp add: example_drawer_def)
  have v: "plan_view (cart_price_plan (example_cart 3) (the (items (example_cart 3)))) example_usd example_drawer 1 = ''$10.00''"
    by code_simp
  show ?thesis using apply_price_updates_refines_plan [OF ok f p] v by simp
qed

theorem apply_price_updates_idempotent_witness:
  "apply_price_updates example_intl None {} (example_cart 3) (the (items (example_cart 3))) example_total_page
     = Inr example_total_page"
proof -
  have ok: "apply_price_updates example_intl None {} (example_cart 3) (the (items (example_cart 3))) example_drawer
      = Inr example_total_page"
    by (simp add: apply_price_updates_def example_intl_def example_cart_def example_total_page_def)
  have "distinct (map item_key (the (items (example_cart 3))))" by code_simp
  then show ?thesis using apply_price_updates_idempotent [OF ok] by simp
qed

end
