(* ===== verification/Drawer.thy ===== *)
theory Drawer
  imports DrawerWrites
begin

text \<open>
  The cart-drawer price updater of \<open>src/assets/custom.js\<close> (lines 70--269).  On every
  \<open>theme:cart:change\<close> event and every opening of the drawer it writes the cart's
  prices into the drawer (\<open>applyPriceUpdates\<close>), after waiting for the wholesale
  pricing app (WCP) when the customer is a wholesale customer (\<open>waitForWCP\<close>).  A set
  of cart-line keys (\<open>interactingInputs\<close>) locks the quantity inputs the customer is
  using.  This theory holds the asynchronous machine around the price writes of
  \<open>DrawerWrites\<close>: listeners, timers, focus and fetches as a step function on an
  explicit state, its reachable states, and their lemmas.
\<close>

section \<open>The asynchronous machine\<close>

text \<open>\<open>window.wcp_data\<close> as the wholesale app leaves it at each millisecond: not
  declared, declared but falsy, or truthy.  \<open>isWholesaleCustomer\<close> tests the first,
  \<open>waitForWCP\<close> the last.\<close>

datatype wcp_state = WcpUndefined | WcpFalsy | WcpTruthy

text \<open>What the page around the script provides: \<open>window.wcp_data\<close> over time, whether
  \<open>window.wcpRefreshCartTotal\<close> is a function, and \<open>Intl.NumberFormat\<close>.\<close>

record drawer_env =
  wcp_data :: "nat \<Rightarrow> wcp_state"
  wcp_refresh_fn :: bool
  number_format :: intl

text \<open>The callbacks the script leaves on the timer queue: the unlock of a key after a
  blur (line 217), a retry of \<open>checkWCP\<close> with its \<open>retries\<close> count (line 121), the
  resolution of the \<open>waitForWCP\<close> promise followed by its \<open>then\<close> callback (lines 92--94,
  118), and the call of \<open>wcpRefreshCartTotal\<close> (line 177).\<close>

datatype task = ClearKey string | CheckWcp nat cart | ResolveWcp cart | RefreshWcp

text \<open>The state the script and the page share: the document, \<open>document.activeElement\<close>,
  \<open>interactingInputs\<close>, the clock (ms), the pending timers (due time and callback, in
  the order they were set), how many times the document listeners and the drawer's
  \<open>theme:drawer:open\<close> listener are registered, the \<open>fetch('/cart.js')\<close> requests in
  flight, and the calls made to \<open>wcpRefreshCartTotal\<close>.\<close>

record drawer_state =
  page :: dom
  active :: "nat option"
  interacting :: "string set"
  now :: nat
  timers :: "(nat \<times> task) list"
  listeners :: nat
  open_listeners :: nat
  pending_fetches :: nat
  refreshes :: nat

text \<open>\<open>WCP_CONFIG\<close> (lines 75--79).\<close>

definition wcp_delay :: nat where
  "wcp_delay = 800"

definition wcp_max_retries :: nat where
  "wcp_max_retries = 5"

definition wcp_retry_interval :: nat where
  "wcp_retry_interval = 200"

text \<open>\<open>setTimeout(f, dt)\<close>.\<close>

definition set_timeout :: "nat \<Rightarrow> task \<Rightarrow> drawer_state \<Rightarrow> drawer_state" where
  "set_timeout dt k s = s\<lparr>timers := timers s @ [(now s + dt, k)]\<rparr>"

definition wpd_button_sel :: selector where
  "wpd_button_sel = Sel [Class ''WPDcheckoutBTN'']"

text \<open>\<open>isWholesaleCustomer\<close> (lines 103--107).\<close>

definition is_wholesale_customer :: "drawer_env \<Rightarrow> drawer_state \<Rightarrow> bool" where
  "is_wholesale_customer env s \<longleftrightarrow>
     query_first (page s) wpd_button_sel \<noteq> None \<or> wcp_data env (now s) \<noteq> WcpUndefined"

text \<open>One run of \<open>checkWCP\<close> (lines 116--123) with \<open>retries = r\<close>.\<close>

definition check_wcp :: "drawer_env \<Rightarrow> nat \<Rightarrow> cart \<Rightarrow> drawer_state \<Rightarrow> drawer_state" where
  "check_wcp env r c s =
     (if wcp_data env (now s) = WcpTruthy \<or> wcp_max_retries \<le> r
      then set_timeout wcp_delay (ResolveWcp c) s
      else set_timeout wcp_retry_interval (CheckWcp (Suc r) c) s)"

text \<open>\<open>applyPriceUpdates\<close> in the page (lines 132--181): the writes, then the refresh
  timer.  A RangeError escapes before any write and leaves the state as it was.\<close>

definition apply_in_state :: "drawer_env \<Rightarrow> cart \<Rightarrow> drawer_state \<Rightarrow> drawer_state" where
  "apply_in_state env c s =
     (case items c of
        None \<Rightarrow> s
      | Some its \<Rightarrow>
          (case apply_price_updates (number_format env) (active s) (interacting s) c its (page s) of
             Inl _ \<Rightarrow> s
           | Inr d \<Rightarrow> (if wcp_refresh_fn env then set_timeout 100 RefreshWcp (s\<lparr>page := d\<rparr>)
                       else s\<lparr>page := d\<rparr>)))"

text \<open>\<open>updateCartDrawerPrices\<close> (lines 87--98); \<open>None\<close> is a missing cart.  The executor
  of \<open>waitForWCP\<close>'s promise runs its first \<open>checkWCP\<close> at once (line 125).\<close>

definition update_cart_drawer_prices :: "drawer_env \<Rightarrow> cart option \<Rightarrow> drawer_state \<Rightarrow> drawer_state" where
  "update_cart_drawer_prices env co s =
     (case co of
        None \<Rightarrow> s
      | Some c \<Rightarrow>
          if items c = None then s
          else if is_wholesale_customer env s then check_wcp env 0 c s
          else apply_in_state env c s)"

definition qty_any_sel :: selector where
  "qty_any_sel = Sel [Tag ''input'', HasAttr ''data-update-cart'']"

definition drawer_sel :: selector where
  "drawer_sel = Sel [AttrIs ''data-drawer'' ''drawer-cart'']"

text \<open>\<open>e.target.closest('input[data-update-cart]')\<close> and its key.\<close>

definition qty_key :: "dom \<Rightarrow> nat \<Rightarrow> string option" where
  "qty_key d i =
     (case closest d qty_any_sel i of None \<Rightarrow> None | Some q \<Rightarrow> get_attr (d ! q) ''data-update-cart'')"

text \<open>The \<open>focusin\<close> and \<open>input\<close> listeners (lines 204--210, 224--230).\<close>

definition lock_key :: "nat \<Rightarrow> drawer_state \<Rightarrow> drawer_state" where
  "lock_key i s =
     (case qty_key (page s) i of None \<Rightarrow> s | Some k \<Rightarrow> s\<lparr>interacting := insert k (interacting s)\<rparr>)"

text \<open>The \<open>focusout\<close> listener (lines 212--221).\<close>

definition release_later :: "nat \<Rightarrow> drawer_state \<Rightarrow> drawer_state" where
  "release_later i s =
     (case qty_key (page s) i of None \<Rightarrow> s | Some k \<Rightarrow> set_timeout 500 (ClearKey k) s)"

text \<open>\<open>initCartDrawerPriceUpdates\<close> (lines 202--254): each call adds one more copy of
  every document listener, and one more \<open>theme:drawer:open\<close> listener on the drawer
  when the drawer is in the document.\<close>

definition init_cart_drawer_price_updates :: "drawer_state \<Rightarrow> drawer_state" where
  "init_cart_drawer_price_updates s =
     s\<lparr>listeners := Suc (listeners s),
       open_listeners := (if query_first (page s) drawer_sel \<noteq> None then Suc (open_listeners s)
                          else open_listeners s)\<rparr>"

text \<open>A timer callback.\<close>

fun run_task :: "drawer_env \<Rightarrow> task \<Rightarrow> drawer_state \<Rightarrow> drawer_state" where
  "run_task env (ClearKey k) s = s\<lparr>interacting := interacting s - {k}\<rparr>"
| "run_task env (CheckWcp r c) s = check_wcp env r c s"
| "run_task env (ResolveWcp c) s = apply_in_state env c s"
| "run_task env RefreshWcp s = s\<lparr>refreshes := Suc (refreshes s)\<rparr>"

text \<open>The event loop fires the timer due first, the earliest set among those due at the
  same time, and the clock moves to its due time.\<close>

definition fire :: "drawer_env \<Rightarrow> drawer_state \<Rightarrow> drawer_state" where
  "fire env s =
     (if timers s = [] then s
      else (let m = Min (fst ` set (timers s)); tk = hd (filter (\<lambda>tk. fst tk = m) (timers s))
            in run_task env (snd tk) (s\<lparr>now := max (now s) m, timers := remove1 tk (timers s)\<rparr>)))"

text \<open>What happens to the page: the document is ready (lines 257--261), a theme-editor
  section is loaded, with or without the drawer (lines 264--268: a reload of the drawer's
  section replaces the drawer element, and the listeners on the old element go with it;
  the new markup is taken to have the shape of the old), focus enters or leaves
  an element, the customer types a value into the focused input, the theme announces a
  cart change (lines 233--237; \<open>None\<close>: no \<open>event.detail.cart\<close>), the drawer opens,
  a \<open>fetch('/cart.js')\<close> settles (lines 244--251; \<open>None\<close>: rejected), a timer fires,
  time passes.\<close>

datatype event =
  DomReady | SectionLoad bool | FocusIn nat | FocusOut nat | UserInput nat string
  | CartChange "cart option" | DrawerOpen | FetchDone "cart option" | Fire | Wait nat

fun drawer_step :: "drawer_env \<Rightarrow> drawer_state \<Rightarrow> event \<Rightarrow> drawer_state" where
  "drawer_step env s DomReady = init_cart_drawer_price_updates s"
| "drawer_step env s (SectionLoad b) =
     (if b then init_cart_drawer_price_updates (s\<lparr>open_listeners := 0\<rparr>) else s)"
| "drawer_step env s (FocusIn i) = (lock_key i ^^ listeners s) (s\<lparr>active := Some i\<rparr>)"
| "drawer_step env s (FocusOut i) = (release_later i ^^ listeners s) (s\<lparr>active := None\<rparr>)"
| "drawer_step env s (UserInput i v) = (lock_key i ^^ listeners s) (s\<lparr>page := set_value i v (page s)\<rparr>)"
| "drawer_step env s (CartChange co) = (update_cart_drawer_prices env co ^^ listeners s) s"
| "drawer_step env s DrawerOpen = s\<lparr>pending_fetches := pending_fetches s + open_listeners s\<rparr>"
| "drawer_step env s (FetchDone co) =
     update_cart_drawer_prices env co (s\<lparr>pending_fetches := pending_fetches s - 1\<rparr>)"
| "drawer_step env s Fire = fire env s"
| "drawer_step env s (Wait d) = s\<lparr>now := now s + d\<rparr>"

text \<open>The events the browser can deliver in a state: focus moves only from nothing to an
  element and back, typing goes to the focused element, a fetch settles only when one is
  in flight, a timer fires only when one is set, and time passes no further than the
  first due timer.\<close>

fun event_ok :: "drawer_state \<Rightarrow> event \<Rightarrow> bool" where
  "event_ok s (FocusIn i) = (active s = None \<and> i < length (page s))"
| "event_ok s (FocusOut i) = (active s = Some i)"
| "event_ok s (UserInput i v) = (active s = Some i)"
| "event_ok s (FetchDone co) = (0 < pending_fetches s)"
| "event_ok s Fire = (timers s \<noteq> [])"
| "event_ok s (Wait d) = list_all (\<lambda>tk. now s + d \<le> fst tk) (timers s)"
| "event_ok s _ = True"

definition drawer_init :: "dom \<Rightarrow> drawer_state" where
  "drawer_init d = \<lparr>page = d, active = None, interacting = {}, now = 0, timers = [],
     listeners = 0, open_listeners = 0, pending_fetches = 0, refreshes = 0\<rparr>"

fun drawer_run :: "drawer_env \<Rightarrow> drawer_state \<Rightarrow> event list \<Rightarrow> drawer_state" where
  "drawer_run env s [] = s"
| "drawer_run env s (e # es) = drawer_run env (drawer_step env s e) es"

fun legal_run :: "drawer_env \<Rightarrow> drawer_state \<Rightarrow> event list \<Rightarrow> bool" where
  "legal_run env s [] = True"
| "legal_run env s (e # es) = (event_ok s e \<and> legal_run env (drawer_step env s e) es)"

inductive drawer_reach :: "drawer_env \<Rightarrow> dom \<Rightarrow> drawer_state \<Rightarrow> bool" for env d0 where
  init: "drawer_reach env d0 (drawer_init d0)"
| step: "drawer_reach env d0 s \<Longrightarrow> event_ok s e \<Longrightarrow> drawer_reach env d0 (drawer_step env s e)"

section \<open>The wait for the wholesale app as a recursive function\<close>

text \<open>\<open>waitForWCP\<close> (lines 112--127) read as the recursion of \<open>checkWCP\<close> through its
  timers: the time at which the promise resolves when \<open>checkWCP\<close> runs at time \<open>t\<close>
  with \<open>retries = r\<close>.\<close>

function wcp_resolve_time :: "(nat \<Rightarrow> wcp_state) \<Rightarrow> nat \<Rightarrow> nat \<Rightarrow> nat" where
  "wcp_resolve_time w r t =
     (if w t = WcpTruthy \<or> wcp_max_retries \<le> r then t + wcp_delay
      else wcp_resolve_time w (Suc r) (t + wcp_retry_interval))"
  by pat_completeness auto
termination
  by (relation "measure (\<lambda>(w, r, t). wcp_max_retries - r)") (auto simp: wcp_max_retries_def)

declare wcp_resolve_time.simps [simp del]

section \<open>Examples\<close>

text \<open>The page of the examples of \<open>DrawerWrites\<close> with and without the wholesale
  app's checkout button, and the event traces and states the witnesses run.\<close>

definition example_env :: "(nat \<Rightarrow> wcp_state) \<Rightarrow> drawer_env" where
  "example_env w = \<lparr>wcp_data = w, wcp_refresh_fn = False, number_format = example_intl\<rparr>"

definition example_wholesale_drawer :: dom where
  "example_wholesale_drawer = example_drawer @
     [\<lparr>tag = ''button'', attrs = [(''class'', ''WPDcheckoutBTN'')], html = [], parent = Some 0, input_value = []\<rparr>]"

definition early_unlock_trace :: "event list" where
  "early_unlock_trace = [DomReady, FocusIn 2, UserInput 2 ''5'', Wait 100, FocusOut 2, Wait 100, FocusIn 2,
     Wait 300, FocusOut 2, Wait 100, Fire, Wait 100, CartChange (Some (example_cart 3))]"

definition two_blurs_state :: drawer_state where
  "two_blurs_state = drawer_run (example_env (\<lambda>t. WcpUndefined)) (drawer_init example_drawer)
     (take 10 early_unlock_trace)"

definition stale_cart_trace :: "event list" where
  "stale_cart_trace = [DomReady, CartChange (Some (example_cart 1)), Wait 150, CartChange (Some (example_cart 3)),
     Wait 50, Fire, Wait 750, Fire, Wait 50, Fire]"

definition wcp_late :: "nat \<Rightarrow> wcp_state" where
  "wcp_late t = (if t < 100 then WcpUndefined else WcpTruthy)"

definition typing_state :: drawer_state where
  "typing_state = drawer_run (example_env (\<lambda>t. WcpUndefined)) (drawer_init example_drawer)
     [DomReady, FocusIn 2, UserInput 2 ''5'']"

definition blurred_state :: drawer_state where
  "blurred_state = drawer_run (example_env (\<lambda>t. WcpUndefined)) (drawer_init example_drawer)
     [DomReady, FocusIn 2, UserInput 2 ''5'', FocusOut 2]"

definition wcp_falsy :: "nat \<Rightarrow> wcp_state" where
  "wcp_falsy t = WcpFalsy"

section \<open>The script step and the lock invariant\<close>

definition script_step :: "drawer_state \<Rightarrow> drawer_state \<Rightarrow> bool" where
  "script_step s s' \<longleftrightarrow> active s' = active s \<and> interacting s' = interacting s
     \<and> now s' = now s \<and> listeners s' = listeners s
     \<and> set (timers s) \<subseteq> set (timers s') \<and> (\<forall>tk \<in> set (timers s'). tk \<in> set (timers s) \<or> now s \<le> fst tk)
     \<and> same_shape (page s) (page s')
     \<and> (\<forall>p < length (page s). protected_input (active s) (interacting s) (page s) p
          \<longrightarrow> input_value (page s' ! p) = input_value (page s ! p))"

text \<open>The lock invariant: a locked key belongs to the focused input or has a pending
  unlock; a lock exists only once a listener runs; no timer is overdue.\<close>

definition lock_inv :: "drawer_state \<Rightarrow> bool" where
  "lock_inv s \<longleftrightarrow>
     (\<forall>k \<in> interacting s. (\<exists>i. active s = Some i \<and> qty_key (page s) i = Some k)
                          \<or> (\<exists>t. (t, ClearKey k) \<in> set (timers s)))
     \<and> (interacting s \<noteq> {} \<longrightarrow> 0 < listeners s)
     \<and> (\<forall>tk \<in> set (timers s). now s \<le> fst tk)"

section \<open>Lemmas: the machine keeps protected inputs\<close>

lemma script_step_refl [simp]: "script_step s s"
  by (simp add: script_step_def)

lemma script_step_trans:
  assumes "script_step s1 s2" "script_step s2 s3"
  shows "script_step s1 s3"
  using assms same_shape_trans [of "page s1" "page s2" "page s3"]
    protected_input_same_shape [of "page s1" "page s2"] same_shape_length [of "page s1" "page s2"]
  unfolding script_step_def by auto

lemma set_timeout_fields [simp]:
  "page (set_timeout dt k s) = page s" "active (set_timeout dt k s) = active s"
  "interacting (set_timeout dt k s) = interacting s" "now (set_timeout dt k s) = now s"
  "listeners (set_timeout dt k s) = listeners s" "open_listeners (set_timeout dt k s) = open_listeners s"
  "pending_fetches (set_timeout dt k s) = pending_fetches s" "refreshes (set_timeout dt k s) = refreshes s"
  by (simp_all add: set_timeout_def)

lemma script_step_set_timeout [simp]: "script_step s (set_timeout dt k s)"
  by (auto simp: script_step_def set_timeout_def)

lemma script_step_page:
  "same_shape d d' \<Longrightarrow> (\<forall>p < length d. protected_input (active s) (interacting s) d p
      \<longrightarrow> input_value (d' ! p) = input_value (d ! p)) \<Longrightarrow>
   page s = d \<Longrightarrow> script_step s (s\<lparr>page := d'\<rparr>)"
  by (auto simp: script_step_def)

lemma script_step_apply_in_state: "script_step s (apply_in_state env c s)"
proof -
  have "script_step s (s\<lparr>page := d\<rparr>)"
    if "apply_price_updates fmts (active s) (interacting s) c its (page s) = Inr d" for fmts its d
    using that by (auto intro!: script_step_page apply_price_updates_shape apply_price_updates_value)
  then show ?thesis
    by (auto simp: apply_in_state_def intro: script_step_trans [OF _ script_step_set_timeout]
        split: option.split sum.split)
qed

lemma script_step_check_wcp: "script_step s (check_wcp env r c s)"
  by (simp add: check_wcp_def)

lemma script_step_update: "script_step s (update_cart_drawer_prices env co s)"
  by (simp add: update_cart_drawer_prices_def script_step_apply_in_state
      script_step_check_wcp split: option.split)

lemma script_step_funpow:
  fixes f :: "drawer_state \<Rightarrow> drawer_state"
  shows "(\<And>s. script_step s (f s)) \<Longrightarrow> script_step s ((f ^^ n) s)"
  by (induction n) (auto intro: script_step_trans)

lemma script_step_value:
  "script_step s s' \<Longrightarrow> p < length (page s) \<Longrightarrow> protected_input (active s) (interacting s) (page s) p \<Longrightarrow>
   input_value (page s' ! p) = input_value (page s ! p)"
  by (simp add: script_step_def)

lemma page_funpow:
  fixes f :: "drawer_state \<Rightarrow> drawer_state"
  assumes "\<And>s. page (f s) = page s"
  shows "page ((f ^^ n) s) = page s"
  by (induction n) (simp_all add: assms)

lemma handler_fields [simp]:
  "page (lock_key i s) = page s" "active (lock_key i s) = active s"
  "page (release_later i s) = page s" "active (release_later i s) = active s"
  "interacting (release_later i s) = interacting s"
  "page (init_cart_drawer_price_updates s) = page s"
  by (simp_all add: lock_key_def release_later_def init_cart_drawer_price_updates_def split: option.split)

lemma run_task_value:
  assumes "p < length (page s)" "protected_input (active s) (interacting s) (page s) p"
  shows "input_value (page (run_task env k s) ! p) = input_value (page s ! p)"
proof (cases k)
  case (CheckWcp r c)
  then show ?thesis using assms script_step_value [OF script_step_check_wcp] by simp
next
  case (ResolveWcp c)
  then show ?thesis using assms script_step_value [OF script_step_apply_in_state] by simp
qed simp_all

lemma fire_value:
  assumes "p < length (page s)" "protected_input (active s) (interacting s) (page s) p"
  shows "input_value (page (fire env s) ! p) = input_value (page s ! p)"
  using assms run_task_value [of p "s\<lparr>now := _, timers := _\<rparr>"] by (simp add: fire_def Let_def)

lemma drawer_step_value:
  assumes "p < length (page s)" "protected_input (active s) (interacting s) (page s) p"
    and "\<forall>v. e \<noteq> UserInput p v"
  shows "input_value (page (drawer_step env s e) ! p) = input_value (page s ! p)"
proof (cases e)
  case (CartChange co)
  then show ?thesis
    using assms script_step_value [OF script_step_funpow [OF script_step_update]] by simp
next
  case (FetchDone co)
  then show ?thesis
    using assms script_step_value [OF script_step_update [of "s\<lparr>pending_fetches := _\<rparr>"]] by simp
next
  case Fire
  then show ?thesis using assms fire_value by simp
next
  case (UserInput i v)
  then show ?thesis using assms by (simp add: page_funpow nth_set_value)
qed (simp_all add: page_funpow)

text \<open>C13. No step of the page other than the customer typing into it changes the value of a quantity input that is focused or whose key is locked: \<open>applyPriceUpdates\<close>, run by any listener or timer, leaves it alone (lines 161--168).\<close>

theorem customer_input_kept:
  assumes "p < length (page s)" "protected_input (active s) (interacting s) (page s) p"
    and "\<forall>v. e \<noteq> UserInput p v"
  shows "input_value (page (drawer_step env s e) ! p) = input_value (page s ! p)"
  using assms by (rule drawer_step_value)

section \<open>Lemmas: the lock invariant\<close>

lemma closest_matches: "closest d s i = Some q \<Longrightarrow> matches d s q"
  by (auto simp: closest_def find_Some_iff split: if_splits)

lemma qty_key_same_shape: "same_shape d d' \<Longrightarrow> qty_key d' i = qty_key d i"
proof -
  assume sh: "same_shape d d'"
  have "get_attr (d' ! q) ''data-update-cart'' = get_attr (d ! q) ''data-update-cart''"
    if "closest d qty_any_sel i = Some q" for q
    using closest_matches [OF that] sh same_shape_get_attr
    by (cases "qty_any_sel") (auto simp: qty_any_sel_def)
  then show ?thesis
    using closest_same_shape [OF sh] by (simp add: qty_key_def split: option.split)
qed

lemma lock_key_idem: "lock_key i (lock_key i s) = lock_key i s"
  by (simp add: lock_key_def split: option.split)

lemma funpow_lock_key: "(lock_key i ^^ n) s = (if n = 0 then s else lock_key i s)"
  by (induction n) (auto simp: lock_key_idem)

lemma funpow_release_later:
  "(release_later i ^^ n) s = s\<lparr>timers := timers s @
      (case qty_key (page s) i of None \<Rightarrow> [] | Some k \<Rightarrow> replicate n (now s + 500, ClearKey k))\<rparr>"
  by (induction n) (auto simp: release_later_def set_timeout_def replicate_append_same split: option.split)

lemma fire_cases:
  assumes "timers s \<noteq> []"
  obtains tk where "tk \<in> set (timers s)" "\<forall>tk' \<in> set (timers s). fst tk \<le> fst tk'"
    "fire env s = run_task env (snd tk) (s\<lparr>now := max (now s) (fst tk), timers := remove1 tk (timers s)\<rparr>)"
proof -
  define m where "m = Min (fst ` set (timers s))"
  have "m \<in> fst ` set (timers s)"
    using assms unfolding m_def by (intro Min_in) auto
  then have ne: "filter (\<lambda>tk. fst tk = m) (timers s) \<noteq> []"
    by (auto simp: filter_empty_conv)
  define tk where "tk = hd (filter (\<lambda>tk. fst tk = m) (timers s))"
  have "tk \<in> set (filter (\<lambda>tk. fst tk = m) (timers s))"
    using ne unfolding tk_def by (rule hd_in_set)
  then have "tk \<in> set (timers s)" "fst tk = m" by auto
  moreover have "\<forall>tk' \<in> set (timers s). m \<le> fst tk'"
    unfolding m_def by auto
  moreover have "fire env s = run_task env (snd tk) (s\<lparr>now := max (now s) (fst tk), timers := remove1 tk (timers s)\<rparr>)"
    using assms \<open>fst tk = m\<close> by (simp add: fire_def Let_def m_def tk_def)
  ultimately show ?thesis using that by auto
qed

lemma lock_inv_script_step:
  assumes inv: "lock_inv s" and st: "script_step s s'"
  shows "lock_inv s'"
proof -
  have sh: "same_shape (page s) (page s')"
    and eq: "active s' = active s" "interacting s' = interacting s" "now s' = now s" "listeners s' = listeners s"
    and sub: "set (timers s) \<subseteq> set (timers s')"
    and new: "\<forall>tk \<in> set (timers s'). tk \<in> set (timers s) \<or> now s \<le> fst tk"
    using st by (simp_all add: script_step_def)
  have qk: "qty_key (page s') i = qty_key (page s) i" for i
    using sh by (rule qty_key_same_shape)
  have "\<forall>tk \<in> set (timers s'). now s' \<le> fst tk"
    using inv new eq by (auto simp: lock_inv_def)
  moreover have "\<forall>k \<in> interacting s'. (\<exists>i. active s' = Some i \<and> qty_key (page s') i = Some k)
                          \<or> (\<exists>t. (t, ClearKey k) \<in> set (timers s'))"
    using inv sub unfolding lock_inv_def eq qk by blast
  ultimately show ?thesis
    using inv unfolding lock_inv_def eq by blast
qed

lemma lock_inv_run_task:
  assumes "lock_inv s" "\<forall>k. task \<noteq> ClearKey k"
  shows "lock_inv (run_task env task s)"
proof (cases task)
  case (CheckWcp r c)
  then show ?thesis using lock_inv_script_step [OF assms(1) script_step_check_wcp] by simp
next
  case (ResolveWcp c)
  then show ?thesis using lock_inv_script_step [OF assms(1) script_step_apply_in_state] by simp
next
  case RefreshWcp
  then show ?thesis using assms(1) by (simp add: lock_inv_def)
qed (use assms in simp)

lemma lock_inv_fire:
  assumes inv: "lock_inv s" and ne: "timers s \<noteq> []"
  shows "lock_inv (fire env s)"
proof -
  obtain tk where tk: "tk \<in> set (timers s)" "\<forall>tk' \<in> set (timers s). fst tk \<le> fst tk'"
    and f: "fire env s = run_task env (snd tk) (s\<lparr>now := max (now s) (fst tk), timers := remove1 tk (timers s)\<rparr>)"
    using fire_cases [OF ne] by blast
  define s1 where "s1 = s\<lparr>now := fst tk, timers := remove1 tk (timers s)\<rparr>"
  have mx: "max (now s) (fst tk) = fst tk"
    using inv tk(1) by (auto simp: lock_inv_def)
  have due: "\<forall>x \<in> set (timers s1). now s1 \<le> fst x"
    using tk(2) set_remove1_subset [of tk "timers s"] by (auto simp: s1_def)
  have inv1: "lock_inv (s1\<lparr>interacting := interacting s - K\<rparr>)"
    if K: "\<And>k. snd tk = ClearKey k \<Longrightarrow> k \<in> K" for K
  proof -
    have "(\<exists>i. active s = Some i \<and> qty_key (page s) i = Some k) \<or> (\<exists>t. (t, ClearKey k) \<in> set (timers s1))"
      if "k \<in> interacting s - K" for k
    proof -
      have "(\<exists>i. active s = Some i \<and> qty_key (page s) i = Some k) \<or> (\<exists>t. (t, ClearKey k) \<in> set (timers s))"
        using inv that by (auto simp: lock_inv_def)
      moreover have "(t, ClearKey k) \<noteq> tk" for t
        using K that by auto
      ultimately show ?thesis by (auto simp: s1_def)
    qed
    then show ?thesis
      using inv due by (auto simp: lock_inv_def s1_def)
  qed
  show ?thesis
  proof (cases "\<exists>k. snd tk = ClearKey k")
    case True
    then obtain k where k: "snd tk = ClearKey k" by blast
    have "lock_inv (s1\<lparr>interacting := interacting s - {k}\<rparr>)"
      by (rule inv1) (simp add: k)
    then show ?thesis using f mx k by (simp add: s1_def)
  next
    case False
    have "lock_inv (s1\<lparr>interacting := interacting s - {}\<rparr>)"
      by (rule inv1) (use False in simp)
    then have "lock_inv s1" by (simp add: s1_def)
    then show ?thesis using f mx False lock_inv_run_task by (simp add: s1_def)
  qed
qed

lemma lock_inv_init: "lock_inv (drawer_init d)"
  by (simp add: lock_inv_def drawer_init_def)

lemma lock_inv_focus_in:
  assumes inv: "lock_inv s" and act: "active s = None"
  shows "lock_inv ((lock_key i ^^ listeners s) (s\<lparr>active := Some i\<rparr>))"
proof -
  have s0: "lock_inv (s\<lparr>active := Some i\<rparr>)"
    using inv act by (auto simp: lock_inv_def)
  show ?thesis
  proof (cases "listeners s = 0")
    case False
    then show ?thesis
      using inv act by (auto simp: funpow_lock_key lock_key_def lock_inv_def split: option.split)
  qed (simp add: s0)
qed

lemma lock_inv_user_input:
  assumes inv: "lock_inv s" and act: "active s = Some i"
  shows "lock_inv ((lock_key i ^^ listeners s) (s\<lparr>page := set_value i v (page s)\<rparr>))"
proof -
  have qk: "qty_key (set_value i v (page s)) j = qty_key (page s) j" for j
    by (rule qty_key_same_shape) simp
  have s0: "lock_inv (s\<lparr>page := set_value i v (page s)\<rparr>)"
    using inv by (simp add: lock_inv_def qk)
  show ?thesis
  proof (cases "listeners s = 0")
    case False
    then show ?thesis
      using inv act by (auto simp: funpow_lock_key lock_key_def lock_inv_def qk split: option.split)
  qed (simp add: s0)
qed

lemma lock_inv_focus_out:
  assumes inv: "lock_inv s" and act: "active s = Some i"
  shows "lock_inv ((release_later i ^^ listeners s) (s\<lparr>active := None\<rparr>))"
proof -
  have "\<exists>t. (t, ClearKey k) \<in> set (timers s) \<union>
          set (case qty_key (page s) i of None \<Rightarrow> [] | Some k \<Rightarrow> replicate (listeners s) (now s + 500, ClearKey k))"
    if k: "k \<in> interacting s" for k
  proof -
    have pos: "0 < listeners s" using inv k by (auto simp: lock_inv_def)
    have "qty_key (page s) i = Some k \<or> (\<exists>t. (t, ClearKey k) \<in> set (timers s))"
      using inv act k by (auto simp: lock_inv_def)
    then show ?thesis using pos by auto
  qed
  then show ?thesis
    using inv by (auto simp: lock_inv_def funpow_release_later split: option.split)
qed

lemma lock_inv_step:
  assumes inv: "lock_inv s" and ok: "event_ok s e"
  shows "lock_inv (drawer_step env s e)"
proof (cases e)
  case (FocusIn i)
  then show ?thesis using lock_inv_focus_in inv ok by simp
next
  case (FocusOut i)
  then show ?thesis using lock_inv_focus_out inv ok by simp
next
  case (UserInput i v)
  then show ?thesis using lock_inv_user_input inv ok by simp
next
  case (CartChange co)
  then show ?thesis using lock_inv_script_step [OF inv script_step_funpow [OF script_step_update]] by simp
next
  case (FetchDone co)
  have "lock_inv (s\<lparr>pending_fetches := pending_fetches s - 1\<rparr>)"
    using inv by (simp add: lock_inv_def)
  then show ?thesis using FetchDone lock_inv_script_step script_step_update by simp
next
  case Fire
  then show ?thesis using lock_inv_fire inv ok by simp
next
  case (Wait d)
  then show ?thesis using inv ok by (auto simp: lock_inv_def list_all_iff)
qed (use inv in \<open>simp_all add: lock_inv_def init_cart_drawer_price_updates_def\<close>)

text \<open>C14. In every reachable state each key in \<open>interactingInputs\<close> belongs to the focused quantity input or has a pending unlock timer: no quantity input stays locked for good.\<close>

theorem locked_keys_released:
  assumes "drawer_reach env d0 s" and "k \<in> interacting s"
  shows "(\<exists>i. active s = Some i \<and> qty_key (page s) i = Some k) \<or> (\<exists>t. (t, ClearKey k) \<in> set (timers s))"
proof -
  have "lock_inv s"
    using assms(1) by induction (auto intro: lock_inv_init lock_inv_step)
  then show ?thesis using assms(2) by (simp add: lock_inv_def)
qed

section \<open>Lemmas: the wait for the wholesale app\<close>

lemma fire_single:
  "fire env (s\<lparr>timers := [(t, k)]\<rparr>) = run_task env k (s\<lparr>now := max (now s) t, timers := []\<rparr>)"
  by (simp add: fire_def)

lemma check_wcp_chain:
  assumes "timers s = []"
  shows "\<exists>n \<le> wcp_max_retries - r. \<exists>t. (fire env ^^ n) (check_wcp env r c s)
           = s\<lparr>now := t, timers := [(wcp_resolve_time (wcp_data env) r (now s), ResolveWcp c)]\<rparr>"
  using assms
proof (induction "wcp_max_retries - r" arbitrary: r s)
  case 0
  then have "(fire env ^^ 0) (check_wcp env r c s)
      = s\<lparr>now := now s, timers := [(wcp_resolve_time (wcp_data env) r (now s), ResolveWcp c)]\<rparr>"
    by (simp add: check_wcp_def set_timeout_def wcp_resolve_time.simps)
  then show ?case by blast
next
  case (Suc k)
  show ?case
  proof (cases "wcp_data env (now s) = WcpTruthy")
    case True
    then have "(fire env ^^ 0) (check_wcp env r c s)
        = s\<lparr>now := now s, timers := [(wcp_resolve_time (wcp_data env) r (now s), ResolveWcp c)]\<rparr>"
      using Suc.prems by (simp add: check_wcp_def set_timeout_def wcp_resolve_time.simps)
    then show ?thesis by blast
  next
    case False
    define s2 where "s2 = s\<lparr>now := now s + wcp_retry_interval, timers := []\<rparr>"
    have lt: "\<not> wcp_max_retries \<le> r" using Suc.hyps(2) by simp
    have cw: "check_wcp env r c s = s\<lparr>timers := [(now s + wcp_retry_interval, CheckWcp (Suc r) c)]\<rparr>"
      using False lt Suc.prems by (simp add: check_wcp_def set_timeout_def)
    have step: "fire env (check_wcp env r c s) = check_wcp env (Suc r) c s2"
      unfolding cw fire_single by (simp add: s2_def)
    have k: "k = wcp_max_retries - Suc r" and t2: "timers s2 = []"
      using Suc.hyps(2) by (simp_all add: s2_def)
    obtain n t where n: "n \<le> wcp_max_retries - Suc r"
      and run: "(fire env ^^ n) (check_wcp env (Suc r) c s2)
                = s2\<lparr>now := t, timers := [(wcp_resolve_time (wcp_data env) (Suc r) (now s2), ResolveWcp c)]\<rparr>"
      using Suc.hyps(1) [OF k t2] by blast
    have eq: "wcp_resolve_time (wcp_data env) (Suc r) (now s2) = wcp_resolve_time (wcp_data env) r (now s)"
      using False lt by (simp add: wcp_resolve_time.simps [of _ r] s2_def)
    have "(fire env ^^ Suc n) (check_wcp env r c s) = (fire env ^^ n) (check_wcp env (Suc r) c s2)"
      by (simp only: funpow_Suc_right comp_apply step)
    also have "\<dots> = s2\<lparr>now := t, timers := [(wcp_resolve_time (wcp_data env) (Suc r) (now s2), ResolveWcp c)]\<rparr>"
      by (rule run)
    also have "\<dots> = s\<lparr>now := t, timers := [(wcp_resolve_time (wcp_data env) r (now s), ResolveWcp c)]\<rparr>"
      unfolding eq by (simp add: s2_def)
    finally have "(fire env ^^ Suc n) (check_wcp env r c s)
               = s\<lparr>now := t, timers := [(wcp_resolve_time (wcp_data env) r (now s), ResolveWcp c)]\<rparr>" .
    moreover have "Suc n \<le> wcp_max_retries - r" using n lt by simp
    ultimately show ?thesis by blast
  qed
qed

text \<open>C17. \<open>waitForWCP\<close> terminates: from a quiet timer queue, at most five retry timers fire before the timer that resolves the promise is set, at the time the recursive reading of \<open>checkWCP\<close> gives.\<close>

theorem wait_for_wcp_resolves:
  assumes "timers s = []"
  shows "\<exists>n \<le> wcp_max_retries. \<exists>t. (fire env ^^ n) (check_wcp env 0 c s)
           = s\<lparr>now := t, timers := [(wcp_resolve_time (wcp_data env) 0 (now s), ResolveWcp c)]\<rparr>"
  using check_wcp_chain [OF assms, of 0] by simp

lemma wcp_resolve_time_le:
  "wcp_resolve_time w r t \<le> t + (wcp_max_retries - r) * wcp_retry_interval + wcp_delay"
proof (induction w r t rule: wcp_resolve_time.induct)
  case (1 w r t)
  then show ?case
    by (subst wcp_resolve_time.simps)
       (auto simp: wcp_max_retries_def wcp_retry_interval_def wcp_delay_def Suc_diff_Suc not_le)
qed

lemma wcp_resolve_time_ge: "t + wcp_delay \<le> wcp_resolve_time w r t"
proof (induction w r t rule: wcp_resolve_time.induct)
  case (1 w r t)
  show ?case
  proof (cases "w t = WcpTruthy \<or> wcp_max_retries \<le> r")
    case False
    then have "t + wcp_retry_interval + wcp_delay \<le> wcp_resolve_time w (Suc r) (t + wcp_retry_interval)"
      using 1 by blast
    then show ?thesis using False by (simp add: wcp_resolve_time.simps [of w r t])
  qed (simp add: wcp_resolve_time.simps [of w r t])
qed

text \<open>C18. The promise of \<open>waitForWCP\<close> resolves no sooner than 800 ms and no later than 1800 ms after it is created.\<close>

theorem wait_for_wcp_bounds:
  "now s + 800 \<le> wcp_resolve_time (wcp_data env) 0 (now s)
   \<and> wcp_resolve_time (wcp_data env) 0 (now s) \<le> now s + 1800"
  using wcp_resolve_time_le [of "wcp_data env" 0 "now s"] wcp_resolve_time_ge [of "now s" "wcp_data env" 0]
  by (simp add: wcp_max_retries_def wcp_retry_interval_def wcp_delay_def)

section \<open>Lemmas: errors, listeners and traces\<close>

lemma funpow_fixed:
  fixes f :: "drawer_state \<Rightarrow> drawer_state"
  shows "f s = s \<Longrightarrow> (f ^^ n) s = s"
  by (induction n) simp_all

text \<open>C20. A cart whose currency \<open>Intl.NumberFormat\<close> rejects makes \<open>applyPriceUpdates\<close> throw before any write: the cart-change event and the resolved wait leave the state as it was.\<close>

theorem unsupported_currency_no_update:
  assumes "number_format env (if currency c = [] then ''USD'' else currency c) = None"
  shows "(items c \<noteq> None \<and> \<not> is_wholesale_customer env s \<longrightarrow> drawer_step env s (CartChange (Some c)) = s)
         \<and> run_task env (ResolveWcp c) s = s"
proof -
  have a: "apply_in_state env c s = s"
    using assms by (simp add: apply_in_state_def apply_price_updates_def split: option.split)
  then have "items c \<noteq> None \<and> \<not> is_wholesale_customer env s \<Longrightarrow> update_cart_drawer_prices env (Some c) s = s"
    by (simp add: update_cart_drawer_prices_def)
  then show ?thesis using a by (simp add: funpow_fixed)
qed

lemma drawer_run_append: "drawer_run env s (xs @ ys) = drawer_run env (drawer_run env s xs) ys"
  by (induction xs arbitrary: s) simp_all

lemma run_section_loads:
  "query_first (page s) drawer_sel \<noteq> None \<Longrightarrow> drawer_run env s (replicate k (SectionLoad True))
     = s\<lparr>listeners := listeners s + k, open_listeners := (if k = 0 then open_listeners s else 1)\<rparr>"
  by (induction k arbitrary: s) (simp_all add: init_cart_drawer_price_updates_def)

text \<open>C21. \<open>initCartDrawerPriceUpdates\<close> never removes its document listeners: after
  the document is ready and \<open>k\<close> theme-editor reloads of the drawer section, every
  document listener is registered \<open>k + 1\<close> times, so a cart change runs
  \<open>updateCartDrawerPrices\<close> \<open>k + 1\<close> times; the drawer's own listener went with the
  replaced element, so one opening of the drawer starts one fetch of \<open>/cart.js\<close>.\<close>

theorem section_reload_duplicates_listeners:
  assumes "query_first d drawer_sel \<noteq> None"
  shows "let s = drawer_run env (drawer_init d) (DomReady # replicate k (SectionLoad True))
         in listeners s = Suc k \<and> pending_fetches (drawer_step env s DrawerOpen) = 1
            \<and> drawer_step env s (CartChange co) = (update_cart_drawer_prices env co ^^ Suc k) s"
  using assms run_section_loads [of "init_cart_drawer_price_updates (drawer_init d)" env k]
  by (simp add: Let_def init_cart_drawer_price_updates_def drawer_init_def)


text \<open>C23. On the wholesale path, cart updates are not applied in the order they were
  announced: a cart announced while \<open>window.wcp_data\<close> is not yet truthy waits for a
  retry, and a second cart announced within the 200 ms retry interval, once the data is
  truthy, has its wait resolve first; the drawer then ends showing the older cart.\<close>

theorem stale_cart_applied_last:
  assumes "w t0 \<noteq> WcpTruthy" and "w t1 = WcpTruthy" and "t0 \<le> t1" and "t1 < t0 + wcp_retry_interval"
  shows "wcp_resolve_time w 0 t1 < wcp_resolve_time w 0 t0"
proof -
  have "t0 + wcp_retry_interval + wcp_delay \<le> wcp_resolve_time w 0 t0"
    using assms(1) wcp_resolve_time_ge [of "t0 + wcp_retry_interval" w 1]
    by (simp add: wcp_resolve_time.simps [of w 0 t0] wcp_max_retries_def)
  moreover have "wcp_resolve_time w 0 t1 = t1 + wcp_delay"
    using assms(2) by (simp add: wcp_resolve_time.simps [of w 0 t1])
  ultimately show ?thesis using assms(4) by simp
qed

text \<open>The runs behind C22 and C23: the customer types 5, leaves the input at 500 ms, and
  a cart change at 700 ms writes the stale quantity 3 over it; and a cart announced at
  0 ms is applied after the one announced at 150 ms.\<close>

lemma early_unlock_run:
  "legal_run (example_env (\<lambda>t. WcpUndefined)) (drawer_init example_drawer) early_unlock_trace
   \<and> (let s = drawer_run (example_env (\<lambda>t. WcpUndefined)) (drawer_init example_drawer) early_unlock_trace
      in now s = 700 \<and> input_value (page s ! 2) = ''3'')"
  by code_simp

lemma stale_cart_run:
  "legal_run (example_env wcp_late) (drawer_init example_wholesale_drawer) stale_cart_trace
   \<and> text_content (page (drawer_run (example_env wcp_late) (drawer_init example_wholesale_drawer) stale_cart_trace) ! 3)
     = example_usd 10"
  by code_simp

lemma reach_run:
  "drawer_reach env d0 s \<Longrightarrow> legal_run env s es \<Longrightarrow> drawer_reach env d0 (drawer_run env s es)"
  by (induction es arbitrary: s) (auto intro: drawer_reach.step)

text \<open>C19. When \<open>window.wcp_data\<close> is declared but falsy, \<open>isWholesaleCustomer\<close> (a \<open>typeof\<close> test) takes the wholesale path while \<open>waitForWCP\<close> (a truthiness test) never sees the app: every price update is delayed by the full 1800 ms.\<close>

theorem wcp_falsy_waits_longest:
  assumes "wcp_data env = wcp_falsy"
  shows "is_wholesale_customer env s \<and> wcp_resolve_time (wcp_data env) 0 (now s) = now s + 1800"
  using assms
  by (simp add: is_wholesale_customer_def wcp_falsy_def wcp_resolve_time.simps wcp_max_retries_def
      wcp_retry_interval_def wcp_delay_def)

section \<open>Lemmas: the document keeps its shape\<close>

lemma run_task_shape: "same_shape (page s) (page (run_task env k s))"
  by (cases k) (simp_all add: script_step_def [symmetric] script_step_check_wcp [unfolded script_step_def]
      script_step_apply_in_state [unfolded script_step_def])

lemma fire_shape: "same_shape (page s) (page (fire env s))"
  using run_task_shape [of "s\<lparr>now := _, timers := _\<rparr>"] by (simp add: fire_def Let_def)

lemma script_step_shape: "script_step s s' \<Longrightarrow> same_shape (page s) (page s')"
  by (simp add: script_step_def)

lemma drawer_step_shape: "same_shape (page s) (page (drawer_step env s e))"
proof (cases e)
  case (CartChange co)
  then show ?thesis using script_step_shape [OF script_step_funpow [OF script_step_update]] by simp
next
  case (FetchDone co)
  then show ?thesis using script_step_shape [OF script_step_update [of "s\<lparr>pending_fetches := _\<rparr>"]] by simp
next
  case Fire
  then show ?thesis using fire_shape by simp
qed (simp_all add: page_funpow)

section \<open>Witnesses\<close>

theorem customer_input_kept_witness:
  "2 < length (page typing_state) \<and> protected_input (active typing_state) (interacting typing_state) (page typing_state) 2
   \<and> input_value (page (drawer_step (example_env (\<lambda>t. WcpUndefined)) typing_state (CartChange (Some (example_cart 3)))) ! 2) = ''5''"
proof -
  have h: "2 < length (page typing_state)" "protected_input (active typing_state) (interacting typing_state) (page typing_state) 2"
    and v: "input_value (page typing_state ! 2) = ''5''"
    by code_simp+
  show ?thesis
    using customer_input_kept [OF h, of "CartChange (Some (example_cart 3))"] h v by simp
qed

theorem locked_keys_released_witness:
  "drawer_reach (example_env (\<lambda>t. WcpUndefined)) example_drawer blurred_state \<and> ''k1'' \<in> interacting blurred_state
   \<and> ((\<exists>i. active blurred_state = Some i \<and> qty_key (page blurred_state) i = Some ''k1'')
      \<or> (\<exists>t. (t, ClearKey ''k1'') \<in> set (timers blurred_state)))"
proof -
  have l: "legal_run (example_env (\<lambda>t. WcpUndefined)) (drawer_init example_drawer)
     [DomReady, FocusIn 2, UserInput 2 ''5'', FocusOut 2]" by code_simp
  have r: "drawer_reach (example_env (\<lambda>t. WcpUndefined)) example_drawer blurred_state"
    unfolding blurred_state_def by (rule reach_run [OF drawer_reach.init l])
  have k: "''k1'' \<in> interacting blurred_state" by code_simp
  show ?thesis using locked_keys_released [OF r k] r k by simp
qed

theorem wait_for_wcp_resolves_witness:
  "\<exists>n \<le> wcp_max_retries. \<exists>t. (fire (example_env wcp_late) ^^ n)
      (check_wcp (example_env wcp_late) 0 (example_cart 1) (drawer_init example_drawer))
    = (drawer_init example_drawer)\<lparr>now := t, timers := [(1000, ResolveWcp (example_cart 1))]\<rparr>"
proof -
  have "timers (drawer_init example_drawer) = []" by (simp add: drawer_init_def)
  moreover have "wcp_resolve_time (wcp_data (example_env wcp_late)) 0 (now (drawer_init example_drawer)) = 1000"
    by (simp add: example_env_def drawer_init_def wcp_late_def wcp_resolve_time.simps wcp_max_retries_def
        wcp_retry_interval_def wcp_delay_def)
  ultimately show ?thesis using wait_for_wcp_resolves [of "drawer_init example_drawer" "example_env wcp_late"] by simp
qed

theorem wcp_falsy_waits_longest_witness:
  "is_wholesale_customer (example_env wcp_falsy) (drawer_init example_drawer)
   \<and> wcp_resolve_time wcp_falsy 0 0 = 1800"
  using wcp_falsy_waits_longest [of "example_env wcp_falsy" "drawer_init example_drawer"]
  by (simp add: example_env_def drawer_init_def)

theorem unsupported_currency_no_update_witness:
  "drawer_step (example_env (\<lambda>t. WcpUndefined)) (drawer_init example_drawer)
     (CartChange (Some ((example_cart 3)\<lparr>currency := ''US$''\<rparr>))) = drawer_init example_drawer"
proof -
  have n: "number_format (example_env (\<lambda>t. WcpUndefined)) (if currency ((example_cart 3)\<lparr>currency := ''US$''\<rparr>) = []
      then ''USD'' else currency ((example_cart 3)\<lparr>currency := ''US$''\<rparr>)) = None"
    and h: "items ((example_cart 3)\<lparr>currency := ''US$''\<rparr>) \<noteq> None
      \<and> \<not> is_wholesale_customer (example_env (\<lambda>t. WcpUndefined)) (drawer_init example_drawer)"
    by code_simp+
  show ?thesis using unsupported_currency_no_update [OF n] h by blast
qed

theorem section_reload_duplicates_listeners_witness:
  "listeners (drawer_run (example_env (\<lambda>t. WcpUndefined)) (drawer_init example_drawer)
     (DomReady # replicate 2 (SectionLoad True))) = 3
   \<and> pending_fetches (drawer_step (example_env (\<lambda>t. WcpUndefined)) (drawer_run (example_env (\<lambda>t. WcpUndefined))
       (drawer_init example_drawer) (DomReady # replicate 2 (SectionLoad True))) DrawerOpen) = 1"
proof -
  have "query_first example_drawer drawer_sel \<noteq> None" by code_simp
  then show ?thesis
    using section_reload_duplicates_listeners [of example_drawer "example_env (\<lambda>t. WcpUndefined)" 2]
    by (simp add: Let_def)
qed


theorem stale_cart_applied_last_witness:
  "wcp_resolve_time wcp_late 0 150 < wcp_resolve_time wcp_late 0 0"
  by (rule stale_cart_applied_last) (simp_all add: wcp_late_def wcp_retry_interval_def)

end
