(* ===== verification/DrawerView.thy ===== *)
theory DrawerView
  imports Drawer
begin

text \<open>
  What the cart-drawer updater of \<open>custom.js\<close> reads of the document: its shape
  (tags, attributes, parents, through its selectors) and the values of the quantity
  inputs, never the markup of an element.  \<open>forget_markup\<close> erases the markup of a
  document and \<open>drawer_view\<close> that of the drawer's state; the lemmas show that every
  operation of the drawer machine commutes with the erasure, so that two states that differ
  only in markup go through the same steps.  The page theory uses this to show that the
  markup writes of the other scripts are invisible to the drawer.
\<close>

definition forget_markup :: "dom \<Rightarrow> dom" where
  "forget_markup d = map (\<lambda>e. e\<lparr>html := []\<rparr>) d"

definition drawer_view :: "drawer_state \<Rightarrow> drawer_state" where
  "drawer_view s = s\<lparr>page := forget_markup (page s)\<rparr>"

section \<open>Lemmas: documents up to markup\<close>

lemma length_forget_markup [simp]: "length (forget_markup d) = length d"
  by (simp add: forget_markup_def)

lemma nth_forget_markup [simp]: "i < length d \<Longrightarrow> forget_markup d ! i = (d ! i)\<lparr>html := []\<rparr>"
  by (simp add: forget_markup_def)

lemma forget_markup_idem [simp]: "forget_markup (forget_markup d) = forget_markup d"
  by (simp add: forget_markup_def)

lemma same_shape_forget_markup [simp, intro]: "same_shape d (forget_markup d)"
  by (simp add: same_shape_def)

lemma forget_markup_eq_length: "forget_markup d = forget_markup d' \<Longrightarrow> length d' = length d"
  by (drule arg_cong [where f = length]) simp

lemma forget_markup_eq_nth:
  assumes "forget_markup d = forget_markup d'" "i < length d"
  shows "tag (d' ! i) = tag (d ! i) \<and> attrs (d' ! i) = attrs (d ! i) \<and> parent (d' ! i) = parent (d ! i)
         \<and> input_value (d' ! i) = input_value (d ! i)"
proof -
  have l: "i < length d'" using forget_markup_eq_length [OF assms(1)] assms(2) by simp
  have "forget_markup d ! i = forget_markup d' ! i" using assms(1) by (rule arg_cong)
  then have e: "(d ! i)\<lparr>html := []\<rparr> = (d' ! i)\<lparr>html := []\<rparr>"
    using assms(2) l by (simp only: nth_forget_markup)
  have "tag (d ! i) = tag (d' ! i)" using e by (drule_tac arg_cong [where f = tag]) simp
  moreover have "attrs (d ! i) = attrs (d' ! i)" using e by (drule_tac arg_cong [where f = attrs]) simp
  moreover have "parent (d ! i) = parent (d' ! i)" using e by (drule_tac arg_cong [where f = parent]) simp
  moreover have "input_value (d ! i) = input_value (d' ! i)"
    using e by (drule_tac arg_cong [where f = input_value]) simp
  ultimately show ?thesis by simp
qed

lemma forget_markup_eq_shape:
  assumes "forget_markup d = forget_markup d'"
  shows "same_shape d d'"
  unfolding same_shape_def using forget_markup_eq_length [OF assms] forget_markup_eq_nth [OF assms] by simp

lemma forget_markup_eq_value:
  assumes "forget_markup d = forget_markup d'" "p < length d"
  shows "input_value (d' ! p) = input_value (d ! p)"
  using forget_markup_eq_nth [OF assms] by simp

lemma forget_set_inner_html [simp]: "forget_markup (set_inner_html i h d) = forget_markup d"
  by (auto simp: forget_markup_def set_inner_html_def nth_list_update intro!: nth_equalityI)

lemma forget_set_text_content [simp]: "forget_markup (set_text_content i t d) = forget_markup d"
  by (simp add: set_text_content_def)

lemma forget_set_value: "forget_markup (set_value i v d) = set_value i v (forget_markup d)"
  by (auto simp: forget_markup_def set_value_def nth_list_update intro!: nth_equalityI)

lemma query_all_forget [simp]: "query_all (forget_markup d) s = query_all d s"
  by (rule query_all_same_shape) simp

lemma query_first_forget [simp]: "query_first (forget_markup d) s = query_first d s"
  by (rule query_first_same_shape) simp

lemma qty_key_forget [simp]: "qty_key (forget_markup d) i = qty_key d i"
  by (rule qty_key_same_shape) simp

section \<open>Lemmas: the price writes up to markup\<close>

lemma fold_text_forget: "forget_markup (fold (\<lambda>i d. set_text_content i v d) es d) = forget_markup d"
  by (induction es arbitrary: d) simp_all

lemma forget_update_price [simp]: "forget_markup (update_price sel c fmt d) = forget_markup d"
  by (simp add: update_price_def Let_def fold_text_forget)

lemma forget_item_price_writes [simp]: "forget_markup (item_price_writes fmt it d) = forget_markup d"
  by (simp add: item_price_writes_def Let_def split: option.split)

lemma forget_update_quantity:
  "forget_markup (update_quantity act locked it d) = update_quantity act locked it (forget_markup d)"
proof (cases "query_first d (qty_input_sel (item_key it))")
  case (Some q)
  then have "q < length d" by (rule query_first_less)
  with Some show ?thesis by (simp add: update_quantity_def forget_set_value)
qed (simp add: update_quantity_def)

lemma forget_fold_apply_item:
  "forget_markup (fold (apply_item fmt act locked) its d) =
     fold (update_quantity act locked) its (forget_markup d)"
  by (induction its arbitrary: d) (simp_all add: apply_item_def forget_update_quantity)

lemma apply_price_updates_forget:
  "map_sum id forget_markup (apply_price_updates fmts act locked c its d) =
     map_sum id forget_markup (apply_price_updates fmts act locked c its (forget_markup d))"
  by (simp add: apply_price_updates_def forget_fold_apply_item split: option.split)

section \<open>Lemmas: the machine up to markup\<close>

text \<open>Two drawer states are equal up to markup when their views are equal; every
  operation of the machine maps such states to such states.\<close>

lemma drawer_view_idem [simp]: "drawer_view (drawer_view s) = drawer_view s"
  by (simp add: drawer_view_def)

lemma drawer_view_fields [simp]:
  "page (drawer_view s) = forget_markup (page s)" "active (drawer_view s) = active s"
  "interacting (drawer_view s) = interacting s" "now (drawer_view s) = now s"
  "timers (drawer_view s) = timers s" "listeners (drawer_view s) = listeners s"
  "open_listeners (drawer_view s) = open_listeners s" "pending_fetches (drawer_view s) = pending_fetches s"
  "refreshes (drawer_view s) = refreshes s"
  by (simp_all add: drawer_view_def)

lemma view_eq_fields:
  assumes "drawer_view s = drawer_view t"
  shows "forget_markup (page s) = forget_markup (page t) \<and> active s = active t \<and> interacting s = interacting t
    \<and> now s = now t \<and> timers s = timers t \<and> listeners s = listeners t \<and> open_listeners s = open_listeners t
    \<and> pending_fetches s = pending_fetches t \<and> refreshes s = refreshes t"
  using arg_cong [OF assms, of page] arg_cong [OF assms, of active] arg_cong [OF assms, of interacting]
    arg_cong [OF assms, of now] arg_cong [OF assms, of timers] arg_cong [OF assms, of listeners]
    arg_cong [OF assms, of open_listeners] arg_cong [OF assms, of pending_fetches]
    arg_cong [OF assms, of refreshes]
  by simp

lemma view_eq_page:
  assumes "drawer_view s = drawer_view t" "forget_markup d = forget_markup d'"
  shows "drawer_view (s\<lparr>page := d\<rparr>) = drawer_view (t\<lparr>page := d'\<rparr>)"
  using arg_cong [OF assms(1), of "\<lambda>r. r\<lparr>page := forget_markup d'\<rparr>"] assms(2)
  by (simp add: drawer_view_def)

lemma view_funpow:
  fixes f :: "drawer_state \<Rightarrow> drawer_state"
  assumes st: "drawer_view s = drawer_view t"
    and f: "\<And>s t. drawer_view s = drawer_view t \<Longrightarrow> drawer_view (f s) = drawer_view (f t)"
  shows "drawer_view ((f ^^ n) s) = drawer_view ((f ^^ n) t)"
proof (induction n)
  case 0
  then show ?case using st by simp
next
  case (Suc n)
  then show ?case using f [OF Suc.IH] by simp
qed

lemma view_set_timeout: "drawer_view (set_timeout dt k s) = set_timeout dt k (drawer_view s)"
  by (simp add: drawer_view_def set_timeout_def)

lemma view_set_timeout_cong:
  "drawer_view s = drawer_view t \<Longrightarrow> drawer_view (set_timeout dt k s) = drawer_view (set_timeout dt k t)"
  by (simp add: view_set_timeout)

lemma view_check_wcp:
  assumes "drawer_view s = drawer_view t"
  shows "drawer_view (check_wcp env r c s) = drawer_view (check_wcp env r c t)"
  using view_eq_fields [OF assms] view_set_timeout_cong [OF assms] by (simp add: check_wcp_def)

lemma apply_price_updates_view:
  assumes "forget_markup d = forget_markup d'"
  shows "map_sum id forget_markup (apply_price_updates fmts act locked c its d) =
         map_sum id forget_markup (apply_price_updates fmts act locked c its d')"
  using apply_price_updates_forget [of fmts act locked c its d] apply_price_updates_forget [of fmts act locked c its d']
    assms by simp

lemma view_apply_in_state:
  assumes st: "drawer_view s = drawer_view t"
  shows "drawer_view (apply_in_state env c s) = drawer_view (apply_in_state env c t)"
proof (cases "items c")
  case (Some its)
  note f = view_eq_fields [OF st]
  let ?a = "apply_price_updates (number_format env) (active s) (interacting s) c its"
  have eq: "map_sum id forget_markup (?a (page s)) = map_sum id forget_markup (?a (page t))"
    using f by (intro apply_price_updates_view) simp
  show ?thesis
  proof (cases "?a (page s)")
    case (Inl e)
    then have "?a (page t) = Inl e" using eq by (cases "?a (page t)") simp_all
    then show ?thesis using Some Inl f st by (simp add: apply_in_state_def)
  next
    case (Inr d)
    then obtain d' where d': "?a (page t) = Inr d'" "forget_markup d = forget_markup d'"
      using eq by (cases "?a (page t)") auto
    have "drawer_view (s\<lparr>page := d\<rparr>) = drawer_view (t\<lparr>page := d'\<rparr>)"
      using st d'(2) by (rule view_eq_page)
    note pg = this view_set_timeout_cong [OF this]
    show ?thesis
      using Some Inr d'(1) f pg by (simp add: apply_in_state_def)
  qed
qed (simp add: apply_in_state_def st)

lemma is_wholesale_customer_view:
  "drawer_view s = drawer_view t \<Longrightarrow> is_wholesale_customer env s = is_wholesale_customer env t"
  using view_eq_fields [of s t] query_first_forget [of "page s"] query_first_forget [of "page t"]
  by (simp add: is_wholesale_customer_def)

lemma view_update_cart_drawer_prices:
  assumes "drawer_view s = drawer_view t"
  shows "drawer_view (update_cart_drawer_prices env co s) = drawer_view (update_cart_drawer_prices env co t)"
  using is_wholesale_customer_view [OF assms, of env] view_check_wcp [OF assms] view_apply_in_state [OF assms] assms
  by (simp add: update_cart_drawer_prices_def split: option.split)

lemma drawer_view_upd [simp]:
  "drawer_view (s\<lparr>active := a\<rparr>) = (drawer_view s)\<lparr>active := a\<rparr>"
  "drawer_view (s\<lparr>interacting := ks\<rparr>) = (drawer_view s)\<lparr>interacting := ks\<rparr>"
  "drawer_view (s\<lparr>now := n\<rparr>) = (drawer_view s)\<lparr>now := n\<rparr>"
  "drawer_view (s\<lparr>now := n, timers := ts\<rparr>) = (drawer_view s)\<lparr>now := n, timers := ts\<rparr>"
  "drawer_view (s\<lparr>listeners := l, open_listeners := ol\<rparr>) = (drawer_view s)\<lparr>listeners := l, open_listeners := ol\<rparr>"
  "drawer_view (s\<lparr>pending_fetches := pf\<rparr>) = (drawer_view s)\<lparr>pending_fetches := pf\<rparr>"
  "drawer_view (s\<lparr>refreshes := r\<rparr>) = (drawer_view s)\<lparr>refreshes := r\<rparr>"
  by (simp_all add: drawer_view_def)

lemma qty_key_view: "drawer_view s = drawer_view t \<Longrightarrow> qty_key (page s) i = qty_key (page t) i"
  using view_eq_fields [of s t] qty_key_forget [of "page s" i] qty_key_forget [of "page t" i] by simp

lemma view_lock_key:
  assumes "drawer_view s = drawer_view t"
  shows "drawer_view (lock_key i s) = drawer_view (lock_key i t)"
  using assms qty_key_view [OF assms, of i] view_eq_fields [OF assms]
  by (simp add: lock_key_def split: option.split)

lemma view_release_later:
  assumes "drawer_view s = drawer_view t"
  shows "drawer_view (release_later i s) = drawer_view (release_later i t)"
  using assms qty_key_view [OF assms, of i] view_set_timeout_cong [OF assms]
  by (simp add: release_later_def split: option.split)

lemma view_init:
  assumes "drawer_view s = drawer_view t"
  shows "drawer_view (init_cart_drawer_price_updates s) = drawer_view (init_cart_drawer_price_updates t)"
  using assms view_eq_fields [OF assms] query_first_forget [of "page s"] query_first_forget [of "page t"]
  by (simp add: init_cart_drawer_price_updates_def)

lemma view_run_task:
  assumes "drawer_view s = drawer_view t"
  shows "drawer_view (run_task env k s) = drawer_view (run_task env k t)"
  using assms view_eq_fields [OF assms] view_check_wcp [OF assms] view_apply_in_state [OF assms]
  by (cases k) simp_all

lemma view_fire:
  assumes "drawer_view s = drawer_view t"
  shows "drawer_view (fire env s) = drawer_view (fire env t)"
proof -
  note f = view_eq_fields [OF assms]
  have "drawer_view (s\<lparr>now := n, timers := ts\<rparr>) = drawer_view (t\<lparr>now := n, timers := ts\<rparr>)" for n ts
    using assms by simp
  then show ?thesis using f assms view_run_task by (simp add: fire_def Let_def)
qed

lemma view_drawer_step:
  assumes st: "drawer_view s = drawer_view t"
  shows "drawer_view (drawer_step env s e) = drawer_view (drawer_step env t e)"
proof (cases e)
  case (FocusIn i)
  have "drawer_view (s\<lparr>active := Some i\<rparr>) = drawer_view (t\<lparr>active := Some i\<rparr>)" using st by simp
  then have "drawer_view ((lock_key i ^^ listeners s) (s\<lparr>active := Some i\<rparr>)) =
             drawer_view ((lock_key i ^^ listeners s) (t\<lparr>active := Some i\<rparr>))"
    by (rule view_funpow) (erule view_lock_key)
  then show ?thesis using FocusIn view_eq_fields [OF st] by simp
next
  case (FocusOut i)
  have "drawer_view (s\<lparr>active := None\<rparr>) = drawer_view (t\<lparr>active := None\<rparr>)" using st by simp
  then have "drawer_view ((release_later i ^^ listeners s) (s\<lparr>active := None\<rparr>)) =
             drawer_view ((release_later i ^^ listeners s) (t\<lparr>active := None\<rparr>))"
    by (rule view_funpow) (erule view_release_later)
  then show ?thesis using FocusOut view_eq_fields [OF st] by simp
next
  case (UserInput i v)
  have "forget_markup (set_value i v (page s)) = forget_markup (set_value i v (page t))"
    using view_eq_fields [OF st] by (simp add: forget_set_value)
  then have "drawer_view (s\<lparr>page := set_value i v (page s)\<rparr>) = drawer_view (t\<lparr>page := set_value i v (page t)\<rparr>)"
    by (rule view_eq_page [OF st])
  then have "drawer_view ((lock_key i ^^ listeners s) (s\<lparr>page := set_value i v (page s)\<rparr>)) =
             drawer_view ((lock_key i ^^ listeners s) (t\<lparr>page := set_value i v (page t)\<rparr>))"
    by (rule view_funpow) (erule view_lock_key)
  moreover have "listeners t = listeners s" using view_eq_fields [OF st] by simp
  ultimately show ?thesis using UserInput by (simp only: drawer_step.simps)
next
  case (CartChange co)
  have "drawer_view ((update_cart_drawer_prices env co ^^ listeners s) s) =
        drawer_view ((update_cart_drawer_prices env co ^^ listeners s) t)"
    using st by (rule view_funpow) (erule view_update_cart_drawer_prices)
  then show ?thesis using CartChange view_eq_fields [OF st] by simp
next
  case (FetchDone co)
  have "drawer_view (s\<lparr>pending_fetches := pending_fetches s - 1\<rparr>) =
        drawer_view (t\<lparr>pending_fetches := pending_fetches t - 1\<rparr>)"
    using st view_eq_fields [OF st] by simp
  then have "drawer_view (update_cart_drawer_prices env co (s\<lparr>pending_fetches := pending_fetches s - 1\<rparr>)) =
        drawer_view (update_cart_drawer_prices env co (t\<lparr>pending_fetches := pending_fetches t - 1\<rparr>))"
    by (rule view_update_cart_drawer_prices)
  then show ?thesis using FetchDone by simp
next
  case DomReady
  then show ?thesis using view_init [OF st] by simp
next
  case (SectionLoad b)
  have c: "drawer_view (r\<lparr>open_listeners := 0\<rparr>) = (drawer_view r)\<lparr>open_listeners := 0\<rparr>" for r
    by (cases r) (simp add: drawer_view_def)
  have "drawer_view (s\<lparr>open_listeners := 0\<rparr>) = drawer_view (t\<lparr>open_listeners := 0\<rparr>)"
    unfolding c st ..
  then show ?thesis using view_init [of "s\<lparr>open_listeners := 0\<rparr>"] SectionLoad st by simp
next
  case DrawerOpen
  then show ?thesis using st view_eq_fields [OF st] by simp
next
  case Fire
  then show ?thesis using view_fire [OF st] by simp
next
  case (Wait d)
  then show ?thesis using st view_eq_fields [OF st] by simp
qed

lemma event_ok_view:
  assumes "drawer_view s = drawer_view t"
  shows "event_ok s e = event_ok t e"
proof -
  note f = view_eq_fields [OF assms]
  then have "length (page t) = length (page s)" by (intro forget_markup_eq_length) simp
  moreover have "active s = active t" "timers s = timers t" "now s = now t"
    "pending_fetches s = pending_fetches t" using f by simp_all
  ultimately show ?thesis by (cases e) simp_all
qed

end
