(* ===== verification/ThemeLog.thy ===== *)
theory ThemeLog
  imports DrawerWrites
begin

text \<open>
  The example listeners of the theme's \<open>src/assets/custom.js\<close> (lines 12--68): one
  listener per theme event, each writing the event's data to the browser console.  The
  console is modelled as the list of the values logged, in order; a listener that throws
  leaves the browser's report of the uncaught exception there instead.  The listeners
  read \<open>event.detail.variant\<close> and \<open>event.detail.cart\<close> without checking
  \<open>event.detail\<close>, so an event dispatched without a detail throws a TypeError in
  them.  The page theory dispatches these listeners together with the other scripts'.
\<close>

section \<open>Events and their detail\<close>

text \<open>\<open>event.detail\<close> of a theme event as the listeners read one property of it:
  absent (\<open>undefined\<close> or \<open>null\<close>: reading the property throws), or present with the
  property falsy (\<open>None\<close>) or truthy.\<close>

datatype 'a detail = NoDetail | Detail "'a option"

text \<open>\<open>event.detail && event.detail.p\<close>, the guarded read of the drawer script
  (line 234).\<close>

fun detail_prop :: "'a detail \<Rightarrow> 'a option" where
  "detail_prop NoDetail = None"
| "detail_prop (Detail v) = v"

text \<open>The theme events the example listeners take (lines 21, 35, 44, 51--53, 56): a
  variant change on a container element, with the variant (its id) in the detail, a cart
  change with the cart in the detail, the cart's first load, and the debounced scroll and
  resize events.\<close>

datatype theme_event =
    VariantChange nat "int detail"
  | ThemeCartChange "cart detail"
  | ThemeCartInit
  | ThemeScroll
  | ThemeScrollUp
  | ThemeScrollDown
  | ThemeResize

section \<open>The console\<close>

text \<open>The three banner strings of lines 27, 29 and 38 (\<open>'Container'\<close>, \<open>'Variant'\<close>
  and \<open>'Cart'\<close> followed by a rule and an arrow, not ASCII); each is logged as is.\<close>

datatype banner = ContainerBanner | VariantBanner | CartBanner

text \<open>A value written to the console: a banner, another string, an element, a variant,
  a cart, an event object (by its type), an error object handed to \<open>console.error\<close>,
  the rejection of a failed request, or the browser's report of an exception that escaped
  a callback.\<close>

datatype log_entry =
    LogBanner banner
  | LogText string
  | LogNode nat
  | LogVariant int
  | LogCart cart
  | LogEvent string
  | LogError js_error
  | LogFetchFailure
  | LogUncaught js_error

section \<open>The listeners (lines 21--56)\<close>

text \<open>What one listener logs, or the exception it throws before logging anything.\<close>

fun theme_log_listener :: "theme_event \<Rightarrow> log_entry list js_result" where
  "theme_log_listener (VariantChange t NoDetail) = Inl TypeError"
| "theme_log_listener (VariantChange t (Detail None)) = Inr []"
| "theme_log_listener (VariantChange t (Detail (Some v))) =
     Inr [LogBanner ContainerBanner, LogNode t, LogBanner VariantBanner, LogVariant v]"
| "theme_log_listener (ThemeCartChange NoDetail) = Inl TypeError"
| "theme_log_listener (ThemeCartChange (Detail None)) = Inr []"
| "theme_log_listener (ThemeCartChange (Detail (Some c))) = Inr [LogBanner CartBanner, LogCart c]"
| "theme_log_listener ThemeCartInit = Inr [LogText ''theme:cart:init'', LogEvent ''theme:cart:init'']"
| "theme_log_listener ThemeScroll = Inr [LogEvent ''theme:scroll'']"
| "theme_log_listener ThemeScrollUp = Inr [LogEvent ''theme:scroll:up'']"
| "theme_log_listener ThemeScrollDown = Inr [LogEvent ''theme:scroll:down'']"
| "theme_log_listener ThemeResize = Inr [LogEvent ''theme:resize'']"

text \<open>Dispatching an event to the listener: its entries are appended to the console; an
  exception escapes the listener and is reported.\<close>

definition log_dispatch :: "theme_event \<Rightarrow> log_entry list \<Rightarrow> log_entry list" where
  "log_dispatch e c =
     (case theme_log_listener e of Inl err \<Rightarrow> c @ [LogUncaught err] | Inr es \<Rightarrow> c @ es)"

section \<open>Lemmas\<close>

lemma theme_log_listener_error:
  "theme_log_listener e = Inl err \<longleftrightarrow>
     err = TypeError \<and> ((\<exists>t. e = VariantChange t NoDetail) \<or> e = ThemeCartChange NoDetail)"
  by (cases e rule: theme_log_listener.cases) auto

lemma log_dispatch_prefix: "prefix c (log_dispatch e c)"
  by (simp add: log_dispatch_def split: sum.split)

lemma log_dispatch_cart_change:
  "log_dispatch (ThemeCartChange dt) c =
     (case dt of NoDetail \<Rightarrow> c @ [LogUncaught TypeError] | Detail None \<Rightarrow> c
      | Detail (Some ct) \<Rightarrow> c @ [LogBanner CartBanner, LogCart ct])"
  by (cases dt rule: detail_prop.cases) (auto simp: log_dispatch_def split: option.split)

end
