(* ===== verification/Page.thy ===== *)
theory Page
  imports DrawerView CartTotal TieredPricing ThemeLog "HOL-Library.Multiset"
begin

text \<open>
  The storefront page with all three script files loaded: one document, one clock and one
  event loop shared by the tiered price watcher (\<open>cart-tiered-pricing.js\<close>), the footer
  total updater (\<open>cart-total-updater.js\<close>), the cart-drawer updater and the example
  logging listeners (\<open>custom.js\<close>).  A DOM event reaches every listener registered for
  it, in the order of registration; each timer and each mutation observer runs its own
  callback.  The page state holds the drawer machine of \<open>Drawer\<close> (which carries the
  document, the focus, the locks and the clock) beside the observers and timers of the two
  other scripts and the console.  The step function dispatches an event to the scripts'
  listeners; \<open>page_event_ok\<close> says which events the browser can deliver; the order in which
  timers due at the same time fire and the mutation records observers receive are left
  open, so every theorem about the reachable states holds for every such choice.
\<close>

section \<open>The page's state\<close>

text \<open>What the page provides: the drawer's environment (\<open>window.wcp_data\<close>,
  \<open>wcpRefreshCartTotal\<close>, \<open>Intl\<close>) and \<open>window.theme\<close>.\<close>

record page_env =
  denv :: drawer_env
  pg_theme :: "theme option"

text \<open>The drawer's machine; the observed elements of the tiered watcher (one entry per
  observer) and the due times of its pending \<open>setTimeout(preserveTieredPricing, 100)\<close>;
  the observed nodes of the footer updater and the due times of its pending
  \<open>setTimeout(initializeCartTotalUpdater, 500)\<close>; the console; whether
  \<open>DOMContentLoaded\<close> has fired; whether the tiered watcher and the drawer wait for it
  (they found the document loading when they ran).\<close>

record page_state =
  dr :: drawer_state
  tiered_obs :: "nat list"
  tiered_due :: "nat list"
  footer_obs :: "nat list"
  footer_due :: "nat list"
  console :: "log_entry list"
  ready :: bool
  scripts_wait :: bool

text \<open>The browser's report of an exception that escaped a callback.\<close>

definition report :: "js_error \<Rightarrow> page_state \<Rightarrow> page_state" where
  "report e s = s\<lparr>console := console s @ [LogUncaught e]\<rparr>"

definition set_doc :: "dom \<Rightarrow> page_state \<Rightarrow> page_state" where
  "set_doc d s = s\<lparr>dr := (dr s)\<lparr>page := d\<rparr>\<rparr>"

section \<open>The scripts' callbacks on the shared state\<close>

text \<open>\<open>preserveTieredPricing\<close> (cart-tiered-pricing.js lines 5--31) on the page.\<close>

definition tiered_preserve :: "page_state \<Rightarrow> page_state" where
  "tiered_preserve s = s\<lparr>tiered_obs := preserve_tiered_pricing (page (dr s)) (tiered_obs s)\<rparr>"

text \<open>\<open>initializeCartTotalUpdater\<close> (cart-total-updater.js lines 75--96) on the page; an
  exception escapes it and is reported.\<close>

definition footer_init :: "theme option \<Rightarrow> page_state \<Rightarrow> page_state" where
  "footer_init th s =
     (case initialize_cart_total_updater th (page (dr s)) (footer_obs s) of
        Inl e \<Rightarrow> report e s
      | Inr (d, obs) \<Rightarrow> (set_doc d s)\<lparr>footer_obs := obs\<rparr>)"

text \<open>The footer observer's callback (cart-total-updater.js lines 78--86) on the page.\<close>

definition footer_callback :: "theme option \<Rightarrow> mutation list \<Rightarrow> page_state \<Rightarrow> page_state" where
  "footer_callback th ms s =
     (case total_observer_callback th ms (page (dr s)) of Inl e \<Rightarrow> report e s | Inr d \<Rightarrow> set_doc d s)"

text \<open>The \<open>theme:cart:change\<close> listeners: the tiered watcher's (cart-tiered-pricing.js
  lines 58--60), the footer updater's (cart-total-updater.js lines 99--101) and its
  \<open>cartUpdateComplete\<close> listener (lines 102--104), the drawer's (custom.js lines
  233--237, registered once per run of \<open>initCartDrawerPriceUpdates\<close>) and the logger's
  (custom.js lines 35--42).\<close>

definition tiered_cart_listener :: "page_state \<Rightarrow> page_state" where
  "tiered_cart_listener s = s\<lparr>tiered_due := tiered_due s @ [now (dr s) + 100]\<rparr>"

definition footer_cart_listener :: "page_state \<Rightarrow> page_state" where
  "footer_cart_listener s = s\<lparr>footer_due := footer_due s @ [now (dr s) + 500]\<rparr>"

definition footer_complete_listener :: "page_state \<Rightarrow> page_state" where
  "footer_complete_listener s = s\<lparr>footer_due := footer_due s @ [now (dr s) + 500]\<rparr>"

text \<open>The exception \<open>updateCartDrawerPrices\<close> (custom.js lines 87--98) throws to its
  caller: \<open>new Intl.NumberFormat\<close> (line 134) rejecting the currency, on the path
  without the wholesale app.  On the wholesale path the prices are applied in a promise
  callback and nothing is thrown to the caller.\<close>

definition drawer_throw :: "drawer_env \<Rightarrow> cart option \<Rightarrow> drawer_state \<Rightarrow> js_error option" where
  "drawer_throw env co s =
     (case co of
        None \<Rightarrow> None
      | Some c \<Rightarrow>
          (case items c of
             None \<Rightarrow> None
           | Some its \<Rightarrow>
               if is_wholesale_customer env s then None
               else (case apply_price_updates (number_format env) (active s) (interacting s) c its (page s) of
                       Inl e \<Rightarrow> Some e
                     | Inr _ \<Rightarrow> None)))"

text \<open>Each registered copy of the drawer's listener throws the same exception, since a
  copy that throws leaves the state as it was.\<close>

definition drawer_cart_listener :: "drawer_env \<Rightarrow> cart detail \<Rightarrow> page_state \<Rightarrow> page_state" where
  "drawer_cart_listener env dt s =
     s\<lparr>dr := drawer_step env (dr s) (CartChange (detail_prop dt)),
       console := console s @ (case drawer_throw env (detail_prop dt) (dr s) of
                                 None \<Rightarrow> []
                               | Some e \<Rightarrow> replicate (listeners (dr s)) (LogUncaught e))\<rparr>"

definition log_cart_listener :: "cart detail \<Rightarrow> page_state \<Rightarrow> page_state" where
  "log_cart_listener dt s = s\<lparr>console := log_dispatch (ThemeCartChange dt) (console s)\<rparr>"

text \<open>The fetch started by the drawer's \<open>theme:drawer:open\<close> listener settles
  (custom.js lines 244--251): the cart is applied in a \<open>then\<close> callback, and the
  \<open>catch\<close> of line 249 logs a failed request and an exception thrown while applying the
  cart alike, as \<open>'Error fetching cart:'\<close>.\<close>

definition drawer_fetch_done :: "drawer_env \<Rightarrow> cart option \<Rightarrow> page_state \<Rightarrow> page_state" where
  "drawer_fetch_done env co s =
     s\<lparr>dr := drawer_step env (dr s) (FetchDone co),
       console := console s @ (case co of
                                 None \<Rightarrow> [LogText ''Error fetching cart:'', LogFetchFailure]
                               | Some c \<Rightarrow> (case drawer_throw env co (dr s) of
                                              None \<Rightarrow> []
                                            | Some e \<Rightarrow> [LogText ''Error fetching cart:'', LogError e]))\<rparr>"

text \<open>The exception of the drawer's timer callback that fires next: the \<open>then\<close>
  callback of \<open>waitForWCP\<close> (lines 92--94) applying a cart whose currency
  \<open>Intl.NumberFormat\<close> rejects; nothing catches it, and the browser reports the
  rejected promise.\<close>

definition drawer_timer_throw :: "drawer_env \<Rightarrow> drawer_state \<Rightarrow> js_error option" where
  "drawer_timer_throw env s =
     (if timers s = [] then None
      else (let m = Min (fst ` set (timers s)); tk = hd (filter (\<lambda>tk. fst tk = m) (timers s))
            in case snd tk of
                 ResolveWcp c \<Rightarrow> drawer_throw env (Some c) s
               | _ \<Rightarrow> None))"

section \<open>Dispatch\<close>

text \<open>The scripts of the page.  The theme's layout decides the order in which they load
  and so the order in which their listeners are registered; the lemmas show the order
  does not matter, and the page model uses the order below.\<close>

datatype script = TieredScript | TotalScript | DrawerScript | LogScript

definition page_scripts :: "script list" where
  "page_scripts = [TieredScript, TotalScript, DrawerScript, LogScript]"

text \<open>Each script's \<open>DOMContentLoaded\<close> listener (cart-tiered-pricing.js lines 51--53,
  cart-total-updater.js line 98, custom.js lines 257--258); the logger has none.\<close>

fun on_dom_ready :: "page_env \<Rightarrow> script \<Rightarrow> page_state \<Rightarrow> page_state" where
  "on_dom_ready env TieredScript s = tiered_preserve s"
| "on_dom_ready env TotalScript s = footer_init (pg_theme env) s"
| "on_dom_ready env DrawerScript s = s\<lparr>dr := init_cart_drawer_price_updates (dr s)\<rparr>"
| "on_dom_ready env LogScript s = s"

fun on_cart_change :: "page_env \<Rightarrow> cart detail \<Rightarrow> script \<Rightarrow> page_state \<Rightarrow> page_state" where
  "on_cart_change env dt TieredScript s = tiered_cart_listener s"
| "on_cart_change env dt TotalScript s = footer_cart_listener s"
| "on_cart_change env dt DrawerScript s = drawer_cart_listener (denv env) dt s"
| "on_cart_change env dt LogScript s = log_cart_listener dt s"

text \<open>\<open>document.readyState\<close> when the scripts run: the document is still being
  parsed, parsed with \<open>DOMContentLoaded\<close> still to come (deferred scripts), or
  complete.\<close>

datatype ready_state = Loading | Interactive | Complete

text \<open>The scripts run at load (cart-tiered-pricing.js lines 51--55, custom.js lines
  257--261): while the document is loading the tiered watcher and the drawer wait for
  \<open>DOMContentLoaded\<close>, otherwise they start at once; the footer updater always listens
  for \<open>DOMContentLoaded\<close> (cart-total-updater.js line 98), which after an
  \<open>interactive\<close> start is still to come and after a \<open>complete\<close> one never fires, so it
  then waits for the first cart change.\<close>

definition page_init :: "ready_state \<Rightarrow> dom \<Rightarrow> page_state" where
  "page_init rs d =
     (let s = \<lparr>dr = drawer_init d, tiered_obs = [], tiered_due = [], footer_obs = [],
               footer_due = [], console = [], ready = (rs = Complete), scripts_wait = (rs = Loading)\<rparr>
      in if rs = Loading then s else s\<lparr>tiered_obs := preserve_tiered_pricing d [],
                                         dr := init_cart_drawer_price_updates (drawer_init d)\<rparr>)"

text \<open>What happens to the page: the document is ready; a theme event (a cart change
  reaches all four scripts, the other theme events only the logger); a
  \<open>cartUpdateComplete\<close>; an event only the drawer listens to (focus, typing, a section
  load, the drawer opening, a fetch settling); one of the timers fires (the tiered
  watcher's or the footer updater's, by due time, or the drawer's first); the observers
  of an element of the tiered watcher, or the footer observers, receive a batch of
  mutation records; time passes.\<close>

datatype page_event =
    PDomReady
  | PTheme theme_event
  | PUpdateComplete
  | PDrawer event
  | PTieredTimer nat
  | PFooterTimer nat
  | PDrawerTimer
  | PTieredNotify nat "mutation list"
  | PFooterNotify "mutation list"
  | PWait nat

definition advance :: "nat \<Rightarrow> page_state \<Rightarrow> page_state" where
  "advance t s = s\<lparr>dr := (dr s)\<lparr>now := max (now (dr s)) t\<rparr>\<rparr>"

fun page_step :: "page_env \<Rightarrow> page_state \<Rightarrow> page_event \<Rightarrow> page_state" where
  "page_step env s PDomReady =
     fold (on_dom_ready env) (if scripts_wait s then page_scripts else [TotalScript]) (s\<lparr>ready := True\<rparr>)"
| "page_step env s (PTheme (ThemeCartChange dt)) = fold (on_cart_change env dt) page_scripts s"
| "page_step env s (PTheme e) = s\<lparr>console := log_dispatch e (console s)\<rparr>"
| "page_step env s PUpdateComplete = footer_complete_listener s"
| "page_step env s (PDrawer (FetchDone co)) = drawer_fetch_done (denv env) co s"
| "page_step env s (PDrawer e) = s\<lparr>dr := drawer_step (denv env) (dr s) e\<rparr>"
| "page_step env s (PTieredTimer t) =
     tiered_preserve (advance t (s\<lparr>tiered_due := remove1 t (tiered_due s)\<rparr>))"
| "page_step env s (PFooterTimer t) =
     footer_init (pg_theme env) (advance t (s\<lparr>footer_due := remove1 t (footer_due s)\<rparr>))"
| "page_step env s PDrawerTimer =
     s\<lparr>dr := fire (denv env) (dr s),
       console := console s @ (case drawer_timer_throw (denv env) (dr s) of
                                 None \<Rightarrow> [] | Some e \<Rightarrow> [LogUncaught e])\<rparr>"
| "page_step env s (PTieredNotify i ms) =
     set_doc ((tiered_observer_callback (pg_theme env) i ms ^^ count_list (tiered_obs s) i) (page (dr s))) s"
| "page_step env s (PFooterNotify ms) = fold (\<lambda>_. footer_callback (pg_theme env) ms) (footer_obs s) s"
| "page_step env s (PWait d) = s\<lparr>dr := (dr s)\<lparr>now := now (dr s) + d\<rparr>\<rparr>"

text \<open>The due times of all pending timers.\<close>

definition page_dues :: "page_state \<Rightarrow> nat list" where
  "page_dues s = tiered_due s @ footer_due s @ map fst (timers (dr s))"

text \<open>The events only the drawer listens to.\<close>

fun drawer_local :: "event \<Rightarrow> bool" where
  "drawer_local (FocusIn i) = True"
| "drawer_local (FocusOut i) = True"
| "drawer_local (UserInput i v) = True"
| "drawer_local (SectionLoad b) = True"
| "drawer_local DrawerOpen = True"
| "drawer_local (FetchDone co) = True"
| "drawer_local _ = False"

text \<open>The events the browser can deliver: \<open>DOMContentLoaded\<close> once, the drawer's events
  as the drawer machine allows them, a timer only when it is due first, observers only when
  attached, and time no further than the first due timer.\<close>

fun page_event_ok :: "page_state \<Rightarrow> page_event \<Rightarrow> bool" where
  "page_event_ok s PDomReady = (\<not> ready s)"
| "page_event_ok s (PDrawer e) = (drawer_local e \<and> event_ok (dr s) e)"
| "page_event_ok s (PTieredTimer t) = (t \<in> set (tiered_due s) \<and> list_all (\<lambda>u. t \<le> u) (page_dues s))"
| "page_event_ok s (PFooterTimer t) = (t \<in> set (footer_due s) \<and> list_all (\<lambda>u. t \<le> u) (page_dues s))"
| "page_event_ok s PDrawerTimer =
     (timers (dr s) \<noteq> [] \<and> list_all (\<lambda>u. Min (fst ` set (timers (dr s))) \<le> u) (page_dues s))"
| "page_event_ok s (PTieredNotify i ms) = (i \<in> set (tiered_obs s))"
| "page_event_ok s (PFooterNotify ms) = (footer_obs s \<noteq> [])"
| "page_event_ok s (PWait d) = list_all (\<lambda>u. now (dr s) + d \<le> u) (page_dues s)"
| "page_event_ok s _ = True"

inductive page_reach :: "page_env \<Rightarrow> ready_state \<Rightarrow> dom \<Rightarrow> page_state \<Rightarrow> bool" for env rs d0 where
  init: "page_reach env rs d0 (page_init rs d0)"
| step: "page_reach env rs d0 s \<Longrightarrow> page_event_ok s e \<Longrightarrow> page_reach env rs d0 (page_step env s e)"


section \<open>The drawer's part of a page event\<close>

text \<open>The event of the drawer machine that a page event amounts to for the drawer:
  \<open>DOMContentLoaded\<close> when it waits for it, a cart change and the drawer's own events are
  delivered to it,
  the firing of another script's timer moves its clock forward, and the other events do
  not reach it.  This is the abstraction under which the page refines the drawer.\<close>

fun drawer_event_of :: "page_state \<Rightarrow> page_event \<Rightarrow> event option" where
  "drawer_event_of s PDomReady = (if scripts_wait s then Some DomReady else None)"
| "drawer_event_of s (PTheme (ThemeCartChange dt)) = Some (CartChange (detail_prop dt))"
| "drawer_event_of s (PDrawer e) = Some e"
| "drawer_event_of s (PTieredTimer t) = (if now (dr s) < t then Some (Wait (t - now (dr s))) else None)"
| "drawer_event_of s (PFooterTimer t) = (if now (dr s) < t then Some (Wait (t - now (dr s))) else None)"
| "drawer_event_of s PDrawerTimer = Some Fire"
| "drawer_event_of s (PWait d) = Some (Wait d)"
| "drawer_event_of s _ = None"

definition drawer_after :: "page_env \<Rightarrow> page_state \<Rightarrow> page_event \<Rightarrow> drawer_state" where
  "drawer_after env s ev =
     (case drawer_event_of s ev of None \<Rightarrow> dr s | Some e \<Rightarrow> drawer_step (denv env) (dr s) e)"

text \<open>A page state up to the order of its console: the other fields, and the console as a
  multiset of entries.\<close>

definition page_abs :: "page_state \<Rightarrow> page_state \<times> log_entry multiset" where
  "page_abs s = (s\<lparr>console := []\<rparr>, mset (console s))"

section \<open>Examples\<close>

text \<open>The drawer of \<open>DrawerWrites\<close> on a page with the default money format and no
  wholesale app, loaded after the document was parsed, and the page after the customer
  focuses its quantity input.\<close>

definition example_page_env :: page_env where
  "example_page_env = \<lparr>denv = example_env (\<lambda>t. WcpUndefined), pg_theme = default_theme\<rparr>"

definition example_page :: page_state where
  "example_page = page_step example_page_env (page_init Complete example_drawer) (PDrawer (FocusIn 2))"

section \<open>Lemmas: the order of the listeners\<close>

lemma update_funpow_now [simp]: "now ((update_cart_drawer_prices env co ^^ n) s) = now s"
  using script_step_funpow [of "update_cart_drawer_prices env co" s n, OF script_step_update]
  by (simp add: script_step_def)

lemma fold_cong_upto:
  assumes cong: "\<And>x s t. h s = h t \<Longrightarrow> h (f x s) = h (f x t)"
  shows "h s = h t \<Longrightarrow> h (fold f zs s) = h (fold f zs t)"
proof (induction zs arbitrary: s t)
  case (Cons z zs)
  show ?case using Cons.IH [OF cong [OF Cons.prems]] by simp
qed simp

lemma fold_move_front:
  assumes cong: "\<And>x s t. h s = h t \<Longrightarrow> h (f x s) = h (f x t)"
    and comm: "\<And>x y s. h (f x (f y s)) = h (f y (f x s))"
  shows "h (fold f ys (f a s)) = h (f a (fold f ys s))"
proof (induction ys arbitrary: s)
  case (Cons y ys)
  have "h (fold f ys (f y (f a s))) = h (fold f ys (f a (f y s)))"
    by (rule fold_cong_upto [where h = h and f = f, OF cong comm])
  also have "\<dots> = h (f a (fold f ys (f y s)))" by (rule Cons.IH)
  finally show ?case by simp
qed simp

text \<open>Functions that commute up to an abstraction \<open>h\<close>, and respect it, give the same
  abstraction for every order of application.\<close>

lemma fold_permute_upto:
  assumes cong: "\<And>x s t. h s = h t \<Longrightarrow> h (f x s) = h (f x t)"
    and comm: "\<And>x y s. h (f x (f y s)) = h (f y (f x s))"
  shows "mset xs = mset ys \<Longrightarrow> h (fold f xs s) = h (fold f ys s)"
proof (induction xs arbitrary: ys s)
  case Nil
  then show ?case by simp
next
  case (Cons a xs)
  then have "a \<in> set ys" by (metis list.set_intros(1) mset_eq_setD)
  then obtain ys1 ys2 where ys: "ys = ys1 @ a # ys2" by (meson split_list)
  have m: "mset xs = mset (ys1 @ ys2)" using Cons.prems ys by simp
  have "h (fold f (a # xs) s) = h (fold f (ys1 @ ys2) (f a s))" using Cons.IH [OF m] by simp
  also have "\<dots> = h (fold f ys2 (fold f ys1 (f a s)))" by simp
  also have "\<dots> = h (fold f ys2 (f a (fold f ys1 s)))"
    by (rule fold_cong_upto [where h = h and f = f, OF cong fold_move_front [where h = h and f = f, OF cong comm]])
  also have "\<dots> = h (fold f ys s)" using ys by simp
  finally show ?case .
qed

lemma page_abs_fields:
  assumes "page_abs s = page_abs t"
  shows "dr s = dr t \<and> tiered_obs s = tiered_obs t \<and> tiered_due s = tiered_due t \<and> footer_obs s = footer_obs t
    \<and> footer_due s = footer_due t \<and> ready s = ready t \<and> scripts_wait s = scripts_wait t
    \<and> mset (console s) = mset (console t)"
proof -
  have a: "s\<lparr>console := []\<rparr> = t\<lparr>console := []\<rparr>" and m: "mset (console s) = mset (console t)"
    using assms by (simp_all add: page_abs_def)
  show ?thesis
    using arg_cong [OF a, of dr] arg_cong [OF a, of tiered_obs] arg_cong [OF a, of tiered_due]
      arg_cong [OF a, of footer_obs] arg_cong [OF a, of footer_due] arg_cong [OF a, of ready]
      arg_cong [OF a, of scripts_wait] m
    by simp
qed

lemma page_absI:
  assumes "dr s = dr t" "tiered_obs s = tiered_obs t" "tiered_due s = tiered_due t" "footer_obs s = footer_obs t"
    "footer_due s = footer_due t" "ready s = ready t" "scripts_wait s = scripts_wait t"
    "mset (console s) = mset (console t)"
  shows "page_abs s = page_abs t"
  using assms by (simp add: page_abs_def)

lemma on_cart_change_cong:
  assumes "page_abs s = page_abs t"
  shows "page_abs (on_cart_change env dt x s) = page_abs (on_cart_change env dt x t)"
  using page_abs_fields [OF assms]
  by (cases x) (auto intro!: page_absI simp: tiered_cart_listener_def footer_cart_listener_def
      drawer_cart_listener_def log_cart_listener_def log_dispatch_def split: sum.split option.split)

lemma on_cart_change_comm:
  "page_abs (on_cart_change env dt a (on_cart_change env dt b s)) =
   page_abs (on_cart_change env dt b (on_cart_change env dt a s))"
  by (cases a; cases b) (auto intro!: page_absI simp: tiered_cart_listener_def footer_cart_listener_def
      drawer_cart_listener_def log_cart_listener_def log_dispatch_def split: sum.split option.split)

lemma update_cart_total_forget:
  "update_cart_total th d = Inr d' \<Longrightarrow> forget_markup d' = forget_markup d"
  by (drule update_cart_total_cases) auto

lemma initialize_forget:
  "initialize_cart_total_updater th d obs = Inr (d', obs') \<Longrightarrow> forget_markup d' = forget_markup d"
  by (auto simp: initialize_cart_total_updater_def update_cart_total_forget split: sum.splits)

text \<open>C30. The listeners that a \<open>theme:cart:change\<close> reaches commute up to the order of
  the console: whatever order the theme loads the three script files in, one cart change
  leaves the document, the drawer, the observers and the timers in the same state, and the
  console with the same entries, possibly in another order (the logger's entries and the
  reports of the drawer's exceptions).  The drawer writes the document at once; the tiered
  watcher and the footer updater only set their timers.\<close>

theorem cart_change_order_independent:
  assumes "mset order = mset page_scripts"
  shows "page_abs (fold (on_cart_change env dt) order s) = page_abs (fold (on_cart_change env dt) page_scripts s)"
proof (rule fold_permute_upto [where h = page_abs and f = "on_cart_change env dt"])
  show "page_abs (on_cart_change env dt x s) = page_abs (on_cart_change env dt x t)"
    if "page_abs s = page_abs t" for x s t
    using that by (rule on_cart_change_cong)
qed (simp_all add: on_cart_change_comm assms)

section \<open>Lemmas: the other scripts write only markup\<close>

lemma restore_price_forget [simp]: "forget_markup (restore_price th i d) = forget_markup d"
  by (simp add: restore_price_def)

lemma tiered_callback_forget [simp]: "forget_markup (tiered_observer_callback th i ms d) = forget_markup d"
  unfolding tiered_observer_callback_def by (induction ms arbitrary: d) simp_all

lemma tiered_callbacks_forget: "forget_markup ((tiered_observer_callback th i ms ^^ n) d) = forget_markup d"
  by (induction n) simp_all

lemma view_set_page: "forget_markup d = forget_markup (page x) \<Longrightarrow> drawer_view (x\<lparr>page := d\<rparr>) = drawer_view x"
  by (simp add: drawer_view_def)

lemma footer_init_view [simp]: "drawer_view (dr (footer_init th s)) = drawer_view (dr s)"
  by (auto simp: footer_init_def report_def set_doc_def view_set_page initialize_forget split: sum.split)

lemma footer_callback_view [simp]: "drawer_view (dr (footer_callback th ms s)) = drawer_view (dr s)"
  by (auto simp: footer_callback_def total_observer_callback_def report_def set_doc_def view_set_page
      update_cart_total_forget split: sum.split if_splits)

lemma footer_callbacks_view: "drawer_view (dr (fold (\<lambda>_. footer_callback th ms) xs s)) = drawer_view (dr s)"
  by (induction xs arbitrary: s) simp_all

lemma page_step_view: "drawer_view (dr (page_step env s ev)) = drawer_view (drawer_after env s ev)"
proof (cases ev)
  case PDomReady
  show ?thesis
  proof (cases "scripts_wait s")
    case True
    let ?s1 = "footer_init (pg_theme env) (tiered_preserve (s\<lparr>ready := True\<rparr>))"
    have "drawer_view (dr ?s1) = drawer_view (dr s)" by (simp add: tiered_preserve_def)
    then have "drawer_view (init_cart_drawer_price_updates (dr ?s1)) = drawer_view (init_cart_drawer_price_updates (dr s))"
      by (rule view_init)
    then show ?thesis using PDomReady True by (simp add: page_scripts_def drawer_after_def)
  next
    case False
    then show ?thesis using PDomReady by (simp add: drawer_after_def)
  qed
next
  case (PTheme e)
  then show ?thesis
    by (cases e) (simp_all add: page_scripts_def drawer_after_def tiered_cart_listener_def
        footer_cart_listener_def drawer_cart_listener_def log_cart_listener_def)
next
  case (PTieredTimer t)
  then show ?thesis
    by (simp add: drawer_after_def tiered_preserve_def advance_def max_def)
next
  case (PFooterTimer t)
  then show ?thesis
    by (simp add: drawer_after_def advance_def max_def)
next
  case (PTieredNotify i ms)
  then show ?thesis
    by (simp add: drawer_after_def set_doc_def view_set_page tiered_callbacks_forget)
next
  case (PFooterNotify ms)
  then show ?thesis by (simp add: drawer_after_def footer_callbacks_view)
next
  case (PDrawer e)
  then show ?thesis by (cases e) (simp_all add: drawer_after_def drawer_fetch_done_def)
qed (simp_all add: drawer_after_def footer_complete_listener_def)

lemma drawer_event_ok:
  assumes "page_event_ok s ev" "drawer_event_of s ev = Some e"
  shows "event_ok (dr s) e"
proof (cases ev)
  case (PTieredTimer t)
  then show ?thesis using assms by (auto simp: page_dues_def list_all_iff split: if_splits)
next
  case (PFooterTimer t)
  then show ?thesis using assms by (auto simp: page_dues_def list_all_iff split: if_splits)
next
  case (PWait d)
  then show ?thesis using assms by (auto simp: page_dues_def list_all_iff)
next
  case (PTheme te)
  then show ?thesis using assms by (cases te) auto
qed (use assms in \<open>auto split: if_splits\<close>)

text \<open>C33. The page refines the drawer: in every reachable state of the page, with all
  scripts running on one document, the drawer's state is a reachable state of the drawer
  machine running alone, up to the markup of the document.  The tiered watcher and the
  footer updater write only markup, which the drawer never reads.\<close>

theorem page_refines_drawer:
  assumes "page_reach env rs d0 s"
  shows "\<exists>t. drawer_reach (denv env) d0 t \<and> drawer_view t = drawer_view (dr s)"
  using assms
proof induction
  case init
  show ?case
  proof (cases "rs = Loading")
    case True
    then show ?thesis by (auto simp: page_init_def intro: drawer_reach.init)
  next
    case False
    have "drawer_reach (denv env) d0 (drawer_step (denv env) (drawer_init d0) DomReady)"
      by (rule drawer_reach.step [OF drawer_reach.init]) simp
    then show ?thesis using False by (auto simp: page_init_def)
  qed
next
  case (step s ev)
  then obtain t where t: "drawer_reach (denv env) d0 t" "drawer_view t = drawer_view (dr s)" by blast
  show ?case
  proof (cases "drawer_event_of s ev")
    case None
    then show ?thesis using t page_step_view [of env s ev] by (auto simp: drawer_after_def)
  next
    case (Some e)
    have ok: "event_ok t e" using drawer_event_ok [OF step(2) Some] event_ok_view [OF t(2)] by simp
    have "drawer_view (drawer_step (denv env) t e) = drawer_view (drawer_step (denv env) (dr s) e)"
      using t(2) by (rule view_drawer_step)
    then show ?thesis
      using drawer_reach.step [OF t(1) ok] page_step_view [of env s ev] Some
      by (auto simp: drawer_after_def)
  qed
qed

section \<open>Lemmas: the page keeps the drawer's guarantees\<close>

lemma page_step_forget:
  "forget_markup (page (dr (page_step env s ev))) = forget_markup (page (drawer_after env s ev))"
  using view_eq_fields [OF page_step_view [of env s ev]] by simp

lemma drawer_after_shape: "same_shape (page (dr s)) (page (drawer_after env s ev))"
  by (simp add: drawer_after_def drawer_step_shape split: option.split)

lemma drawer_event_of_input:
  "drawer_event_of s ev = Some (UserInput p v) \<Longrightarrow> ev = PDrawer (UserInput p v)"
  by (cases "(s, ev)" rule: drawer_event_of.cases) (auto split: if_splits)

lemma lock_inv_view: "lock_inv (drawer_view s) = lock_inv s"
  by (simp add: lock_inv_def)

lemma page_lock_inv:
  assumes "page_reach env rs d0 s"
  shows "lock_inv (dr s)"
  using assms
proof induction
  case init
  have "lock_inv (drawer_step (denv env) (drawer_init d0) DomReady)"
    by (rule lock_inv_step [OF lock_inv_init]) simp
  then show ?case using lock_inv_init [of d0] by (simp add: page_init_def Let_def)
next
  case (step s ev)
  have "lock_inv (drawer_after env s ev)"
    using step drawer_event_ok [OF step(2)] lock_inv_step
    by (auto simp: drawer_after_def split: option.split)
  then show ?case using lock_inv_view page_step_view [of env s ev] by metis
qed

lemma update_no_cart_funpow: "(update_cart_drawer_prices env None ^^ n) s = s"
  by (rule funpow_fixed) (simp add: update_cart_drawer_prices_def)

text \<open>C31. On the whole page, no event other than the customer typing into it changes the
  value of a quantity input that is focused or whose key is locked: the tiered watcher and
  the footer updater write only markup, and the drawer leaves such inputs alone.\<close>

theorem page_keeps_customer_input:
  assumes "p < length (page (dr s))"
    and "protected_input (active (dr s)) (interacting (dr s)) (page (dr s)) p"
    and "\<forall>v. ev \<noteq> PDrawer (UserInput p v)"
  shows "input_value (page (dr (page_step env s ev)) ! p) = input_value (page (dr s) ! p)"
proof -
  have l: "p < length (page (drawer_after env s ev))"
    using assms(1) drawer_after_shape [of s env ev] by (simp add: same_shape_length)
  have "input_value (page (dr (page_step env s ev)) ! p) = input_value (page (drawer_after env s ev) ! p)"
    using forget_markup_eq_value [OF page_step_forget [symmetric] l] by simp
  moreover have "input_value (page (drawer_after env s ev) ! p) = input_value (page (dr s) ! p)"
  proof (cases "drawer_event_of s ev")
    case (Some e)
    have "\<forall>v. e \<noteq> UserInput p v"
      using Some assms(3) drawer_event_of_input by blast
    then show ?thesis using Some assms(1,2) drawer_step_value by (simp add: drawer_after_def)
  qed (simp add: drawer_after_def)
  ultimately show ?thesis by simp
qed

lemma rejected_currency_throws:
  assumes "items c = Some its" "\<not> is_wholesale_customer env s"
    and "number_format env (if currency c = [] then ''USD'' else currency c) = None"
  shows "drawer_throw env (Some c) s = Some RangeError \<and> update_cart_drawer_prices env (Some c) s = s"
  using assms by (simp add: drawer_throw_def update_cart_drawer_prices_def apply_in_state_def apply_price_updates_def)


text \<open>C34. In every reachable state of the page each key in \<open>interactingInputs\<close> belongs
  to the focused quantity input or has a pending unlock timer: the drawer's lock invariant
  survives the other scripts running on the same document and clock.\<close>

theorem page_locked_keys_released:
  assumes "page_reach env rs d0 s" and "k \<in> interacting (dr s)"
  shows "(\<exists>i. active (dr s) = Some i \<and> qty_key (page (dr s)) i = Some k)
         \<or> (\<exists>t. (t, ClearKey k) \<in> set (timers (dr s)))"
  using page_lock_inv [OF assms(1)] assms(2) by (simp add: lock_inv_def)

section \<open>Witnesses\<close>

lemma example_page_reach: "page_reach example_page_env Complete example_drawer example_page"
proof -
  have "page_event_ok (page_init Complete example_drawer) (PDrawer (FocusIn 2))"
    by (simp add: page_init_def drawer_init_def init_cart_drawer_price_updates_def example_drawer_def)
  then show ?thesis unfolding example_page_def by (rule page_reach.step [OF page_reach.init])
qed

theorem cart_change_order_independent_witness:
  "mset [LogScript, DrawerScript, TotalScript, TieredScript] = mset page_scripts
   \<and> page_abs (fold (on_cart_change example_page_env (Detail (Some (example_cart 2))))
        [LogScript, DrawerScript, TotalScript, TieredScript] example_page)
     = page_abs (fold (on_cart_change example_page_env (Detail (Some (example_cart 2)))) page_scripts example_page)"
proof -
  have m: "mset [LogScript, DrawerScript, TotalScript, TieredScript] = mset page_scripts"
    by (simp add: page_scripts_def)
  show ?thesis using m cart_change_order_independent [OF m] by blast
qed

theorem page_refines_drawer_witness:
  "page_reach example_page_env Complete example_drawer example_page
   \<and> (\<exists>t. drawer_reach (denv example_page_env) example_drawer t \<and> drawer_view t = drawer_view (dr example_page))"
  using example_page_reach page_refines_drawer [OF example_page_reach] by blast

theorem page_keeps_customer_input_witness:
  "2 < length (page (dr example_page))
   \<and> protected_input (active (dr example_page)) (interacting (dr example_page)) (page (dr example_page)) 2
   \<and> (\<forall>v. PTheme (ThemeCartChange (Detail (Some (example_cart 3)))) \<noteq> PDrawer (UserInput 2 v))
   \<and> input_value (page (dr (page_step example_page_env example_page (PTheme (ThemeCartChange (Detail (Some (example_cart 3))))))) ! 2)
     = input_value (page (dr example_page) ! 2)"
proof -
  have a: "active (dr example_page) = Some 2" and l: "length (page (dr example_page)) = 4"
    by code_simp+
  have h1: "2 < length (page (dr example_page))" using l by simp
  have h2: "protected_input (active (dr example_page)) (interacting (dr example_page)) (page (dr example_page)) 2"
    using a by (simp add: protected_input_def)
  have h3: "\<forall>v. PTheme (ThemeCartChange (Detail (Some (example_cart 3)))) \<noteq> PDrawer (UserInput 2 v)" by simp
  show ?thesis using h1 h2 h3 page_keeps_customer_input [OF h1 h2 h3] by blast
qed

theorem page_locked_keys_released_witness:
  "page_reach example_page_env Complete example_drawer example_page \<and> ''k1'' \<in> interacting (dr example_page)
   \<and> ((\<exists>i. active (dr example_page) = Some i \<and> qty_key (page (dr example_page)) i = Some ''k1'')
      \<or> (\<exists>t. (t, ClearKey ''k1'') \<in> set (timers (dr example_page))))"
proof -
  have k: "''k1'' \<in> interacting (dr example_page)"
    by (code_simp)
  show ?thesis using example_page_reach k page_locked_keys_released [OF example_page_reach k] by blast
qed


end
