(* ===== verification/Spec2Isabelle.thy ===== *)
theory Spec2Isabelle
  imports TieredPricing CartTotal DrawerWrites Drawer Page
begin

text \<open>
  \<^bold>\<open>A verification library for the cart scripts of the Shopify theme.\<close>

  The repository's program is three browser scripts under \<open>src/assets/\<close> that keep
  the prices of a Shopify cart on screen up to date.  They share no code; they meet in
  the document, which all three read and write, and in the theme's events.
  \<^item> \<open>cart-tiered-pricing.js\<close> watches every line total that carries a
    \<open>data-discounted-price\<close> and writes the formatted discounted price back whenever
    the theme re-renders it (a MutationObserver per element, re-attached 100 ms after
    every \<open>theme:cart:change\<close>).
  \<^item> \<open>cart-total-updater.js\<close> sums the \<open>data-discounted-price\<close> attributes of the
    line totals and writes the formatted sum into the \<open>[data-cart-footer-total]\<close>
    element, at load and whenever the \<open>[data-line-items]\<close> subtree changes.
  \<^item> \<open>custom.js\<close> writes the prices and quantities of a cart object into the cart
    drawer on \<open>theme:cart:change\<close> and when the drawer opens (after fetching
    \<open>/cart.js\<close>), waits for a third-party wholesale pricing app (WCP) when the
    customer is a wholesale customer, and keeps a set of locked line keys so that
    it does not overwrite a quantity the customer is typing.  Its first 68 lines are
    a theme template of listeners that log theme events to the console.
  All three files are loaded on the same page: one document, one clock and one event
  loop, on which their listeners, timers and observers interleave.

  \<^bold>\<open>Theories.\<close>
  \<^descr>[\<open>Prelude\<close>] the error values a handler can throw (\<open>js_error\<close>: TypeError,
    ReferenceError, RangeError) and the result type \<open>'a js_result = js_error + 'a\<close>;
    the character classes of the regular expressions; the shared list lemmas and the
    collections \<open>js_simps\<close>, \<open>dom_simps\<close>.
  \<^descr>[\<open>JsRuntime\<close>] the ECMAScript built-ins the scripts call, on exact rationals
    (\<open>jsnum = Num rat | NaN\<close>): \<open>String\<close> of an integer (\<open>show_int\<close>), \<open>parseInt\<close>
    with and without radix, \<open>parseFloat\<close>, division, \<open>toFixed\<close>, \<open>String.replace\<close>
    with a string pattern (\<open>replace_first\<close>), \<open>trim\<close>, \<open>split\<close>; lemmas that the
    parsers read back what \<open>String\<close> and \<open>toFixed\<close> print.
  \<^descr>[\<open>Dom\<close>] the document as a list of element records (tag, attributes, markup,
    parent index, input value), \<open>textContent\<close>, \<open>innerHTML\<close>/\<open>textContent\<close>/
    \<open>value\<close> writes, the compound and descendant selectors the scripts build,
    \<open>querySelectorAll\<close>, \<open>querySelector\<close>, \<open>closest\<close>; \<open>same_shape\<close>, the frame
    relation every write keeps, under which every selector matches the same elements.
    \<open>textContent\<close> decodes only the entities the serializer writes, and the
    \<open>innerHTML\<close> getter returns the markup as written; both agree with a browser on
    markup-free text without \<open>&\<close>, which is what the claims that re-read a written
    price assume of it (\<open>plain_text\<close>, \<open>html_verbatim\<close>).
  \<^descr>[\<open>TieredPricing\<close>] \<open>cart-tiered-pricing.js\<close>: \<open>formatMoney\<close>
    (\<open>format_money_tiered\<close>), the guard of line 17 (\<open>needs_restore\<close>), the write
    (\<open>restore_price\<close>), the observer callback (\<open>tiered_observer_callback\<close>) and the
    loop of write and re-notification as a fuelled function \<open>tiered_settle\<close>,
    \<open>preserveTieredPricing\<close> and its re-runs (\<open>tiered_on_cart_changes\<close>).  Claims
    C1--C5: the output of \<open>formatMoney\<close>, that the loop stops after one write when
    the formatted price is plain text and never stops for an unstable format (the page
    hangs), and what one delivery of mutation records does.
  \<^descr>[\<open>CartTotal\<close>] \<open>cart-total-updater.js\<close>: the thousands regex
    (\<open>add_delimiters\<close>), \<open>formatWithDelimiters\<close>, the placeholder match and
    switch, \<open>formatMoney\<close> (\<open>format_money_total\<close>, a TypeError when there is no
    placeholder), the sum (\<open>cart_line_sum\<close>), \<open>updateCartTotal\<close> (a ReferenceError
    without \<open>theme\<close>), the observer and the initializer, and the listeners of lines
    98--104 as a step function \<open>total_step\<close> over the page's events (state: the
    document, the attached observers, the pending 500 ms timers).  Claims C6--C12, C28,
    C29: the formatter against a reference grouping (\<open>group_thousands\<close>), its error
    and unknown-placeholder behaviour, the footer written with the sum, that the update
    is idempotent when the written total is verbatim markup, that without \<open>theme\<close> the updater stays inert under every event
    sequence, and that observers accumulate with every cart change.
  \<^descr>[\<open>DrawerWrites\<close>] \<open>custom.js\<close> lines 132--197: the cart object, \<open>updatePrice\<close>,
    the quantity update and \<open>applyPriceUpdates\<close> as functions on the document, with
    \<open>Intl.NumberFormat\<close> a parameter (\<open>None\<close>: RangeError); an abstract plan of the
    price writes (\<open>cart_price_plan\<close>, \<open>plan_view\<close>: the last matching write decides
    an element's text).  Claims C15, C16, C24, C27: free quantity inputs hold the cart
    quantity, totals show the cart total, the writes refine the plan, and running them
    twice is running them once.
  \<^descr>[\<open>Drawer\<close>] \<open>custom.js\<close> lines 70--269 around those writes, as a step function
    \<open>drawer_step\<close> on an explicit state (\<open>drawer_state\<close>: document, focused element,
    \<open>interactingInputs\<close>, clock in ms, timer queue in setting order, registered
    listener counts, fetches in flight, calls of \<open>wcpRefreshCartTotal\<close>) over the
    events the page delivers (\<open>event\<close>), the ones it can deliver in a state
    (\<open>event_ok\<close>), runs and the inductive set of reachable states
    (\<open>drawer_reach\<close>).  \<open>updateCartDrawerPrices\<close>, \<open>isWholesaleCustomer\<close>,
    \<open>checkWCP\<close>, the listeners and \<open>initCartDrawerPriceUpdates\<close> are one definition
    each; the page around the script (\<open>window.wcp_data\<close> over time,
    \<open>wcpRefreshCartTotal\<close>, \<open>Intl\<close>) is the record \<open>drawer_env\<close>.  A theme-editor
    reload of the drawer's section replaces the drawer element, so its open listener is
    dropped before \<open>initCartDrawerPriceUpdates\<close> adds the new one, while the document
    listeners stay.  Claims C13, C14, C17--C23: a focused or locked input is never
    overwritten, every lock is held by focus or released by a pending timer (rule
    induction over \<open>drawer_reach\<close>), \<open>waitForWCP\<close> terminates within 800--1800 ms and
    refines its recursive reading \<open>wcp_resolve_time\<close>, the wholesale test that disagrees
    with the wait, the rejected currency, the listeners that accumulate over section
    reloads, that an unlock timer releases its key whatever later blur is pending, and
    that the waits of two carts do not resolve in the order the carts were announced.
    The lemmas \<open>early_unlock_run\<close> and \<open>stale_cart_run\<close> run the two last
    behaviours on a concrete page.
  \<^descr>[\<open>ThemeLog\<close>] \<open>custom.js\<close> lines 12--68: the theme events with their
    \<open>detail\<close> (absent, or a falsy or truthy property), the values the example listeners
    pass to \<open>console.log\<close> (\<open>theme_log_listener\<close>), and the console as the list of
    logged values (\<open>log_dispatch\<close>, which records the browser's report of an uncaught
    exception).
  \<^descr>[\<open>DrawerView\<close>] the drawer up to markup: \<open>forget_markup\<close> erases the markup of
    a document and \<open>drawer_view\<close> that of a drawer state; every operation of the drawer
    machine maps states equal up to markup to states equal up to markup, because the
    script reads only selectors and input values.
  \<^descr>[\<open>Page\<close>] the three files on one page (\<open>page_state\<close>: the drawer's state,
    which holds the document and the clock, the tiered watcher's and the footer updater's
    observers and pending timers, the console, whether \<open>DOMContentLoaded\<close> has
    fired and whether the scripts wait for it).  The console also receives the browser's reports of exceptions that escape a
    listener or a promise callback (\<open>drawer_throw\<close>, \<open>drawer_timer_throw\<close>) and
    what the drawer's fetch \<open>catch\<close> logs (\<open>drawer_fetch_done\<close>).  \<open>page_step\<close> dispatches a page event (\<open>page_event\<close>) to every
    listener registered for it (\<open>on_dom_ready\<close>, \<open>on_cart_change\<close>, one
    definition per listener); \<open>page_event_ok\<close> lets a timer fire only when it is due
    first, ties and mutation batches in any order; \<open>page_reach\<close> is the inductive set
    of reachable states from \<open>page_init\<close>, which runs the scripts at load as
    \<open>document.readyState\<close> (\<open>ready_state\<close>: loading, interactive, complete)
    decides.  Claims C30--C34: the listeners of a cart change commute up to the order of
    console entries (\<open>page_abs\<close>, by a permutation lemma for functions that commute
    up to an abstraction), so the scripts' load order does not matter to a cart change;
    the page keeps the customer's quantity inputs; a cart change
    without detail throws only in the logger, and a rejected currency is reported once per
    registered drawer listener and mislabelled by the fetch's \<open>catch\<close>; the page refines the drawer running alone
    (a simulation through \<open>drawer_event_of\<close>, up to markup), and the drawer's lock
    invariant holds on the whole page.
  \<^descr>[\<open>Spec2Isabelle\<close>] this theory: the properties that span the scripts.  Claims
    C25, C26: the two money formatters agree exactly on amounts with non-zero cents
    below 1000 units, and a tiered write leaves a current footer current.

  \<^bold>\<open>Fuel and bounds.\<close>  \<open>tiered_settle\<close> takes fuel because the observer loop of
  \<open>cart-tiered-pricing.js\<close> need not stop; C3 shows that two units suffice when the
  formatted price is plain text and C4 that no amount suffices for an unstable format.
  \<open>ancestors\<close> is bounded by the document's length, enough when every parent comes
  earlier (\<open>wf_dom\<close>; no step of the scripts changes a parent, \<open>same_shape\<close>).  \<open>wcp_resolve_time\<close> terminates by the
  measure \<open>maxRetries - retries\<close>; \<open>maxRetries = 5\<close>, \<open>retryInterval = 200\<close> and
  \<open>delay = 800\<close> come from \<open>WCP_CONFIG\<close> and give the bound 1800 ms of C18.

  \<^bold>\<open>Not modelled.\<close>  Floating point: numbers are exact rationals, so amounts
  beyond 2^53 cents, \<open>Infinity\<close>, and \<open>toFixed\<close> at 10^21 and above are outside the
  model.  \<open>Intl.NumberFormat\<close>'s output is a parameter, not modelled.  The browser's
  batching of mutation records and the order among callbacks of different
  MutationObservers: on the page (\<open>Page\<close>) an observer may receive any batch of records
  at any time, an over-approximation under which the page theorems hold for every
  batching; one interaction of the two watchers through the document is C26.  The
  entity table of HTML beyond \<open>&amp;\<close>, \<open>&lt;\<close>, \<open>&gt;\<close> and the serialization
  of markup by the \<open>innerHTML\<close> getter: the claims that depend on them are stated for
  text on which the model is exact.  A section reload is taken to re-render markup of
  the same shape, with focus left where it was.  The markup that replaces an
  element's children is kept as the element's own markup; child elements created by
  \<open>innerHTML\<close> are not added to the document.  Network and JSON decoding: a fetch
  settles with a cart or fails.  The objects the logging listeners print are kept as
  values; how the console renders them is not modelled.  An exception thrown by the
  third-party \<open>wcpRefreshCartTotal\<close> is not modelled (it is counted as a call).  The
  order in which the theme's layout loads the three files is not in the repository; C30
  shows it does not matter to a cart change beyond the order of console entries.
  Characters are the code points up to U+00FF.
\<close>

section \<open>Lemmas shared by the cross-component theorems\<close>


lemma find_placeholder_default: "find_placeholder ''${{amount}}'' = Some (''$'', ''amount'', [])"
  by code_simp

lemma total_default_cents:
  "format_money_total (JNum (Num (of_int c))) ''${{amount}}''
     = Inr (''$'' @ (if c < 0 then ''-'' else []) @ group_thousands '','' (show_nat (nat \<bar>c\<bar> div 100)) @ ''.''
            @ [digit_char (nat \<bar>c\<bar> div 10 mod 10), digit_char (nat \<bar>c\<bar> mod 10)])"
  using find_placeholder_default
  by (simp add: format_money_total_def placeholder_value_cents expected_amount_def Let_def)

text \<open>C25. The two formatters of the cart agree on the default format \<open>${{amount}}\<close>
  exactly for amounts with non-zero cents below 1000 units: the tiered watcher's
  \<open>formatMoney\<close> drops \<open>.00\<close> and never groups thousands, the footer's always prints two
  decimals and groups thousands with commas.\<close>

theorem formatters_agree_iff:
  assumes "tiered_format_string th = ''${{amount}}''" and "tiered_suffix th = []"
  shows "format_money_total (JNum (Num (of_int c))) ''${{amount}}'' = Inr (format_money_tiered th (show_int c))
         \<longleftrightarrow> nat \<bar>c\<bar> mod 100 \<noteq> 0 \<and> nat \<bar>c\<bar> < 100000"
proof -
  let ?n = "nat \<bar>c\<bar>" and ?q = "nat \<bar>c\<bar> div 100"
  let ?dd = "''.'' @ [digit_char (?n div 10 mod 10), digit_char (?n mod 10)]"
  have tiered: "format_money_tiered th (show_int c) =
      ''$'' @ (if c < 0 then ''-'' else []) @ show_nat ?q @ (if ?n mod 100 = 0 then [] else ?dd)"
  proof -
    let ?xs = "''$'' @ (if c < 0 then ''-'' else []) @ show_nat ?q"
    have "CHR ''.'' \<notin> set ?xs" by simp
    then have "replace_first ''.00'' [] (?xs @ ?dd) = ?xs @ (if ?n mod 100 = 0 then [] else ?dd)"
      by (rule drop_zero_cents) simp_all
    then show ?thesis
      using assms tiered_amount_show_int [of c] by (simp add: format_money_tiered_def replace_default_placeholder)
  qed
  have g: "group_thousands '','' (show_nat ?q) = show_nat ?q \<longleftrightarrow> ?n < 100000"
    using group_thousands_id [of "'',''" "show_nat ?q"] length_show_nat_le [of ?q 2] by auto
  show ?thesis
  proof (cases "?n mod 100 = 0")
    case True
    then show ?thesis
      using assms length_group_thousands [of "show_nat ?q" "'',''"]
      by (auto simp: total_default_cents tiered dest: arg_cong [where f = length])
  next
    case False
    then show ?thesis
      using assms g by (simp add: total_default_cents tiered)
  qed
qed

theorem formatters_agree_iff_witness:
  "tiered_format_string None = ''${{amount}}'' \<and> tiered_suffix None = []
   \<and> format_money_total (JNum (Num 1234)) ''${{amount}}'' = Inr (format_money_tiered None (show_int 1234))
   \<and> format_money_total (JNum (Num 123456)) ''${{amount}}'' \<noteq> Inr (format_money_tiered None (show_int 123456))"
proof -
  have h: "tiered_format_string None = ''${{amount}}''" "tiered_suffix None = []"
    by (simp_all add: tiered_format_string_def tiered_suffix_def)
  show ?thesis
    using formatters_agree_iff [OF h, of 1234] formatters_agree_iff [OF h, of 123456] h by simp
qed

text \<open>C26. A write of the tiered-price watcher does not make the footer total stale:
  when the footer showed the current total, the footer updater that the watcher's
  child-list mutation triggers finds it still current and writes nothing.\<close>

theorem tiered_write_keeps_footer_current:
  assumes cur: "update_cart_total th d = Inr d" and i: "query_first d footer_total_sel \<noteq> Some i"
  shows "update_cart_total th (restore_price th' i d) = Inr (restore_price th' i d)"
proof -
  let ?d2 = "restore_price th' i d"
  have sh: "same_shape d ?d2" by simp
  have q: "query_first ?d2 footer_total_sel = query_first d footer_total_sel"
    by (rule query_first_same_shape [OF sh])
  have s: "cart_line_sum ?d2 = cart_line_sum d"
    by (rule cart_line_sum_same_shape [OF sh])
  show ?thesis
  proof (cases "query_first d footer_total_sel")
    case None
    then show ?thesis using q by (simp add: update_cart_total_def)
  next
    case (Some t)
    then obtain mf ft where mf: "total_money_format th = Inr mf"
      and ft: "format_money_total (JNum (Num (cart_line_sum d))) mf = Inr ft"
      and eq: "d = (if html (d ! t) \<noteq> ft then set_inner_html t ft d else d)"
      using update_cart_total_cases [OF cur] by auto
    have tl: "t < length d" using query_first_less [OF Some] .
    have "html (d ! t) = ft"
    proof (rule ccontr)
      assume ne: "html (d ! t) \<noteq> ft"
      have "d = set_inner_html t ft d" using eq by (simp only: if_P [OF ne])
      then have "html (d ! t) = html (set_inner_html t ft d ! t)"
        by (rule arg_cong [where f = "\<lambda>x. html (x ! t)"])
      then have "html (d ! t) = ft" using tl by (simp add: nth_set_inner_html)
      with ne show False by simp
    qed
    moreover have "?d2 ! t = d ! t" using i Some by (simp add: restore_price_frame)
    ultimately show ?thesis using Some q s mf ft by (simp add: update_cart_total_def)
  qed
qed

theorem tiered_write_keeps_footer_current_witness:
  "update_cart_total default_theme settled_cart_page = Inr settled_cart_page
   \<and> query_first settled_cart_page footer_total_sel \<noteq> Some 2
   \<and> needs_restore default_theme 2 settled_cart_page
   \<and> update_cart_total default_theme (restore_price default_theme 2 settled_cart_page)
       = Inr (restore_price default_theme 2 settled_cart_page)"
proof -
  have c: "update_cart_total default_theme settled_cart_page = Inr settled_cart_page"
    and i: "query_first settled_cart_page footer_total_sel \<noteq> Some 2"
    and n: "needs_restore default_theme 2 settled_cart_page" by code_simp+
  show ?thesis using tiered_write_keeps_footer_current [OF c i, of default_theme] c i n by simp
qed

end
